theory Spec2Isabelle
  imports Main "HOL-Library.Multiset" "HOL-Library.Sublist" "HOL-Library.Char_ord"
    "HOL-Library.List_Lexorder" "HOL-Library.Product_Lexorder" "HOL-Library.AList"
begin

section \<open>Data: JSON documents, files and errors\<close>

text \<open>
  The program reads a fitness-tracker export (JSON and CSV files in one flat directory),
  reshapes it with pandas and writes tables. A parsed JSON document is a value of
  \<open>json\<close>; an object keeps its members in insertion order, as a Python \<open>dict\<close> does.
  JSON numbers are represented by the integers; the properties below concern strings,
  nulls and whole minutes.
\<close>

datatype json =
    JNull
  | JBool bool
  | JInt int
  | JStr string
  | JArr "json list"
  | JObj "(string \<times> json) list"

text \<open>The exceptions the routines can end with. \<open>OutsideModel\<close> marks the few places
  where pandas goes on with a shape this development does not describe (duplicate column
  labels, records that are not objects).\<close>

datatype error =
    FileNotFoundError
  | IsADirectoryError
  | JSONDecodeError
  | ParserError
  | TypeError
  | KeyError
  | AttributeError
  | ValueError
  | OverflowError
  | InvalidIndexError
  | OutsideModel

definition bnd :: "error + 'a \<Rightarrow> ('a \<Rightarrow> error + 'b) \<Rightarrow> error + 'b" where
  "bnd m f = (case m of Inl e \<Rightarrow> Inl e | Inr x \<Rightarrow> f x)"

fun mapM :: "('a \<Rightarrow> error + 'b) \<Rightarrow> 'a list \<Rightarrow> error + 'b list" where
  "mapM f [] = Inr []"
| "mapM f (x # xs) =
     (case f x of Inl e \<Rightarrow> Inl e
      | Inr y \<Rightarrow> (case mapM f xs of Inl e \<Rightarrow> Inl e | Inr ys \<Rightarrow> Inr (y # ys)))"

text \<open>What a file holds: a JSON document, a CSV table (header and rows, as
  \<open>read_csv\<close> delivers them) or anything else. A directory lists its entries by name.\<close>

datatype content =
    JsonDoc json
  | CsvDoc "string list" "json list list"
  | Other

datatype node =
    File content
  | Dir "(string \<times> node) list"

type_synonym directory = "(string \<times> node) list"

section \<open>Helper functions\<close>

text \<open>\<open>file_to_json\<close>: open the file and parse it. A path is the entry's name in
  \<open>raw_data_path\<close>.\<close>

definition file_to_json :: "directory \<Rightarrow> string \<Rightarrow> error + json" where
  "file_to_json raw infile_path =
     (case map_of raw infile_path of
        None \<Rightarrow> Inl FileNotFoundError
      | Some (Dir _) \<Rightarrow> Inl IsADirectoryError
      | Some (File (JsonDoc j)) \<Rightarrow> Inr j
      | Some (File _) \<Rightarrow> Inl JSONDecodeError)"

text \<open>\<open>files_to_json\<close> is \<open>sum((file_to_json(p) for p in file_list), [])\<close>: the
  generator is consumed one file at a time, and each document is added to the list built
  so far; \<open>list + x\<close> raises \<open>TypeError\<close> unless \<open>x\<close> is a list.\<close>

fun sum_from :: "directory \<Rightarrow> string list \<Rightarrow> json list \<Rightarrow> error + json list" where
  "sum_from raw [] acc = Inr acc"
| "sum_from raw (p # ps) acc =
     (case file_to_json raw p of
        Inl e \<Rightarrow> Inl e
      | Inr (JArr xs) \<Rightarrow> sum_from raw ps (acc @ xs)
      | Inr _ \<Rightarrow> Inl TypeError)"

definition files_to_json :: "directory \<Rightarrow> string list \<Rightarrow> error + json list" where
  "files_to_json raw file_list = sum_from raw file_list []"

section \<open>Tables\<close>

text \<open>
  A pandas \<open>DataFrame\<close>: its column labels, and its rows in order, each row with its index
  label and its cells by column label. A cell holds a JSON value or, once
  \<open>pd.to_datetime\<close> has converted the column, a point in time (\<open>None\<close> is \<open>NaT\<close>).
  \<open>None\<close> and \<open>NaN\<close> are both the null cell \<open>Val JNull\<close>.
\<close>

datatype cell = Val json | Time "int option"

type_synonym row = "cell \<times> (string \<times> cell) list"

record frame =
  columns :: "string list"
  body :: "row list"

definition isna :: "cell \<Rightarrow> bool" where
  "isna c = (c = Val JNull \<or> c = Time None)"

definition cell_of :: "(string \<times> cell) list \<Rightarrow> string \<Rightarrow> cell" where
  "cell_of cs c = (case map_of cs c of None \<Rightarrow> Val JNull | Some v \<Rightarrow> v)"

definition lookup_json :: "(string \<times> json) list \<Rightarrow> string \<Rightarrow> json" where
  "lookup_json d k = (case map_of d k of None \<Rightarrow> JNull | Some v \<Rightarrow> v)"

text \<open>A Python \<open>dict\<close> built by successive assignments: a key assigned again keeps its
  place and takes the new value.\<close>

definition dict_of :: "(string \<times> json) list \<Rightarrow> (string \<times> json) list" where
  "dict_of kvs = foldl (\<lambda>d (k, v). AList.update k v d) [] kvs"

definition union_keys :: "(string \<times> json) list list \<Rightarrow> string list" where
  "union_keys records = rev (remdups (rev (concat (map (map fst) records))))"

text \<open>\<open>DataFrame(records)\<close> for a list of flat dicts: the columns are the keys in order of
  first appearance, a key a record lacks is null, the index is \<open>0, 1, 2, ...\<close>.\<close>

definition range_index :: "(string \<times> cell) list list \<Rightarrow> row list" where
  "range_index rs = map (\<lambda>(i, r). (Val (JInt (int i)), r)) (enumerate 0 rs)"

definition DataFrame :: "(string \<times> json) list list \<Rightarrow> frame" where
  "DataFrame records =
     (let cols = union_keys records
      in \<lparr>columns = cols,
          body = range_index (map (\<lambda>r. map (\<lambda>c. (c, Val (lookup_json r c))) cols) records)\<rparr>)"

subsection \<open>Flattening nested records\<close>

text \<open>\<open>_normalise_json\<close>: the members of nested objects, depth first, under the joined
  key; at an empty key prefix the separator is stripped again.\<close>

fun normalise_json :: "string \<Rightarrow> string \<Rightarrow> json \<Rightarrow> (string \<times> json) list"
  and normalise_members :: "string \<Rightarrow> string \<Rightarrow> (string \<times> json) list \<Rightarrow> (string \<times> json) list"
where
  "normalise_json sep key_string (JObj kvs) = normalise_members sep key_string kvs"
| "normalise_json sep key_string v = [(key_string, v)]"
| "normalise_members sep key_string [] = []"
| "normalise_members sep key_string ((k, v) # kvs) =
     normalise_json sep (if key_string = [] then k else key_string @ sep @ k) v
       @ normalise_members sep key_string kvs"

fun is_dict :: "json \<Rightarrow> bool" where
  "is_dict (JObj _) = True"
| "is_dict _ = False"

text \<open>\<open>_normalise_json_ordered\<close>: the top-level members that are not objects first, then
  the flattened nested ones.\<close>

definition normalise_json_ordered :: "string \<Rightarrow> (string \<times> json) list \<Rightarrow> (string \<times> json) list" where
  "normalise_json_ordered sep d =
     dict_of (filter (\<lambda>(k, v). \<not> is_dict v) d
              @ normalise_json sep [] (JObj (filter (\<lambda>(k, v). is_dict v) d)))"

text \<open>\<open>nested_to_record\<close>, used on the records pulled by a \<open>record_path\<close>: at the top
  level a member that is not an object stays in place, an object is removed and its
  flattened members are added at the end; below, keys are prefix, separator, key.\<close>

fun nested_below :: "string \<Rightarrow> string \<Rightarrow> json \<Rightarrow> (string \<times> json) list"
  and nested_members :: "string \<Rightarrow> string \<Rightarrow> (string \<times> json) list \<Rightarrow> (string \<times> json) list"
where
  "nested_below sep newkey (JObj kvs) = nested_members sep newkey kvs"
| "nested_below sep newkey v = [(newkey, v)]"
| "nested_members sep pre [] = []"
| "nested_members sep pre ((k, v) # kvs) =
     nested_below sep (pre @ sep @ k) v @ nested_members sep pre kvs"

definition nested_to_record :: "string \<Rightarrow> (string \<times> json) list \<Rightarrow> (string \<times> json) list" where
  "nested_to_record sep d =
     dict_of (filter (\<lambda>(k, v). \<not> is_dict v) d
              @ concat (map (\<lambda>(k, v). nested_below sep k v) (filter (\<lambda>(k, v). is_dict v) d)))"

subsection \<open>\<open>pd.json_normalize\<close>\<close>

definition as_record :: "json \<Rightarrow> error + (string \<times> json) list" where
  "as_record j = (case j of JObj d \<Rightarrow> Inr d | _ \<Rightarrow> Inl OutsideModel)"

text \<open>Without \<open>record_path\<close>: one row per record.\<close>

definition json_normalize :: "string \<Rightarrow> json list \<Rightarrow> error + frame" where
  "json_normalize sep data =
     (if data = [] then Inr \<lparr>columns = [], body = []\<rparr>
      else bnd (mapM as_record data)
             (\<lambda>ds. Inr (DataFrame (map (normalise_json_ordered sep) ds))))"

text \<open>\<open>_pull_records\<close>: the list under a key of one entry; a null there is the empty
  list, anything else that is not a list raises.\<close>

definition pull_records :: "json \<Rightarrow> string \<Rightarrow> error + json list" where
  "pull_records obj k =
     (case obj of
        JObj d \<Rightarrow>
          (case map_of d k of
             None \<Rightarrow> Inl KeyError
           | Some (JArr xs) \<Rightarrow> Inr xs
           | Some JNull \<Rightarrow> Inr []
           | Some _ \<Rightarrow> Inl TypeError)
      | _ \<Rightarrow> Inl TypeError)"

text \<open>What \<open>for obj in data\<close> runs over inside \<open>_recursive_extract\<close>, where a dict stands
  for the list holding it.\<close>

definition as_objs :: "json \<Rightarrow> error + json list" where
  "as_objs v =
     (case v of JObj d \<Rightarrow> Inr [JObj d] | JArr xs \<Rightarrow> Inr xs | JStr [] \<Rightarrow> Inr []
      | _ \<Rightarrow> Inl TypeError)"

text \<open>The records one entry contributes under a \<open>record_path\<close> of one or two keys (the
  paths this program uses).\<close>

definition pull_path :: "string list \<Rightarrow> json \<Rightarrow> error + json list" where
  "pull_path path obj =
     (case path of
        [k] \<Rightarrow> pull_records obj k
      | [k1, k2] \<Rightarrow>
          (case obj of
             JObj d \<Rightarrow>
               (case map_of d k1 of
                  None \<Rightarrow> Inl KeyError
                | Some v \<Rightarrow>
                    bnd (as_objs v)
                      (\<lambda>os. bnd (mapM (\<lambda>ob. pull_records ob k2) os) (\<lambda>rs. Inr (concat rs))))
           | _ \<Rightarrow> Inl TypeError)
      | _ \<Rightarrow> Inl OutsideModel)"

text \<open>\<open>_pull_field\<close> for a top-level \<open>meta\<close> key with \<open>errors="ignore"\<close>: a missing key
  is null.\<close>

definition pull_field :: "json \<Rightarrow> string \<Rightarrow> json" where
  "pull_field obj k = (case obj of JObj d \<Rightarrow> lookup_json d k | _ \<Rightarrow> JNull)"

text \<open>One entry: its records, flattened, each followed by the entry's \<open>meta\<close> values.\<close>

definition extract_entry ::
  "string list \<Rightarrow> string list \<Rightarrow> json \<Rightarrow> error + ((string \<times> json) list \<times> (string \<times> json) list) list" where
  "extract_entry path meta obj =
     bnd (pull_path path obj)
       (\<lambda>recs. bnd (mapM as_record recs)
          (\<lambda>ds. Inr (map (\<lambda>d. (nested_to_record ''.'' d, map (\<lambda>k. (k, pull_field obj k)) meta)) ds)))"

text \<open>\<open>json_normalize(data, record_path=path, meta=meta, errors="ignore")\<close>: the record
  columns, then one column per \<open>meta\<close> key; a \<open>meta\<close> key that is already a column is a
  conflict.\<close>

definition json_normalize_records :: "string list \<Rightarrow> string list \<Rightarrow> json list \<Rightarrow> error + frame" where
  "json_normalize_records path meta data =
     (if data = [] then Inr \<lparr>columns = [], body = []\<rparr>
      else bnd (mapM (extract_entry path meta) data)
        (\<lambda>ess.
           let es = concat ess; cols = union_keys (map fst es)
           in if (\<exists>k \<in> set meta. k \<in> set cols) \<or> \<not> distinct meta then Inl ValueError
              else Inr \<lparr>columns = cols @ meta,
                        body = range_index
                          (map (\<lambda>(r, m). map (\<lambda>c. (c, Val (lookup_json r c))) cols
                                          @ map (\<lambda>(k, v). (k, Val v)) m) es)\<rparr>))"

subsection \<open>Column operations\<close>

definition rename :: "(string \<Rightarrow> string) \<Rightarrow> frame \<Rightarrow> frame" where
  "rename f df =
     \<lparr>columns = map f (columns df),
      body = map (\<lambda>(i, cs). (i, map (\<lambda>(c, v). (f c, v)) cs)) (body df)\<rparr>"

definition mapper :: "(string \<times> string) list \<Rightarrow> string \<Rightarrow> string" where
  "mapper table c = (case map_of table c of None \<Rightarrow> c | Some c' \<Rightarrow> c')"

text \<open>A column read as an attribute (\<open>df.datetime\<close>) or by key (\<open>df[col]\<close>).\<close>

definition column_values :: "frame \<Rightarrow> string \<Rightarrow> cell list" where
  "column_values df c = map (\<lambda>(i, cs). cell_of cs c) (body df)"

definition get_column :: "error \<Rightarrow> frame \<Rightarrow> string \<Rightarrow> error + cell list" where
  "get_column missing df c =
     (if c \<notin> set (columns df) then Inl missing
      else if count_list (columns df) c \<noteq> 1 then Inl OutsideModel
      else Inr (column_values df c))"

definition getattr :: "frame \<Rightarrow> string \<Rightarrow> error + cell list" where
  "getattr df c = get_column AttributeError df c"

text \<open>\<open>df[c] = values\<close>, for a column that exists and as many values as rows.\<close>

definition setitem :: "frame \<Rightarrow> string \<Rightarrow> cell list \<Rightarrow> frame" where
  "setitem df c vs =
     df\<lparr>body := map (\<lambda>((i, cs), v). (i, map (\<lambda>(n, x). (n, if n = c then v else x)) cs))
                   (zip (body df) vs)\<rparr>"

text \<open>\<open>set_index(c, drop=True)\<close>.\<close>

definition set_index :: "string \<Rightarrow> frame \<Rightarrow> error + frame" where
  "set_index c df =
     (if c \<notin> set (columns df) then Inl KeyError
      else if count_list (columns df) c \<noteq> 1 then Inl OutsideModel
      else Inr \<lparr>columns = filter (\<lambda>n. n \<noteq> c) (columns df),
                body = map (\<lambda>(i, cs). (cell_of cs c, filter (\<lambda>(n, v). n \<noteq> c) cs)) (body df)\<rparr>)"

section \<open>Exercise logs\<close>

definition activity_level :: json where
  "activity_level = JArr
     [JObj [(''minutes'', JNull), (''name'', JStr ''sedentary'')],
      JObj [(''minutes'', JNull), (''name'', JStr ''lightly'')],
      JObj [(''minutes'', JNull), (''name'', JStr ''fairly'')],
      JObj [(''minutes'', JNull), (''name'', JStr ''very'')]]"

text \<open>The zone names are German; their two non-ASCII letters are written as UTF-8 bytes.\<close>

definition zone_names :: "string list" where
  "zone_names =
     [''Au'' @ [CHR 0xC3, CHR 0x9F] @ ''erhalb der Zone'',
      ''Fettverbrennung'',
      ''Kardio'',
      ''H'' @ [CHR 0xC3, CHR 0xB6] @ ''chstleistung'']"

definition heart_rate_zones :: json where
  "heart_rate_zones = JArr
     (map (\<lambda>n. JObj [(''name'', JStr n), (''min'', JNull), (''max'', JNull), (''minutes'', JNull)])
        zone_names)"

text \<open>\<open>key in item\<close> and \<open>item[key] = value\<close> as Python evaluates them on a parsed JSON
  value: membership in a dict's keys, in a list's elements, or as a substring of a string;
  assignment by a string key only on a dict.\<close>

definition py_contains :: "string \<Rightarrow> json \<Rightarrow> error + bool" where
  "py_contains k item =
     (case item of
        JObj d \<Rightarrow> Inr (k \<in> set (map fst d))
      | JArr xs \<Rightarrow> Inr (JStr k \<in> set xs)
      | JStr s \<Rightarrow> Inr (sublist k s)
      | _ \<Rightarrow> Inl TypeError)"

definition py_setitem :: "json \<Rightarrow> string \<Rightarrow> json \<Rightarrow> error + json" where
  "py_setitem item k v =
     (case item of JObj d \<Rightarrow> Inr (JObj (AList.update k v d)) | _ \<Rightarrow> Inl TypeError)"

definition set_if_missing :: "string \<Rightarrow> json \<Rightarrow> json \<Rightarrow> error + json" where
  "set_if_missing k v item =
     bnd (py_contains k item) (\<lambda>present. if present then Inr item else py_setitem item k v)"

definition backfill_item :: "json \<Rightarrow> error + json" where
  "backfill_item item =
     bnd (set_if_missing ''activityLevel'' activity_level item)
       (set_if_missing ''heartRateZones'' heart_rate_zones)"

definition backfill :: "json list \<Rightarrow> error + json list" where
  "backfill json_data = mapM backfill_item json_data"

definition exercise_columns :: "(string \<times> string) list" where
  "exercise_columns =
     [(''logId'', ''log_id''),
      (''activityName'', ''activity_name''),
      (''activityTypeId'', ''activity_type_id''),
      (''averageHeartRate'', ''average_heart_rate''),
      (''activeDuration'', ''active_duration''),
      (''lastModified'', ''last_modified''),
      (''startTime'', ''start_time'')]"

definition exercise_meta :: "string list" where
  "exercise_meta =
     [''logId'', ''activityName'', ''activityTypeId'', ''averageHeartRate'', ''calories'',
      ''duration'', ''activeDuration'', ''steps'', ''lastModified'', ''startTime'']"

text \<open>One of the two exercise tables: the entries exploded along \<open>record_path\<close>, renamed,
  indexed by the log id (and not sorted).\<close>

definition exercise_table :: "string \<Rightarrow> json list \<Rightarrow> error + frame" where
  "exercise_table record_path json_data =
     bnd (json_normalize_records [record_path] exercise_meta json_data)
       (\<lambda>df. set_index ''log_id'' (rename (mapper exercise_columns) df))"

text \<open>\<open>prep_exercise_data\<close>: the tables written to \<open>activity_exercise_1.csv\<close> and, after
  it, to \<open>activity_exercise_2.csv\<close>.\<close>

definition prep_exercise_data :: "directory \<Rightarrow> string list \<Rightarrow> error + frame \<times> frame" where
  "prep_exercise_data raw file_list =
     bnd (files_to_json raw file_list)
       (\<lambda>loaded. bnd (backfill loaded)
          (\<lambda>json_data. bnd (exercise_table ''activityLevel'' json_data)
             (\<lambda>t1. bnd (exercise_table ''heartRateZones'' json_data)
                (\<lambda>t2. Inr (t1, t2)))))"

text \<open>For stating what an entry contributes: the number of its \<open>heartRateZones\<close> records
  once the backfill has run, and the row of an exercise table made from one flattened
  record \<open>r\<close> with the entry's \<open>meta\<close> values \<open>m\<close>, given the record columns.\<close>

definition zone_rows :: "json \<Rightarrow> nat" where
  "zone_rows item =
     (case bnd (backfill_item item) (\<lambda>item'. pull_records item' ''heartRateZones'') of
        Inl _ \<Rightarrow> 0
      | Inr recs \<Rightarrow> length recs)"

definition exercise_row ::
  "string list \<Rightarrow> (string \<times> json) list \<times> (string \<times> json) list \<Rightarrow> row" where
  "exercise_row cols rm =
     (let cs = map (\<lambda>(c, v). (mapper exercise_columns c, v))
                 (map (\<lambda>c. (c, Val (lookup_json (fst rm) c))) cols
                  @ map (\<lambda>(k, v). (k, Val v)) (snd rm))
      in (cell_of cs ''log_id'', filter (\<lambda>(n, v). n \<noteq> ''log_id'') cs))"

text \<open>One record of the placeholder list \<open>heart_rate_zones\<close>.\<close>

definition placeholder :: "string \<Rightarrow> (string \<times> json) list" where
  "placeholder n = [(''name'', JStr n), (''min'', JNull), (''max'', JNull), (''minutes'', JNull)]"

section \<open>Time index\<close>

text \<open>
  \<open>pd.to_datetime\<close> converts a column cell by cell. How one JSON value is read as a point
  in time (or as \<open>NaT\<close>, or rejected) is pandas' business and a parameter \<open>parse\<close> of
  everything below; a cell that is a time already stays as it is.
\<close>

type_synonym parser = "json \<Rightarrow> error + int option"

definition to_datetime_cell :: "parser \<Rightarrow> cell \<Rightarrow> error + cell" where
  "to_datetime_cell parse c =
     (case c of Time t \<Rightarrow> Inr (Time t) | Val j \<Rightarrow> bnd (parse j) (\<lambda>t. Inr (Time t)))"

definition to_datetime :: "parser \<Rightarrow> cell list \<Rightarrow> error + cell list" where
  "to_datetime parse vs = mapM (to_datetime_cell parse) vs"

text \<open>\<open>df[c] = pd.to_datetime(df[c])\<close>; \<open>missing\<close> is the exception of the read, which
  differs between \<open>df.c\<close> and \<open>df[c]\<close>.\<close>

definition convert_column :: "error \<Rightarrow> parser \<Rightarrow> string \<Rightarrow> frame \<Rightarrow> error + frame" where
  "convert_column missing parse c df =
     bnd (get_column missing df c)
       (\<lambda>vs. bnd (to_datetime parse vs) (\<lambda>ts. Inr (setitem df c ts)))"

text \<open>\<open>sort_index(ascending=True)\<close> on an index of times: ascending, \<open>NaT\<close> last. pandas
  leaves the order of rows with equal labels open (its default sort is not stable); here
  they keep their order, and the statements about sorted tables below speak of the rows
  as a multiset and of the order of the labels only. The routines sort only indexes that
  \<open>pd.to_datetime\<close> has produced.\<close>

fun is_time :: "cell \<Rightarrow> bool" where
  "is_time (Time _) = True"
| "is_time (Val _) = False"

fun time_key :: "cell \<Rightarrow> bool \<times> int" where
  "time_key (Time (Some t)) = (False, t)"
| "time_key (Time None) = (True, 0)"
| "time_key (Val _) = (True, 0)"

definition sort_index :: "frame \<Rightarrow> error + frame" where
  "sort_index df =
     (if \<forall>r \<in> set (body df). is_time (fst r)
      then Inr (df\<lparr>body := sort_key (\<lambda>r. time_key (fst r)) (body df)\<rparr>)
      else Inl OutsideModel)"

text \<open>The index of a table is ascending when no label is followed, anywhere later, by a
  smaller one. Times are compared as times, \<open>NaT\<close> counting as later than every time;
  integer labels (log ids) are compared as integers.\<close>

fun label_le :: "cell \<Rightarrow> cell \<Rightarrow> bool" where
  "label_le (Time (Some a)) (Time (Some b)) = (a \<le> b)"
| "label_le (Time _) (Time None) = True"
| "label_le (Val (JInt a)) (Val (JInt b)) = (a \<le> b)"
| "label_le _ _ = False"

definition index_ascending :: "frame \<Rightarrow> bool" where
  "index_ascending df = sorted_wrt label_le (map fst (body df))"

text \<open>\<open>files_to_df\<close>.\<close>

definition files_to_df ::
  "parser \<Rightarrow> directory \<Rightarrow> string list \<Rightarrow> (string \<Rightarrow> string) \<Rightarrow> bool \<Rightarrow> error + frame" where
  "files_to_df parse raw file_list cols datetime =
     bnd (files_to_json raw file_list)
       (\<lambda>js. bnd (json_normalize ''.'' js)
          (\<lambda>df0. let df = rename cols df0
                 in if datetime
                    then bnd (convert_column AttributeError parse ''datetime'' df)
                           (\<lambda>df1. bnd (set_index ''datetime'' df1) sort_index)
                    else Inr df))"

text \<open>\<open>files_to_dfslist\<close>: one table per file. A file may hold one object instead of a
  list; \<open>json_normalize\<close> takes it as a list of one.\<close>

definition json_normalize_doc :: "string \<Rightarrow> json \<Rightarrow> error + frame" where
  "json_normalize_doc sep doc =
     (case doc of
        JArr xs \<Rightarrow> json_normalize sep xs
      | JObj d \<Rightarrow> json_normalize sep [JObj d]
      | _ \<Rightarrow> Inl TypeError)"

definition file_to_indexed_df :: "parser \<Rightarrow> directory \<Rightarrow> (string \<Rightarrow> string) \<Rightarrow> bool \<Rightarrow> string \<Rightarrow> error + frame" where
  "file_to_indexed_df parse raw cols datetime infile_path =
     bnd (file_to_json raw infile_path)
       (\<lambda>doc. bnd (json_normalize_doc ''.'' doc)
          (\<lambda>df0. let df = rename cols df0
                 in if datetime
                    then bnd (convert_column AttributeError parse ''datetime'' df)
                           (\<lambda>df1. bnd (set_index ''datetime'' df1) sort_index)
                    else Inr df))"

definition files_to_dfslist ::
  "parser \<Rightarrow> directory \<Rightarrow> string list \<Rightarrow> (string \<Rightarrow> string) \<Rightarrow> bool \<Rightarrow> error + frame list" where
  "files_to_dfslist parse raw file_list cols datetime =
     mapM (file_to_indexed_df parse raw cols datetime) file_list"

section \<open>File discovery\<close>

text \<open>The patterns of this program use \<open>*\<close> and literal characters only. \<open>glob\<close> yields
  the entries of the directory, files or not, whose names match; \<open>sorted\<close> orders the
  paths, which share their parent, by name.\<close>

fun fnmatch :: "string \<Rightarrow> string \<Rightarrow> bool" where
  "fnmatch [] [] = True"
| "fnmatch [] (c # cs) = False"
| "fnmatch (p # ps) [] = (p = CHR ''*'' \<and> fnmatch ps [])"
| "fnmatch (p # ps) (c # cs) =
     (if p = CHR ''*'' then fnmatch ps (c # cs) \<or> fnmatch (p # ps) cs
      else p = c \<and> fnmatch ps cs)"

definition glob :: "directory \<Rightarrow> string \<Rightarrow> string list" where
  "glob d pat = filter (fnmatch pat) (map fst d)"

definition sorted_glob :: "directory \<Rightarrow> string \<Rightarrow> string list" where
  "sorted_glob d pat = sort (glob d pat)"

section \<open>Steps and distance\<close>

text \<open>\<open>series.eq(v)\<close>, \<open>~mask\<close> and \<open>df[mask]\<close>.\<close>

definition series_eq :: "cell list \<Rightarrow> json \<Rightarrow> bool list" where
  "series_eq vs v = map (\<lambda>c. c = Val v) vs"

definition invert :: "bool list \<Rightarrow> bool list" where
  "invert m = map Not m"

definition getitem_mask :: "frame \<Rightarrow> bool list \<Rightarrow> frame" where
  "getitem_mask df m = df\<lparr>body := map fst (filter snd (zip (body df) m))\<rparr>"

text \<open>Both routines: load with the value column renamed to \<open>label\<close>, then keep the rows
  whose \<open>label\<close> is not the string \<open>"0"\<close>.\<close>

definition drop_zero_rows :: "parser \<Rightarrow> directory \<Rightarrow> string list \<Rightarrow> string \<Rightarrow> error + frame" where
  "drop_zero_rows parse raw file_list label =
     bnd (files_to_df parse raw file_list
            (mapper [(''dateTime'', ''datetime''), (''value'', label)]) True)
       (\<lambda>df. bnd (getattr df label)
          (\<lambda>vs. Inr (getitem_mask df (invert (series_eq vs (JStr ''0''))))))"

text \<open>\<open>prep_steps_data\<close> writes this table to \<open>activity_steps.csv\<close>; its file list is
  \<open>sorted_glob raw ''steps-*.json''\<close>.\<close>

definition prep_steps_data :: "parser \<Rightarrow> directory \<Rightarrow> string list \<Rightarrow> error + frame" where
  "prep_steps_data parse raw file_list = drop_zero_rows parse raw file_list ''number''"

text \<open>\<open>prep_distance_data\<close> writes this table to \<open>activity_distance.csv\<close>; its file list
  is \<open>sorted_glob raw ''distance-*.json''\<close>.\<close>

definition prep_distance_data :: "parser \<Rightarrow> directory \<Rightarrow> string list \<Rightarrow> error + frame" where
  "prep_distance_data parse raw file_list = drop_zero_rows parse raw file_list ''distance''"

section \<open>Resting heart rate\<close>

text \<open>Python's \<open>str.replace(old, new)\<close>: every occurrence of \<open>old\<close>, from the left, without
  overlap; an empty \<open>old\<close> matches before every character and at the end.\<close>

function replace_nonempty :: "string \<Rightarrow> string \<Rightarrow> string \<Rightarrow> string" where
  "replace_nonempty old new [] = []"
| "replace_nonempty old new (c # cs) =
     (if old \<noteq> [] \<and> prefix old (c # cs)
      then new @ replace_nonempty old new (drop (length old) (c # cs))
      else c # replace_nonempty old new cs)"
  by pat_completeness auto
termination
  by (relation "measure (\<lambda>(old, new, s). length s)") auto

definition str_replace :: "string \<Rightarrow> string \<Rightarrow> string \<Rightarrow> string" where
  "str_replace old new s =
     (if old = [] then new @ concat (map (\<lambda>c. c # new) s) else replace_nonempty old new s)"

definition resting_columns :: "string \<Rightarrow> string" where
  "resting_columns col_name =
     str_replace ''dateTime'' ''datetime'' (str_replace ''value.'' '''' col_name)"

definition notna :: "cell list \<Rightarrow> bool list" where
  "notna vs = map (\<lambda>c. \<not> isna c) vs"

text \<open>\<open>prep_heart_rate_resting_data\<close>: the table written to \<open>heart_rate_resting.csv\<close>; the
  file list is \<open>sorted_glob raw ''resting_heart_rate-*.json''\<close>. The loop over the set
  \<open>{"datetime", "date"}\<close> converts both columns, in an order Python does not fix.\<close>

definition prep_heart_rate_resting_data :: "parser \<Rightarrow> directory \<Rightarrow> string list \<Rightarrow> error + frame" where
  "prep_heart_rate_resting_data parse raw file_list =
     bnd (files_to_df parse raw file_list resting_columns False)
       (\<lambda>df0. bnd (getattr df0 ''date'')
          (\<lambda>dates.
             let df = getitem_mask df0 (notna dates)
             in bnd (convert_column KeyError parse ''datetime'' df)
                  (\<lambda>df1. bnd (convert_column KeyError parse ''date'' df1)
                     (\<lambda>df2. bnd (set_index ''datetime'' df2) sort_index))))"

section \<open>Heart rate\<close>

text \<open>\<open>pd.concat(dfs, axis="index")\<close>: the rows of the tables one after the other, under
  the union of their columns in order of first appearance; a cell a table lacks is null.\<close>

definition ordered_union :: "string list list \<Rightarrow> string list" where
  "ordered_union css = rev (remdups (rev (concat css)))"

definition concat_index :: "frame list \<Rightarrow> error + frame" where
  "concat_index dfs =
     (if dfs = [] then Inl ValueError
      else if \<exists>df \<in> set dfs. \<not> distinct (columns df) then Inl OutsideModel
      else let cols = ordered_union (map columns dfs)
           in Inr \<lparr>columns = cols,
                    body = concat (map (\<lambda>df. map (\<lambda>(i, cs). (i, map (\<lambda>c. (c, cell_of cs c)) cols))
                                              (body df)) dfs)\<rparr>)"

definition heart_rate_columns :: "string \<Rightarrow> string" where
  "heart_rate_columns =
     mapper [(''dateTime'', ''datetime''), (''value.bpm'', ''bpm''),
             (''value.confidence'', ''confidence'')]"

text \<open>The table of all samples that \<open>prep_heart_rate_details\<close> builds from the files of
  \<open>sorted_glob raw ''heart_rate-*.json''\<close>.\<close>

definition heart_rate_frame :: "parser \<Rightarrow> directory \<Rightarrow> string list \<Rightarrow> error + frame" where
  "heart_rate_frame parse raw file_list =
     bnd (files_to_dfslist parse raw file_list heart_rate_columns True)
       (\<lambda>dfs. bnd (concat_index dfs) sort_index)"

text \<open>What a routine does besides computing: lines printed, lines logged (\<open>log\<close> puts the
  time of day in front, which is left out here) and files written under \<open>data_path\<close>.
  A file is represented by the table handed to the writer.\<close>

datatype event =
    Printed string
  | Logged string
  | Written string frame

text \<open>
  \<open>prep_heart_rate_details\<close>. The result is what happened, in order, and the exception
  that ended the run, if any. \<open>df.resample(rule).mean()\<close> is a parameter \<open>resample\<close>:
  the routine only passes its result on to \<open>to_csv\<close>; \<open>resample_mean\<close> below describes
  it.
\<close>

definition prep_heart_rate_details ::
  "string \<Rightarrow> parser \<Rightarrow> (string \<Rightarrow> frame \<Rightarrow> error + frame) \<Rightarrow> directory \<Rightarrow> string list
     \<Rightarrow> event list \<times> error option" where
  "prep_heart_rate_details fmt parse resample raw file_list =
     (let warned = (if fmt \<notin> set [''hdf'', ''csv'']
                    then [Printed ''format should be 'hdf' (default) or 'csv'!''] else []);
          started = warned @ [Logged ''Processing heart_rate-YYYY-MM-DD.json files ...'']
      in case heart_rate_frame parse raw file_list of
           Inl e \<Rightarrow> (started, Some e)
         | Inr df \<Rightarrow>
             let main = started @
                   (if fmt = ''hdf''
                    then [Written ''heart_rate.h5'' df, Logged ''File heart_rate.h5 ready'']
                    else [Written ''heart_rate.csv'' df, Logged ''File heart_rate.csv ready''])
             in case resample ''H'' df of
                  Inl e \<Rightarrow> (main, Some e)
                | Inr hourly \<Rightarrow>
                    let hour = main @ [Written ''heart_rate_hourly.csv'' hourly,
                                       Logged ''File heart_rate_hourly.csv ready'']
                    in case resample ''D'' df of
                         Inl e \<Rightarrow> (hour, Some e)
                       | Inr daily \<Rightarrow>
                           (hour @ [Written ''heart_rate_daily.csv'' daily,
                                    Logged ''File heart_rate_daily.csv ready''], None))"

text \<open>
  \<open>df.resample(rule).mean()\<close>: the rows are put into bins of the rule's width, counted
  from the epoch; every bin from the first occupied one to the last gets a row, labelled
  by its start, with the mean of each column over the rows of the bin (over none, in an
  empty bin); a row without a time is in no bin. A table that has rows but no time is not
  described here. The width of a rule in the unit of the parser's times (an exception
  where pandas rejects the rule) and the mean of a list of cells are the two parameters
  of a \<open>sampler\<close>.
\<close>

record sampler =
  bin_width :: "string \<Rightarrow> error + int"
  bin_mean :: "cell list \<Rightarrow> error + cell"

fun bin_of :: "int \<Rightarrow> cell \<Rightarrow> int option" where
  "bin_of w (Time (Some t)) = Some (t div w)"
| "bin_of w _ = None"

definition bin_row :: "sampler \<Rightarrow> int \<Rightarrow> frame \<Rightarrow> int \<Rightarrow> error + row" where
  "bin_row s w df b =
     bnd (mapM (\<lambda>c. bnd (bin_mean s (map (\<lambda>r. cell_of (snd r) c)
                                       (filter (\<lambda>r. bin_of w (fst r) = Some b) (body df))))
                       (\<lambda>v. Inr (c, v)))
            (columns df))
       (\<lambda>cs. Inr (Time (Some (b * w)), cs))"

definition resample_mean :: "sampler \<Rightarrow> string \<Rightarrow> frame \<Rightarrow> error + frame" where
  "resample_mean s rule df =
     bnd (bin_width s rule)
       (\<lambda>w. if w \<le> 0 then Inl OutsideModel
            else let bins = List.map_filter (bin_of w) (map fst (body df))
                 in if body df = [] then Inr \<lparr>columns = columns df, body = []\<rparr>
                    else if bins = [] then Inl OutsideModel
                    else bnd (mapM (bin_row s w df) [Min (set bins)..Max (set bins)])
                           (\<lambda>rows. Inr \<lparr>columns = columns df, body = rows\<rparr>))"

text \<open>
  \<open>prep_heart_rate_details_xr\<close>: the per-file tables, each turned into a data set by
  \<open>to_xarray\<close>, are joined along \<open>datetime\<close> by \<open>xr.concat\<close>, ordered by \<open>sortby\<close> and written
  to \<open>heart_rate.nc\<close>. A data set is represented by the table it was made from. On data
  sets with the same variables the join puts the rows one after the other, as \<open>pd.concat\<close>
  does; data sets that differ in their variables are not described here. \<open>sortby\<close> orders
  the times ascending, \<open>NaT\<close> last, as \<open>sort_index\<close> does.
\<close>

definition xr_concat :: "frame list \<Rightarrow> error + frame" where
  "xr_concat dss =
     (if \<exists>ds \<in> set dss. columns ds \<noteq> columns (hd dss) then Inl OutsideModel
      else concat_index dss)"

definition prep_heart_rate_details_xr :: "parser \<Rightarrow> directory \<Rightarrow> string list \<Rightarrow> error + frame" where
  "prep_heart_rate_details_xr parse raw file_list =
     bnd (files_to_dfslist parse raw file_list heart_rate_columns True)
       (\<lambda>dss. bnd (xr_concat dss) sort_index)"

text \<open>\<open>prep_heart_rate_zoning_data\<close>: the table written to \<open>heart_rate_zones.csv\<close>, from
  the files of \<open>sorted_glob raw ''time_in_heart_rate_zones*.json''\<close>. \<open>casefold\<close> is
  modelled on ASCII letters; other bytes stay as they are.\<close>

definition casefold :: "string \<Rightarrow> string" where
  "casefold s =
     map (\<lambda>c. if CHR ''A'' \<le> c \<and> c \<le> CHR ''Z'' then char_of (of_char c + (32 :: nat)) else c) s"

definition zoning_columns :: "string \<Rightarrow> string" where
  "zoning_columns col_name =
     (if col_name = ''dateTime'' then ''datetime''
      else casefold (str_replace ''value.valuesInZones.'' '''' col_name))"

definition prep_heart_rate_zoning_data :: "parser \<Rightarrow> directory \<Rightarrow> string list \<Rightarrow> error + frame" where
  "prep_heart_rate_zoning_data parse raw file_list =
     files_to_df parse raw file_list zoning_columns True"

section \<open>Activity levels\<close>

text \<open>
  \<open>pd.concat(dfs, axis="columns")\<close>: an outer join on the index. When all tables have
  the same index, that index is kept; otherwise the labels are united (a label as often
  as the table that repeats it most) and, the indexes being times, sorted. Each table is
  laid out along the combined index: as it is when its own index equals it, by label
  otherwise, which requires its labels to be unique; a label a table lacks gives nulls.
\<close>

definition union_labels :: "cell list \<Rightarrow> cell list \<Rightarrow> cell list" where
  "union_labels xs ys = xs @ foldl (\<lambda>rest x. remove1 x rest) ys xs"

definition combined_index :: "cell list list \<Rightarrow> cell list" where
  "combined_index idxs =
     (case idxs of
        [] \<Rightarrow> []
      | i # rest \<Rightarrow>
          if \<forall>j \<in> set rest. j = i then i
          else sort_key time_key (foldl union_labels i rest))"

definition reindex :: "cell list \<Rightarrow> frame \<Rightarrow> error + (string \<times> cell) list list" where
  "reindex u df =
     (if map fst (body df) = u then Inr (map snd (body df))
      else if \<not> distinct (map fst (body df)) then Inl InvalidIndexError
      else Inr (map (\<lambda>i. case map_of (body df) i of
                            Some cs \<Rightarrow> cs
                          | None \<Rightarrow> map (\<lambda>c. (c, Val JNull)) (columns df)) u))"

definition concat_columns :: "frame list \<Rightarrow> error + frame" where
  "concat_columns dfs =
     (if dfs = [] then Inl ValueError
      else let u = combined_index (map (\<lambda>df. map fst (body df)) dfs)
           in bnd (mapM (reindex u) dfs)
                (\<lambda>parts. Inr \<lparr>columns = concat (map columns dfs),
                               body = map (\<lambda>k. (u ! k, concat (map (\<lambda>p. p ! k) parts)))
                                        [0..<length u]\<rparr>))"

text \<open>
  \<open>series.astype(int)\<close>, into 64-bit integers. A column that holds only numbers from 0 to
  \<open>2^64 - 1\<close>, one of them \<open>2^63\<close> or more, is stored as unsigned 64-bit integers, and its
  cast wraps around. Every other column is cast cell by cell with Python's \<open>int\<close>, whose
  result must fit 64 bits: a number is itself, a truth value 0 or 1, a null has no integer
  (\<open>None\<close> raises \<open>TypeError\<close>, a missing value of the join \<open>ValueError\<close>; the tables here
  have one null). How \<open>int\<close> reads a string is the parameter \<open>py_int\<close>, \<open>None\<close> where it
  raises \<open>ValueError\<close>.
\<close>

type_synonym int_reader = "string \<Rightarrow> int option"

definition int64 :: "int \<Rightarrow> error + int" where
  "int64 n = (if - (2 ^ 63) \<le> n \<and> n < 2 ^ 63 then Inr n else Inl OverflowError)"

definition wrap64 :: "int \<Rightarrow> int" where
  "wrap64 n = (if n < 2 ^ 63 then n else n - 2 ^ 64)"

fun uint64_value :: "cell \<Rightarrow> int option" where
  "uint64_value (Val (JInt n)) = (if 0 \<le> n \<and> n < 2 ^ 64 then Some n else None)"
| "uint64_value _ = None"

definition is_uint64 :: "cell list \<Rightarrow> bool" where
  "is_uint64 vs =
     (list_all (\<lambda>c. uint64_value c \<noteq> None) vs
      \<and> list_ex (\<lambda>c. case uint64_value c of Some n \<Rightarrow> 2 ^ 63 \<le> n | None \<Rightarrow> False) vs)"

definition astype_int_cell :: "int_reader \<Rightarrow> bool \<Rightarrow> cell \<Rightarrow> error + int" where
  "astype_int_cell py_int unsigned c =
     (case c of
        Val (JInt n) \<Rightarrow> if unsigned then Inr (wrap64 n) else int64 n
      | Val (JBool b) \<Rightarrow> Inr (if b then 1 else 0)
      | Val (JStr s) \<Rightarrow> (case py_int s of None \<Rightarrow> Inl ValueError | Some n \<Rightarrow> int64 n)
      | Val _ \<Rightarrow> Inl TypeError
      | Time _ \<Rightarrow> Inl OutsideModel)"

definition astype_int :: "int_reader \<Rightarrow> cell list \<Rightarrow> error + int list" where
  "astype_int py_int vs = mapM (astype_int_cell py_int (is_uint64 vs)) vs"

definition levels :: "string list" where
  "levels = [''sedentary'', ''lightly_active'', ''moderately_active'', ''very_active'']"

text \<open>The table of one level; its file list is
  \<open>sorted_glob raw (level @ ''_minutes-*.json'')\<close>.\<close>

definition level_frame :: "parser \<Rightarrow> directory \<Rightarrow> (string \<Rightarrow> string list) \<Rightarrow> string \<Rightarrow> error + frame" where
  "level_frame parse raw file_lists level =
     files_to_df parse raw (file_lists level)
       (mapper [(''dateTime'', ''datetime''), (''value'', str_replace ''_active'' '''' level)])
       True"

text \<open>\<open>prep_activity_level_data\<close>: the table written to \<open>activity_levels.csv\<close>.\<close>

definition prep_activity_level_data ::
  "parser \<Rightarrow> int_reader \<Rightarrow> directory \<Rightarrow> (string \<Rightarrow> string list) \<Rightarrow> error + frame" where
  "prep_activity_level_data parse py_int raw file_lists =
     bnd (mapM (level_frame parse raw file_lists) levels)
       (\<lambda>dfs. bnd (concat_columns dfs)
          (\<lambda>df. bnd (getattr df ''sedentary'')
             (\<lambda>vs. bnd (astype_int py_int vs)
                (\<lambda>ns. Inr (getitem_mask df (invert (map (\<lambda>n. n = 1440) ns)))))))"

section \<open>Sleep\<close>

text \<open>The stage timeline: the records under \<open>levels.data\<close> of every session, indexed by
  their time. It is written to \<open>sleep_details.csv\<close>.\<close>

definition sleep_details :: "parser \<Rightarrow> json list \<Rightarrow> error + frame" where
  "sleep_details parse json_data =
     bnd (json_normalize_records [''levels'', ''data''] [] json_data)
       (\<lambda>df0. bnd (convert_column AttributeError parse ''datetime''
                     (rename (mapper [(''dateTime'', ''datetime'')]) df0))
          (\<lambda>df1. bnd (set_index ''datetime'' df1) sort_index))"

text \<open>\<open>data["levels"] = data["levels"]["summary"]\<close> for one session.\<close>

definition summary_only :: "json \<Rightarrow> error + json" where
  "summary_only data =
     (case data of
        JObj d \<Rightarrow>
          (case map_of d ''levels'' of
             None \<Rightarrow> Inl KeyError
           | Some (JObj l) \<Rightarrow>
               (case map_of l ''summary'' of
                  None \<Rightarrow> Inl KeyError
                | Some s \<Rightarrow> Inr (JObj (AList.update ''levels'' s d)))
           | Some _ \<Rightarrow> Inl TypeError)
      | _ \<Rightarrow> Inl TypeError)"

definition sleep_mapping :: "(string \<times> string) list" where
  "sleep_mapping =
     [(''logId'', ''sleep_log_entry_id''),
      (''dateOfSleep'', ''date_of_sleep''),
      (''startTime'', ''start_time''),
      (''endTime'', ''end_time''),
      (''minutesToFallAsleep'', ''minutes_to_fall_asleep''),
      (''minutesAsleep'', ''minutes_asleep''),
      (''minutesAwake'', ''minutes_awake''),
      (''minutesAfterWakeup'', ''minutes_after_wakeup''),
      (''timeInBed'', ''time_in_bed''),
      (''mainSleep'', ''main_sleep'')]"

definition sleep_columns :: "string \<Rightarrow> string" where
  "sleep_columns col_name =
     mapper sleep_mapping
       (str_replace ''thirtyDayAvgMinutes'' ''30_day_avg_minutes''
          (str_replace ''levels_'' '''' col_name))"

text \<open>\<open>drop(columns=labels)\<close>: every label must be a column.\<close>

definition drop_columns :: "string list \<Rightarrow> frame \<Rightarrow> error + frame" where
  "drop_columns labels df =
     (if \<exists>l \<in> set labels. l \<notin> set (columns df) then Inl KeyError
      else Inr \<lparr>columns = filter (\<lambda>c. c \<notin> set labels) (columns df),
                body = map (\<lambda>(i, cs). (i, filter (\<lambda>(n, v). n \<notin> set labels) cs)) (body df)\<rparr>)"

text \<open>The session overview, written to \<open>sleep_overviews.csv\<close>. The loop over the set of the
  three time columns converts each, in an order Python does not fix.\<close>

definition sleep_overviews :: "parser \<Rightarrow> json list \<Rightarrow> error + frame" where
  "sleep_overviews parse json_data =
     bnd (mapM summary_only json_data)
       (\<lambda>summarised. bnd (json_normalize ''_'' summarised)
          (\<lambda>df0. bnd (drop_columns [''type'', ''infoCode''] df0)
             (\<lambda>df1. bnd (convert_column KeyError parse ''date_of_sleep'' (rename sleep_columns df1))
                (\<lambda>df2. bnd (convert_column KeyError parse ''start_time'' df2)
                   (\<lambda>df3. bnd (convert_column KeyError parse ''end_time'' df3)
                      (\<lambda>df4. bnd (set_index ''date_of_sleep'' df4) sort_index))))))"

text \<open>\<open>pd.read_csv\<close> delivers the table the file holds; a header that is empty or
  repeats a name, and rows of another width, are not described here.\<close>

definition read_csv :: "directory \<Rightarrow> string \<Rightarrow> error + frame" where
  "read_csv raw name =
     (case map_of raw name of
        None \<Rightarrow> Inl FileNotFoundError
      | Some (Dir _) \<Rightarrow> Inl IsADirectoryError
      | Some (File (CsvDoc header rows)) \<Rightarrow>
          (if header = [] then Inl ParserError
           else if \<not> distinct header \<or> (\<exists>r \<in> set rows. length r \<noteq> length header)
           then Inl OutsideModel
           else Inr \<lparr>columns = header,
                     body = range_index (map (\<lambda>r. zip header (map Val r)) rows)\<rparr>)
      | Some (File _) \<Rightarrow> Inl ParserError)"

text \<open>The sleep scores, written to \<open>sleep_scores.csv\<close>.\<close>

definition sleep_scores :: "parser \<Rightarrow> directory \<Rightarrow> error + frame" where
  "sleep_scores parse raw =
     bnd (read_csv raw ''sleep_score.csv'')
       (\<lambda>df0. bnd (convert_column AttributeError parse ''datetime''
                     (rename (mapper [(''timestamp'', ''datetime'')]) df0))
          (\<lambda>df1. bnd (set_index ''datetime'' df1) sort_index))"

text \<open>\<open>prep_sleep_data\<close>: the three tables, computed and written in this order; the file
  list is \<open>sorted_glob raw ''sleep-*.json''\<close>.\<close>

definition prep_sleep_data :: "parser \<Rightarrow> directory \<Rightarrow> string list \<Rightarrow> error + frame \<times> frame \<times> frame" where
  "prep_sleep_data parse raw file_list =
     bnd (files_to_json raw file_list)
       (\<lambda>json_data. bnd (sleep_details parse json_data)
          (\<lambda>details. bnd (sleep_overviews parse json_data)
             (\<lambda>overviews. bnd (sleep_scores parse raw)
                (\<lambda>scores. Inr (details, overviews, scores)))))"

section \<open>Import staging\<close>









section \<open>Notions used in the statements\<close>

text \<open>Every row of a well-formed table has exactly the table's columns, in order.\<close>

definition wf_frame :: "frame \<Rightarrow> bool" where
  "wf_frame df = (\<forall>r \<in> set (body df). map fst (snd r) = columns df)"

text \<open>The cell \<open>pd.to_datetime\<close> puts in place of \<open>c\<close> when it accepts \<open>c\<close>.\<close>

definition converted :: "parser \<Rightarrow> cell \<Rightarrow> cell" where
  "converted parse c = (case to_datetime_cell parse c of Inr t \<Rightarrow> t | Inl _ \<Rightarrow> c)"

text \<open>The row with cells \<open>cs\<close> once the table is indexed by its column \<open>c\<close>, read as a
  time.\<close>

definition time_indexed_row :: "parser \<Rightarrow> string \<Rightarrow> (string \<times> cell) list \<Rightarrow> row" where
  "time_indexed_row parse c cs =
     (converted parse (cell_of cs c), filter (\<lambda>(n, v). n \<noteq> c) cs)"

text \<open>The row \<open>json_normalize\<close> and \<open>rename\<close> make of a flattened record \<open>f\<close>, given all
  the columns.\<close>

definition renamed_row :: "(string \<Rightarrow> string) \<Rightarrow> string list \<Rightarrow> (string \<times> json) list \<Rightarrow> (string \<times> cell) list" where
  "renamed_row ren cols f = map (\<lambda>c. (ren c, Val (lookup_json f c))) cols"

text \<open>The row a record \<open>d\<close> of the loaded records \<open>ds\<close> becomes in \<open>files_to_df\<close> when the
  value column is renamed to \<open>label\<close>.\<close>

definition value_row :: "parser \<Rightarrow> string \<Rightarrow> (string \<times> json) list list \<Rightarrow> (string \<times> json) list \<Rightarrow> row" where
  "value_row parse label ds d =
     time_indexed_row parse ''datetime''
       (renamed_row (mapper [(''dateTime'', ''datetime''), (''value'', label)])
          (union_keys (map (normalise_json_ordered ''.'') ds))
          (normalise_json_ordered ''.'' d))"

text \<open>For the examples: a parser that knows the date strings of a table, reads null as
  \<open>NaT\<close> and rejects everything else.\<close>

definition table_parser :: "(string \<times> int) list \<Rightarrow> parser" where
  "table_parser known j =
     (case j of
        JStr s \<Rightarrow> (case map_of known s of None \<Rightarrow> Inl ValueError | Some t \<Rightarrow> Inr (Some t))
      | JNull \<Rightarrow> Inr None
      | _ \<Rightarrow> Inl TypeError)"

text \<open>For the examples: an \<open>int\<close> that reads a string of ASCII digits, with a minus sign in
  front or without, and rejects everything else.\<close>

definition is_digit :: "char \<Rightarrow> bool" where
  "is_digit c = (CHR ''0'' \<le> c \<and> c \<le> CHR ''9'')"

definition digit_value :: "char \<Rightarrow> nat" where
  "digit_value c = of_char c - of_char CHR ''0''"

definition digits :: "string \<Rightarrow> int option" where
  "digits s =
     (if s \<noteq> [] \<and> list_all is_digit s
      then Some (int (foldl (\<lambda>acc c. 10 * acc + digit_value c) 0 s))
      else None)"

definition decimal :: int_reader where
  "decimal s =
     (case s of
        [] \<Rightarrow> None
      | c # cs \<Rightarrow> if c = CHR ''-'' then map_option uminus (digits cs) else digits s)"

text \<open>For the examples: a sampler for times counted in seconds, with the mean of the
  numbers among the cells where that is a whole number.\<close>

definition whole_mean :: "cell list \<Rightarrow> error + cell" where
  "whole_mean cs =
     (let ns = concat (map (\<lambda>c. case c of Val (JInt n) \<Rightarrow> [n] | _ \<Rightarrow> []) cs)
      in if ns = [] then Inr (Val JNull)
         else if sum_list ns mod int (length ns) = 0
         then Inr (Val (JInt (sum_list ns div int (length ns))))
         else Inl OutsideModel)"

definition seconds :: sampler where
  "seconds =
     \<lparr>bin_width = (\<lambda>rule. if rule = ''H'' then Inr 3600
                          else if rule = ''D'' then Inr 86400 else Inl ValueError),
      bin_mean = whole_mean\<rparr>"

text \<open>A row with the cell of column \<open>c\<close> replaced.\<close>

definition set_cell :: "string \<Rightarrow> cell \<Rightarrow> (string \<times> cell) list \<Rightarrow> (string \<times> cell) list" where
  "set_cell c v cs = map (\<lambda>(n, x). (n, if n = c then v else x)) cs"

text \<open>Resting heart rate: the cells of a record \<open>d\<close> of the loaded records \<open>ds\<close> before any
  conversion, and the row it becomes if it is kept.\<close>

definition resting_cells :: "(string \<times> json) list list \<Rightarrow> (string \<times> json) list \<Rightarrow> (string \<times> cell) list" where
  "resting_cells ds d =
     renamed_row resting_columns (union_keys (map (normalise_json_ordered ''.'') ds))
       (normalise_json_ordered ''.'' d)"

definition resting_row :: "parser \<Rightarrow> (string \<times> json) list list \<Rightarrow> (string \<times> json) list \<Rightarrow> row" where
  "resting_row parse ds d =
     (let cs = resting_cells ds d
      in (converted parse (cell_of cs ''datetime''),
          filter (\<lambda>(n, v). n \<noteq> ''datetime'')
            (set_cell ''date'' (converted parse (cell_of cs ''date'')) cs)))"



text \<open>Sleep overview: the cells of a session \<open>d\<close> (after its \<open>levels\<close> became the summary)
  among the sessions \<open>ds\<close>, flattened with underscores, without the two dropped columns and
  renamed; and the row it becomes.\<close>

definition overview_cells :: "(string \<times> json) list list \<Rightarrow> (string \<times> json) list \<Rightarrow> (string \<times> cell) list" where
  "overview_cells ds d =
     renamed_row sleep_columns
       (filter (\<lambda>c. c \<notin> set [''type'', ''infoCode''])
          (union_keys (map (normalise_json_ordered ''_'') ds)))
       (normalise_json_ordered ''_'' d)"

definition overview_row :: "parser \<Rightarrow> (string \<times> json) list list \<Rightarrow> (string \<times> json) list \<Rightarrow> row" where
  "overview_row parse ds d =
     (let cs = overview_cells ds d
      in (converted parse (cell_of cs ''date_of_sleep''),
          filter (\<lambda>(n, v). n \<noteq> ''date_of_sleep'')
            (set_cell ''end_time'' (converted parse (cell_of cs ''end_time''))
               (set_cell ''start_time'' (converted parse (cell_of cs ''start_time'')) cs))))"

section \<open>Properties of the loader\<close>

lemma file_to_json_list:
  "map_of raw p = Some (File (JsonDoc (JArr xs))) \<Longrightarrow> file_to_json raw p = Inr (JArr xs)"
  by (simp add: file_to_json_def)

lemma sum_from_lists:
  "\<forall>p \<in> set ps. map_of raw p = Some (File (JsonDoc (JArr (doc p)))) \<Longrightarrow>
   sum_from raw ps acc = Inr (acc @ concat (map doc ps))"
  by (induction ps arbitrary: acc) (simp_all add: file_to_json_list)

text \<open>
  Claim C6. When every file of the list holds a JSON list, \<open>files_to_json\<close> returns the
  concatenation of those lists, in the order of the file list and with each file's own
  order kept; its length is the sum of the lengths of the files' lists.
\<close>

theorem files_to_json_concat:
  assumes "\<forall>p \<in> set file_list. map_of raw p = Some (File (JsonDoc (JArr (doc p))))"
  shows "files_to_json raw file_list = Inr (concat (map doc file_list))
       \<and> (\<forall>js. files_to_json raw file_list = Inr js \<longrightarrow>
            length js = sum_list (map (\<lambda>p. length (doc p)) file_list))"
proof -
  have "files_to_json raw file_list = Inr (concat (map doc file_list))"
    using sum_from_lists [OF assms, of "[]"] by (simp add: files_to_json_def)
  then show ?thesis
    by (simp add: length_concat comp_def)
qed

theorem files_to_json_concat_witness:
  "files_to_json
     [(''steps-2023-01-02.json'', File (JsonDoc (JArr [JInt 3]))),
      (''steps-2023-01-01.json'', File (JsonDoc (JArr [JInt 1, JInt 2])))]
     [''steps-2023-01-01.json'', ''steps-2023-01-02.json'']
   = Inr [JInt 1, JInt 2, JInt 3]"
  using files_to_json_concat
    [of "[''steps-2023-01-01.json'', ''steps-2023-01-02.json'']"
        "[(''steps-2023-01-02.json'', File (JsonDoc (JArr [JInt 3]))),
          (''steps-2023-01-01.json'', File (JsonDoc (JArr [JInt 1, JInt 2])))]"
        "\<lambda>p. if p = ''steps-2023-01-01.json'' then [JInt 1, JInt 2] else [JInt 3]"]
  by simp

section \<open>Sequencing of fallible steps\<close>

lemma bnd_Inr_iff: "bnd m f = Inr y \<longleftrightarrow> (\<exists>x. m = Inr x \<and> f x = Inr y)"
  by (cases m) (simp_all add: bnd_def)

lemma bnd_Inr [simp]: "bnd (Inr x) f = f x"
  by (simp add: bnd_def)

lemma bnd_Inl [simp]: "bnd (Inl e) f = Inl e"
  by (simp add: bnd_def)

lemma mapM_Cons_iff:
  "mapM f (x # xs) = Inr zs \<longleftrightarrow> (\<exists>y ys. f x = Inr y \<and> mapM f xs = Inr ys \<and> zs = y # ys)"
  by (auto split: sum.splits)

lemma mapM_append_iff:
  "mapM f (xs @ ys) = Inr zs \<longleftrightarrow>
     (\<exists>as bs. mapM f xs = Inr as \<and> mapM f ys = Inr bs \<and> zs = as @ bs)"
proof (induction xs arbitrary: zs)
  case Nil
  then show ?case by simp
next
  case (Cons x xs)
  show ?case
    unfolding append_Cons mapM_Cons_iff Cons.IH by (auto simp: mapM_Cons_iff)
qed

lemma mapM_length: "mapM f xs = Inr ys \<Longrightarrow> length ys = length xs"
  by (induction xs arbitrary: ys) (auto split: sum.splits)

lemma mapM_nth: "mapM f xs = Inr ys \<Longrightarrow> i < length xs \<Longrightarrow> f (xs ! i) = Inr (ys ! i)"
proof (induction xs arbitrary: ys i)
  case Nil
  then show ?case by simp
next
  case (Cons x xs)
  then show ?case
    by (cases i) (auto split: sum.splits)
qed

lemma mapM_all_Inr: "\<forall>x \<in> set xs. f x = Inr (g x) \<Longrightarrow> mapM f xs = Inr (map g xs)"
  by (induction xs) simp_all

section \<open>The backfill loop\<close>

lemma backfill_item_present:
  assumes "''activityLevel'' \<in> fst ` set d" and "''heartRateZones'' \<in> fst ` set d"
  shows "backfill_item (JObj d) = Inr (JObj d)"
  using assms by (simp add: backfill_item_def set_if_missing_def py_contains_def)

text \<open>
  Claim C10. An entry that already has an \<open>activityLevel\<close> key and a \<open>heartRateZones\<close>
  key leaves the backfill loop as it entered it: no member is added, removed or changed.
\<close>

theorem backfill_frame:
  assumes "backfill json_data = Inr out"
    and "i < length json_data"
    and "json_data ! i = JObj d"
    and "''activityLevel'' \<in> fst ` set d"
    and "''heartRateZones'' \<in> fst ` set d"
  shows "out ! i = json_data ! i \<and> length out = length json_data
       \<and> backfill_item (JObj d) = Inr (JObj d)"
proof -
  have "backfill_item (json_data ! i) = Inr (out ! i)"
    using assms(1,2) by (simp add: backfill_def mapM_nth)
  moreover have "backfill_item (JObj d) = Inr (JObj d)"
    using assms(4,5) by (rule backfill_item_present)
  moreover have "length out = length json_data"
    using assms(1) by (simp add: backfill_def mapM_length)
  ultimately show ?thesis
    using assms(3) by simp
qed

theorem backfill_frame_witness:
  "backfill [JObj [(''logId'', JInt 1)],
             JObj [(''logId'', JInt 7), (''activityLevel'', JArr []), (''heartRateZones'', JArr [])]]
     = Inr [JObj [(''logId'', JInt 1), (''activityLevel'', activity_level),
                  (''heartRateZones'', heart_rate_zones)],
            JObj [(''logId'', JInt 7), (''activityLevel'', JArr []), (''heartRateZones'', JArr [])]]
   \<and> [JObj [(''logId'', JInt 1), (''activityLevel'', activity_level),
             (''heartRateZones'', heart_rate_zones)],
       JObj [(''logId'', JInt 7), (''activityLevel'', JArr []), (''heartRateZones'', JArr [])]] ! 1
     = JObj [(''logId'', JInt 7), (''activityLevel'', JArr []), (''heartRateZones'', JArr [])]"
proof -
  have run: "backfill [JObj [(''logId'', JInt 1)],
             JObj [(''logId'', JInt 7), (''activityLevel'', JArr []), (''heartRateZones'', JArr [])]]
     = Inr [JObj [(''logId'', JInt 1), (''activityLevel'', activity_level),
                  (''heartRateZones'', heart_rate_zones)],
            JObj [(''logId'', JInt 7), (''activityLevel'', JArr []), (''heartRateZones'', JArr [])]]"
    by (simp add: backfill_def backfill_item_def set_if_missing_def py_contains_def py_setitem_def)
  show ?thesis
    using run backfill_frame [OF run, of 1 "[(''logId'', JInt 7), (''activityLevel'', JArr []), (''heartRateZones'', JArr [])]"]
    by simp
qed

section \<open>Exercise tables\<close>

lemma map_snd_range_index: "map snd (range_index rs) = rs"
  by (simp add: range_index_def comp_def case_prod_unfold map_snd_enumerate)

lemma body_rename: "body (rename f df) = map (\<lambda>(i, cs). (i, map (\<lambda>(c, v). (f c, v)) cs)) (body df)"
  by (simp add: rename_def)

lemma columns_rename: "columns (rename f df) = map f (columns df)"
  by (simp add: rename_def)

lemma set_index_Inr:
  assumes "set_index c df = Inr t"
  shows "c \<in> set (columns df)" and "count_list (columns df) c = 1"
    and "columns t = filter (\<lambda>n. n \<noteq> c) (columns df)"
    and "body t = map (\<lambda>cs. (cell_of cs c, filter (\<lambda>(n, v). n \<noteq> c) cs)) (map snd (body df))"
  using assms by (auto simp: set_index_def comp_def case_prod_unfold split: if_splits)

lemma json_normalize_records_Inr:
  assumes "json_normalize_records path meta data = Inr df" and "data \<noteq> []"
  obtains ess where "mapM (extract_entry path meta) data = Inr ess"
    and "\<forall>k \<in> set meta. k \<notin> set (union_keys (map fst (concat ess)))"
    and "columns df = union_keys (map fst (concat ess)) @ meta"
    and "map snd (body df) =
           map (\<lambda>(r, m). map (\<lambda>c. (c, Val (lookup_json r c))) (union_keys (map fst (concat ess)))
                          @ map (\<lambda>(k, v). (k, Val v)) m) (concat ess)"
proof -
  from assms obtain ess where ess: "mapM (extract_entry path meta) data = Inr ess"
    and rest: "(let es = concat ess; cols = union_keys (map fst es)
           in if (\<exists>k \<in> set meta. k \<in> set cols) \<or> \<not> distinct meta then Inl ValueError
              else Inr \<lparr>columns = cols @ meta,
                        body = range_index
                          (map (\<lambda>(r, m). map (\<lambda>c. (c, Val (lookup_json r c))) cols
                                          @ map (\<lambda>(k, v). (k, Val v)) m) es)\<rparr>) = Inr df"
    by (auto simp: json_normalize_records_def bnd_Inr_iff)
  from rest have ok: "\<forall>k \<in> set meta. k \<notin> set (union_keys (map fst (concat ess)))"
    by (auto simp: Let_def split: if_splits)
  with rest have df: "df = \<lparr>columns = union_keys (map fst (concat ess)) @ meta,
                        body = range_index
                          (map (\<lambda>(r, m). map (\<lambda>c. (c, Val (lookup_json r c))) (union_keys (map fst (concat ess)))
                                          @ map (\<lambda>(k, v). (k, Val v)) m) (concat ess))\<rparr>"
    by (auto simp: Let_def split: if_splits)
  show thesis
    by (rule that [OF ess ok]) (simp_all add: df map_snd_range_index)
qed

lemma exercise_table_Inr:
  assumes "exercise_table rp data = Inr t"
  obtains ess where "mapM (extract_entry [rp] exercise_meta) data = Inr ess"
    and "\<forall>k \<in> set exercise_meta. k \<notin> set (union_keys (map fst (concat ess)))"
    and "count_list (map (mapper exercise_columns) (union_keys (map fst (concat ess)) @ exercise_meta)) ''log_id'' = 1"
    and "body t = map (exercise_row (union_keys (map fst (concat ess)))) (concat ess)"
proof -
  from assms obtain df where df: "json_normalize_records [rp] exercise_meta data = Inr df"
    and t: "set_index ''log_id'' (rename (mapper exercise_columns) df) = Inr t"
    by (auto simp: exercise_table_def bnd_Inr_iff)
  have ne: "data \<noteq> []"
  proof
    assume "data = []"
    with df have "columns df = []" by (auto simp: json_normalize_records_def)
    with set_index_Inr(1) [OF t] show False by (simp add: columns_rename)
  qed
  from json_normalize_records_Inr [OF df ne] obtain ess
    where ess: "mapM (extract_entry [rp] exercise_meta) data = Inr ess"
      and ok: "\<forall>k \<in> set exercise_meta. k \<notin> set (union_keys (map fst (concat ess)))"
      and cols: "columns df = union_keys (map fst (concat ess)) @ exercise_meta"
      and rows: "map snd (body df) =
           map (\<lambda>(r, m). map (\<lambda>c. (c, Val (lookup_json r c))) (union_keys (map fst (concat ess)))
                          @ map (\<lambda>(k, v). (k, Val v)) m) (concat ess)"
    by blast
  have cnt: "count_list (map (mapper exercise_columns) (union_keys (map fst (concat ess)) @ exercise_meta)) ''log_id'' = 1"
    using set_index_Inr(2) [OF t] by (simp add: columns_rename cols)
  have "map snd (body (rename (mapper exercise_columns) df))
        = map (map (\<lambda>(c, v). (mapper exercise_columns c, v))) (map snd (body df))"
    by (simp add: body_rename comp_def case_prod_unfold)
  then have "body t = map (exercise_row (union_keys (map fst (concat ess)))) (concat ess)"
    using set_index_Inr(4) [OF t]
    by (simp add: rows comp_def case_prod_unfold exercise_row_def Let_def)
  with ess ok cnt show thesis by (rule that)
qed


lemma set_union_keys: "set (union_keys rs) = (\<Union>r \<in> set rs. fst ` set r)"
  by (auto simp: union_keys_def)

lemma map_of_graph: "map_of (map (\<lambda>c. (c, F c)) cols) x = (if x \<in> set cols then Some (F x) else None)"
  by (induction cols) auto

lemma map_of_renamed:
  "\<forall>c \<in> fst ` set al. g c = x \<longleftrightarrow> c = y \<Longrightarrow>
   map_of (map (\<lambda>(c, v). (g c, v)) al) x = map_of al y"
  by (induction al) auto

lemma map_of_filter_other:
  "x \<noteq> k \<Longrightarrow> map_of (filter (\<lambda>(n, v). n \<noteq> k) al) x = map_of al x"
  by (induction al) auto

lemma mapper_exercise_fixed:
  "mapper exercise_columns c = ''name'' \<longleftrightarrow> c = ''name''"
  "mapper exercise_columns c = ''min'' \<longleftrightarrow> c = ''min''"
  "mapper exercise_columns c = ''max'' \<longleftrightarrow> c = ''max''"
  "mapper exercise_columns c = ''minutes'' \<longleftrightarrow> c = ''minutes''"
  by (auto simp: mapper_def exercise_columns_def)

lemma mapper_exercise_log_id:
  "mapper exercise_columns c = ''log_id'' \<longleftrightarrow> c = ''logId'' \<or> c = ''log_id''"
  by (auto simp: mapper_def exercise_columns_def)

lemma nested_to_record_placeholder: "nested_to_record sep (placeholder n) = placeholder n"
  by (simp add: nested_to_record_def placeholder_def dict_of_def)

lemma keys_update: "fst ` set (AList.update k v al) = insert k (fst ` set al)"
  by (induction al) auto

lemma backfill_item_missing_zones:
  assumes "''heartRateZones'' \<notin> fst ` set d"
  obtains d' where "backfill_item (JObj d) = Inr (JObj d')"
    and "map_of d' ''heartRateZones'' = Some heart_rate_zones"
    and "lookup_json d' ''logId'' = lookup_json d ''logId''"
proof -
  define d1 where "d1 = (if ''activityLevel'' \<in> fst ` set d then d
                         else AList.update ''activityLevel'' activity_level d)"
  define d' where "d' = AList.update ''heartRateZones'' heart_rate_zones d1"
  have keys: "''heartRateZones'' \<notin> fst ` set d1"
    using assms by (simp add: d1_def keys_update)
  have step1: "set_if_missing ''activityLevel'' activity_level (JObj d) = Inr (JObj d1)"
    by (simp add: set_if_missing_def py_contains_def py_setitem_def d1_def)
  have step2: "set_if_missing ''heartRateZones'' heart_rate_zones (JObj d1) = Inr (JObj d')"
    using keys by (simp add: set_if_missing_def py_contains_def py_setitem_def d'_def)
  have "backfill_item (JObj d) = Inr (JObj d')"
    by (simp add: backfill_item_def step1 step2)
  moreover have "map_of d' ''heartRateZones'' = Some heart_rate_zones"
    by (simp add: d'_def update_conv')
  moreover have "lookup_json d' ''logId'' = lookup_json d ''logId''"
    by (simp add: lookup_json_def d'_def d1_def update_conv')
  ultimately show thesis by (rule that)
qed

lemma pull_zones:
  assumes "map_of d' ''heartRateZones'' = Some heart_rate_zones"
  shows "pull_path [''heartRateZones''] (JObj d') = Inr (map (\<lambda>n. JObj (placeholder n)) zone_names)"
  using assms by (simp add: pull_path_def pull_records_def heart_rate_zones_def placeholder_def)

lemma extract_entry_zones:
  assumes "map_of d' ''heartRateZones'' = Some heart_rate_zones"
  shows "extract_entry [''heartRateZones''] meta (JObj d')
         = Inr (map (\<lambda>n. (placeholder n, map (\<lambda>k. (k, lookup_json d' k)) meta)) zone_names)"
proof -
  have "mapM as_record (map (\<lambda>n. JObj (placeholder n)) zone_names) = Inr (map placeholder zone_names)"
    using mapM_all_Inr [of "map (\<lambda>n. JObj (placeholder n)) zone_names" as_record
        "\<lambda>j. case j of JObj d \<Rightarrow> d | _ \<Rightarrow> []"]
    by (simp add: as_record_def comp_def)
  then show ?thesis
    by (simp add: extract_entry_def pull_zones [OF assms] nested_to_record_placeholder
        pull_field_def comp_def)
qed


lemma exercise_row_cell:
  assumes "x \<noteq> ''log_id''" and "\<And>c. mapper exercise_columns c = x \<longleftrightarrow> c = x"
  shows "cell_of (snd (exercise_row cols (r, m))) x
         = (if x \<in> set cols then Val (lookup_json r x)
            else cell_of (map (\<lambda>(k, v). (k, Val v)) m) x)"
proof -
  let ?al = "map (\<lambda>c. (c, Val (lookup_json r c))) cols @ map (\<lambda>(k, v). (k, Val v)) m"
  have "map_of (filter (\<lambda>(n, v). n \<noteq> ''log_id'')
                  (map (\<lambda>(c, v). (mapper exercise_columns c, v)) ?al)) x
        = map_of (map (\<lambda>(c, v). (mapper exercise_columns c, v)) ?al) x"
    using assms(1) by (rule map_of_filter_other)
  also have "\<dots> = map_of ?al x"
    by (rule map_of_renamed) (simp add: assms(2))
  also have "\<dots> = (if x \<in> set cols then Some (Val (lookup_json r x))
                     else map_of (map (\<lambda>(k, v). (k, Val v)) m) x)"
    by (simp add: map_add_def map_of_graph [of "\<lambda>c. Val (lookup_json r c)"])
  finally show ?thesis
    by (simp add: exercise_row_def cell_of_def)
qed

lemma meta_log_id:
  "\<forall>c \<in> set exercise_meta. mapper exercise_columns c = ''log_id'' \<longleftrightarrow> c = ''logId''"
  by (simp add: exercise_meta_def mapper_def exercise_columns_def)

lemma count_meta_log_id:
  "count_list (map (mapper exercise_columns) exercise_meta) ''log_id'' = 1"
  by (simp add: exercise_meta_def mapper_def exercise_columns_def)

lemma exercise_row_index:
  assumes "\<forall>c \<in> set cols. mapper exercise_columns c \<noteq> ''log_id''"
  shows "fst (exercise_row cols (r, map (\<lambda>k. (k, F k)) exercise_meta)) = Val (F ''logId'')"
proof -
  let ?M = "map (\<lambda>(k, v). (k, Val v)) (map (\<lambda>k. (k, F k)) exercise_meta)"
  let ?al = "map (\<lambda>c. (c, Val (lookup_json r c))) cols @ ?M"
  have M: "?M = map (\<lambda>k. (k, Val (F k))) exercise_meta"
    by simp
  have keys: "fst ` set ?al = set cols \<union> set exercise_meta"
    by (simp add: image_Un image_image)
  have nin: "''logId'' \<notin> set cols"
    using assms by (auto simp: mapper_exercise_log_id)
  have "map_of (map (\<lambda>(c, v). (mapper exercise_columns c, v)) ?al) ''log_id'' = map_of ?al ''logId''"
  proof (rule map_of_renamed, unfold keys, rule ballI)
    fix c assume "c \<in> set cols \<union> set exercise_meta"
    then show "mapper exercise_columns c = ''log_id'' \<longleftrightarrow> c = ''logId''"
      using assms nin meta_log_id by blast
  qed
  also have "\<dots> = map_of (map (\<lambda>k. (k, Val (F k))) exercise_meta) ''logId''"
    using nin unfolding M by (simp add: map_add_def map_of_graph [of "\<lambda>c. Val (lookup_json r c)"])
  also have "\<dots> = Some (Val (F ''logId''))"
    by (simp add: map_of_graph [of "\<lambda>k. Val (F k)"] exercise_meta_def)
  finally show ?thesis
    by (simp add: exercise_row_def cell_of_def)
qed

lemma zone_rows_extract:
  assumes "backfill_item x = Inr x'" and "extract_entry [''heartRateZones''] meta x' = Inr e"
  shows "length e = zone_rows x"
proof -
  from assms(2) obtain recs ds where recs: "pull_path [''heartRateZones''] x' = Inr recs"
    and ds: "mapM as_record recs = Inr ds" and e: "length e = length ds"
    by (auto simp: extract_entry_def bnd_Inr_iff)
  have "pull_records x' ''heartRateZones'' = Inr recs"
    using recs by (simp add: pull_path_def)
  then have "zone_rows x = length recs"
    by (simp add: zone_rows_def assms(1))
  with e mapM_length [OF ds] show ?thesis by simp
qed

lemma zone_rows_extract_list:
  "mapM backfill_item xs = Inr xs' \<Longrightarrow> mapM (extract_entry [''heartRateZones''] meta) xs' = Inr es
   \<Longrightarrow> length (concat es) = sum_list (map zone_rows xs)"
proof (induction xs arbitrary: xs' es)
  case Nil
  then show ?case by auto
next
  case (Cons x xs)
  from Cons.prems(1) obtain y ys where y: "backfill_item x = Inr y"
    and ys: "mapM backfill_item xs = Inr ys" and xs': "xs' = y # ys"
    unfolding mapM_Cons_iff by blast
  from Cons.prems(2) obtain e es' where e: "extract_entry [''heartRateZones''] meta y = Inr e"
    and es': "mapM (extract_entry [''heartRateZones''] meta) ys = Inr es'" and es: "es = e # es'"
    unfolding xs' mapM_Cons_iff by blast
  show ?case
    using Cons.IH [OF ys es'] zone_rows_extract [OF y e] by (simp add: es)
qed


lemma log_id_not_in_cols:
  assumes "count_list (map (mapper exercise_columns) (cols @ exercise_meta)) ''log_id'' = 1"
  shows "\<forall>c \<in> set cols. mapper exercise_columns c \<noteq> ''log_id''"
proof -
  have "count_list (map (mapper exercise_columns) cols) ''log_id'' = 0"
    using assms count_meta_log_id by simp
  then have "''log_id'' \<notin> set (map (mapper exercise_columns) cols)"
    using count_list_0_iff by fastforce
  then show ?thesis
    by (metis image_eqI set_map)
qed

lemma placeholder_cells:
  "lookup_json (placeholder n) ''name'' = JStr n"
  "lookup_json (placeholder n) ''min'' = JNull"
  "lookup_json (placeholder n) ''max'' = JNull"
  "lookup_json (placeholder n) ''minutes'' = JNull"
  by (simp_all add: lookup_json_def placeholder_def)

lemma meta_cells_null:
  "cell_of (map ((\<lambda>(k, v). (k, Val v)) \<circ> (\<lambda>k. (k, F k))) exercise_meta) ''min'' = Val JNull"
  "cell_of (map ((\<lambda>(k, v). (k, Val v)) \<circ> (\<lambda>k. (k, F k))) exercise_meta) ''max'' = Val JNull"
  "cell_of (map ((\<lambda>(k, v). (k, Val v)) \<circ> (\<lambda>k. (k, F k))) exercise_meta) ''minutes'' = Val JNull"
  by (simp_all add: cell_of_def exercise_meta_def)

text \<open>
  Claim C3. An entry without \<open>heartRateZones\<close> gets the fixed list of four placeholders
  before flattening. In the table written to \<open>activity_exercise_2.csv\<close> it therefore
  contributes exactly four consecutive rows, after the rows of the entries before it and
  before those of the entries after it: each is indexed by the entry's log id, has null
  \<open>min\<close>, \<open>max\<close> and \<open>minutes\<close>, and the four carry the four fixed zone names
  in order.
\<close>

theorem exercise_backfill_rows:
  assumes loaded: "files_to_json raw file_list = Inr (pre @ JObj d # post)"
    and missing: "''heartRateZones'' \<notin> fst ` set d"
    and run: "prep_exercise_data raw file_list = Inr (t1, t2)"
  shows "\<exists>A four B. body t2 = A @ four @ B
           \<and> length A = sum_list (map zone_rows pre)
           \<and> length B = sum_list (map zone_rows post)
           \<and> length four = 4
           \<and> map (\<lambda>(i, cs). cell_of cs ''name'') four = map (\<lambda>n. Val (JStr n)) zone_names
           \<and> (\<forall>(i, cs) \<in> set four.
                 i = Val (lookup_json d ''logId'')
               \<and> cell_of cs ''min'' = Val JNull
               \<and> cell_of cs ''max'' = Val JNull
               \<and> cell_of cs ''minutes'' = Val JNull)"
proof -
  let ?ext = "extract_entry [''heartRateZones''] exercise_meta"
  from run loaded obtain json_data where bf: "backfill (pre @ JObj d # post) = Inr json_data"
    and t2: "exercise_table ''heartRateZones'' json_data = Inr t2"
    by (auto simp: prep_exercise_data_def bnd_Inr_iff)
  from bf obtain pre' e' post' where pre': "mapM backfill_item pre = Inr pre'"
    and e': "backfill_item (JObj d) = Inr e'"
    and post': "mapM backfill_item post = Inr post'"
    and jd: "json_data = pre' @ e' # post'"
    unfolding backfill_def mapM_append_iff mapM_Cons_iff by blast
  from backfill_item_missing_zones [OF missing] e' obtain d' where d': "e' = JObj d'"
    and zones: "map_of d' ''heartRateZones'' = Some heart_rate_zones"
    and logid: "lookup_json d' ''logId'' = lookup_json d ''logId''"
    by auto
  from exercise_table_Inr [OF t2] obtain ess
    where ess: "mapM ?ext json_data = Inr ess"
      and cnt: "count_list (map (mapper exercise_columns)
                  (union_keys (map fst (concat ess)) @ exercise_meta)) ''log_id'' = 1"
      and rows: "body t2 = map (exercise_row (union_keys (map fst (concat ess)))) (concat ess)"
    by blast
  define cols where "cols = union_keys (map fst (concat ess))"
  define m where "m = map (\<lambda>k. (k, lookup_json d' k)) exercise_meta"
  define four0 where "four0 = map (\<lambda>n. (placeholder n, m)) zone_names"
  from ess obtain essA essB where essA: "mapM ?ext pre' = Inr essA"
    and essB: "mapM ?ext post' = Inr essB"
    and split: "ess = essA @ four0 # essB"
    unfolding jd d' mapM_append_iff mapM_Cons_iff extract_entry_zones [OF zones] four0_def m_def
    by blast
  define A where "A = map (exercise_row cols) (concat essA)"
  define four where "four = map (exercise_row cols) four0"
  define B where "B = map (exercise_row cols) (concat essB)"
  have body: "body t2 = A @ four @ B"
    by (simp add: rows split A_def four_def B_def cols_def)
  have lenA: "length A = sum_list (map zone_rows pre)"
    using zone_rows_extract_list [OF pre' essA] by (simp add: A_def)
  have lenB: "length B = sum_list (map zone_rows post)"
    using zone_rows_extract_list [OF post' essB] by (simp add: B_def)
  have len4: "length four = 4"
    by (simp add: four_def four0_def zone_names_def)
  have name_col: "''name'' \<in> set cols"
    unfolding cols_def set_union_keys split
    by (simp add: four0_def zone_names_def placeholder_def)
  have nolog: "\<forall>c \<in> set cols. mapper exercise_columns c \<noteq> ''log_id''"
    using cnt unfolding cols_def [symmetric] by (rule log_id_not_in_cols)
  have row_name: "cell_of (snd (exercise_row cols (placeholder n, m))) ''name'' = Val (JStr n)" for n
    using name_col
    by (simp add: exercise_row_cell [of "''name''"] mapper_exercise_fixed placeholder_cells)
  have row_min: "cell_of (snd (exercise_row cols (placeholder n, m))) ''min'' = Val JNull" for n
    by (simp add: exercise_row_cell [of "''min''"] mapper_exercise_fixed placeholder_cells
        m_def meta_cells_null)
  have row_max: "cell_of (snd (exercise_row cols (placeholder n, m))) ''max'' = Val JNull" for n
    by (simp add: exercise_row_cell [of "''max''"] mapper_exercise_fixed placeholder_cells
        m_def meta_cells_null)
  have row_minutes: "cell_of (snd (exercise_row cols (placeholder n, m))) ''minutes'' = Val JNull" for n
    by (simp add: exercise_row_cell [of "''minutes''"] mapper_exercise_fixed placeholder_cells
        m_def meta_cells_null)
  have row_index: "fst (exercise_row cols (placeholder n, m)) = Val (lookup_json d ''logId'')" for n
    unfolding m_def using exercise_row_index [OF nolog, of "placeholder n" "lookup_json d'"]
    by (simp add: logid)
  have names: "map (\<lambda>(i, cs). cell_of cs ''name'') four = map (\<lambda>n. Val (JStr n)) zone_names"
    by (simp add: four_def four0_def case_prod_unfold comp_def row_name)
  have cells: "\<forall>(i, cs) \<in> set four.
                 i = Val (lookup_json d ''logId'')
               \<and> cell_of cs ''min'' = Val JNull
               \<and> cell_of cs ''max'' = Val JNull
               \<and> cell_of cs ''minutes'' = Val JNull"
    by (simp add: four_def four0_def case_prod_unfold row_index row_min row_max row_minutes)
  from body lenA lenB len4 names cells show ?thesis
    by blast
qed


theorem exercise_backfill_rows_witness:
  "\<exists>t1 t2 A four B.
     prep_exercise_data
       [(''exercise-0.json'', File (JsonDoc (JArr
          [JObj [(''logId'', JInt 1),
                 (''heartRateZones'', JArr [JObj [(''name'', JStr ''Kardio''), (''min'', JInt 100),
                                                   (''max'', JInt 140), (''minutes'', JInt 12)]])],
           JObj [(''logId'', JInt 2), (''activityName'', JStr ''Walk'')]])))]
       [''exercise-0.json''] = Inr (t1, t2)
     \<and> body t2 = A @ four @ B \<and> length A = 1 \<and> length B = 0 \<and> length four = 4
     \<and> map (\<lambda>(i, cs). cell_of cs ''name'') four = map (\<lambda>n. Val (JStr n)) zone_names
     \<and> (\<forall>(i, cs) \<in> set four. i = Val (JInt 2) \<and> cell_of cs ''min'' = Val JNull
           \<and> cell_of cs ''max'' = Val JNull \<and> cell_of cs ''minutes'' = Val JNull)"
proof -
  let ?raw = "[(''exercise-0.json'', File (JsonDoc (JArr
          [JObj [(''logId'', JInt 1),
                 (''heartRateZones'', JArr [JObj [(''name'', JStr ''Kardio''), (''min'', JInt 100),
                                                   (''max'', JInt 140), (''minutes'', JInt 12)]])],
           JObj [(''logId'', JInt 2), (''activityName'', JStr ''Walk'')]])))]"
  let ?e0 = "JObj [(''logId'', JInt 1),
                 (''heartRateZones'', JArr [JObj [(''name'', JStr ''Kardio''), (''min'', JInt 100),
                                                   (''max'', JInt 140), (''minutes'', JInt 12)]])]"
  let ?d = "[(''logId'', JInt 2), (''activityName'', JStr ''Walk'')]"
  have loaded: "files_to_json ?raw [''exercise-0.json''] = Inr ([?e0] @ JObj ?d # [])"
    by (simp add: files_to_json_def file_to_json_def)
  have "\<not> isl (prep_exercise_data ?raw [''exercise-0.json''])"
    by code_simp
  then obtain t1 t2 where run: "prep_exercise_data ?raw [''exercise-0.json''] = Inr (t1, t2)"
    by (cases "prep_exercise_data ?raw [''exercise-0.json'']") auto
  have missing: "''heartRateZones'' \<notin> fst ` set ?d"
    by simp
  have rows: "zone_rows ?e0 = 1"
    by code_simp
  have logid: "lookup_json ?d ''logId'' = JInt 2"
    by (simp add: lookup_json_def)
  from exercise_backfill_rows [OF loaded missing run] rows logid run show ?thesis
    by (simp del: append.simps)
qed

section \<open>Tables indexed by time\<close>

lemma mapM_Inr_map:
  "mapM f xs = Inr ys \<Longrightarrow> ys = map (\<lambda>x. case f x of Inr y \<Rightarrow> y | Inl e \<Rightarrow> d x) xs"
  by (induction xs arbitrary: ys) (auto split: sum.splits)

lemma mapM_Inr_all: "mapM f xs = Inr ys \<Longrightarrow> \<forall>x \<in> set xs. \<exists>y. f x = Inr y"
  by (induction xs arbitrary: ys) (auto split: sum.splits)

lemma to_datetime_cell_Time: "to_datetime_cell parse c = Inr y \<Longrightarrow> is_time y"
  by (cases c) (auto simp: to_datetime_cell_def bnd_Inr_iff)

lemma zip_map_self: "zip xs (map g xs) = map (\<lambda>x. (x, g x)) xs"
  by (induction xs) auto

lemma wf_rename:
  assumes "wf_frame df"
  shows "wf_frame (rename f df)"
  unfolding wf_frame_def
proof
  fix r assume "r \<in> set (body (rename f df))"
  then obtain r0 where r0: "r0 \<in> set (body df)"
    and r: "r = (fst r0, map (\<lambda>(c, v). (f c, v)) (snd r0))"
    by (auto simp: rename_def)
  have "map fst (snd r) = map f (map fst (snd r0))"
    by (simp add: r comp_def case_prod_unfold)
  with assms r0 show "map fst (snd r) = columns (rename f df)"
    by (simp add: wf_frame_def rename_def)
qed

lemma wf_DataFrame: "wf_frame (DataFrame records)"
  by (auto simp: wf_frame_def DataFrame_def Let_def range_index_def comp_def in_set_enumerate_eq)

lemma json_normalize_Inr:
  assumes "json_normalize sep js = Inr df"
  shows "wf_frame df"
    and "\<exists>ds. mapM as_record js = Inr ds
           \<and> columns df = union_keys (map (normalise_json_ordered sep) ds)
           \<and> map snd (body df) = map (renamed_row (\<lambda>c. c) (columns df))
                                     (map (normalise_json_ordered sep) ds)"
proof -
  show "wf_frame df"
    using assms wf_DataFrame
    by (auto simp: json_normalize_def bnd_Inr_iff wf_frame_def split: if_splits)
  show "\<exists>ds. mapM as_record js = Inr ds
           \<and> columns df = union_keys (map (normalise_json_ordered sep) ds)
           \<and> map snd (body df) = map (renamed_row (\<lambda>c. c) (columns df))
                                     (map (normalise_json_ordered sep) ds)"
  proof (cases "js = []")
    case True
    with assms show ?thesis
      by (auto simp: json_normalize_def union_keys_def)
  next
    case False
    with assms obtain ds where ds: "mapM as_record js = Inr ds"
      and df: "df = DataFrame (map (normalise_json_ordered sep) ds)"
      by (auto simp: json_normalize_def bnd_Inr_iff)
    have "map snd (body df) = map (renamed_row (\<lambda>c. c) (columns df))
                                     (map (normalise_json_ordered sep) ds)"
      by (simp add: df DataFrame_def Let_def map_snd_range_index renamed_row_def comp_def)
    with ds df show ?thesis
      by (simp add: DataFrame_def Let_def)
  qed
qed

lemma map_snd_body_rename:
  "map snd (body (rename ren df)) = map (map (\<lambda>(c, v). (ren c, v))) (map snd (body df))"
  by (simp add: rename_def comp_def case_prod_unfold)

lemma renamed_row_rename:
  "map (\<lambda>(c, v). (ren c, v)) (renamed_row (\<lambda>c. c) cols f) = renamed_row ren cols f"
  by (simp add: renamed_row_def comp_def)

lemma cell_of_setitem_row:
  "c \<in> fst ` set cs \<Longrightarrow> cell_of (map (\<lambda>(n, x). (n, if n = c then v else x)) cs) c = v"
  by (induction cs) (auto simp: cell_of_def)

lemma filter_setitem_row:
  "filter (\<lambda>(n, x). n \<noteq> c) (map (\<lambda>(n, x). (n, if n = c then v else x)) cs)
   = filter (\<lambda>(n, x). n \<noteq> c) cs"
  by (induction cs) auto

lemma convert_column_Inr:
  assumes "convert_column missing parse c df = Inr df1"
  shows "c \<in> set (columns df)" and "count_list (columns df) c = 1"
    and "columns df1 = columns df"
    and "body df1 = map (\<lambda>(i, cs). (i, map (\<lambda>(n, x). (n, if n = c then converted parse (cell_of cs c) else x)) cs)) (body df)"
    and "\<forall>r \<in> set (body df). is_time (converted parse (cell_of (snd r) c))"
proof -
  from assms obtain vs ts where vs: "get_column missing df c = Inr vs"
    and ts: "mapM (to_datetime_cell parse) vs = Inr ts" and df1: "df1 = setitem df c ts"
    by (auto simp: convert_column_def bnd_Inr_iff to_datetime_def)
  from vs show "c \<in> set (columns df)" and "count_list (columns df) c = 1"
    by (auto simp: get_column_def split: if_splits)
  from vs have vs': "vs = map (\<lambda>r. cell_of (snd r) c) (body df)"
    by (auto simp: get_column_def column_values_def case_prod_unfold split: if_splits)
  show "columns df1 = columns df"
    by (simp add: df1 setitem_def)
  have ts': "ts = map (converted parse) vs"
    using mapM_Inr_map [OF ts, of "\<lambda>x. x"] by (simp add: converted_def)
  have "zip (body df) ts = map (\<lambda>r. (r, converted parse (cell_of (snd r) c))) (body df)"
    unfolding ts' vs' map_map by (simp add: zip_map_self comp_def)
  then show "body df1 = map (\<lambda>(i, cs). (i, map (\<lambda>(n, x). (n, if n = c then converted parse (cell_of cs c) else x)) cs)) (body df)"
    by (simp add: df1 setitem_def comp_def case_prod_unfold)
  show "\<forall>r \<in> set (body df). is_time (converted parse (cell_of (snd r) c))"
  proof
    fix r assume "r \<in> set (body df)"
    then have "cell_of (snd r) c \<in> set vs" by (simp add: vs')
    with mapM_Inr_all [OF ts] obtain y where "to_datetime_cell parse (cell_of (snd r) c) = Inr y"
      by blast
    then show "is_time (converted parse (cell_of (snd r) c))"
      using to_datetime_cell_Time by (simp add: converted_def)
  qed
qed


lemma time_key_le: "is_time a \<Longrightarrow> is_time b \<Longrightarrow> time_key a \<le> time_key b \<longleftrightarrow> label_le a b"
proof -
  assume "is_time a" and "is_time b"
  then obtain x y where "a = Time x" and "b = Time y"
    by (cases a; cases b) auto
  then show ?thesis
    by (cases x; cases y) (auto simp: less_eq_prod_def)
qed

lemma sorted_time_key:
  assumes "\<forall>r \<in> set rs. is_time (fst r)" and "sorted (map (\<lambda>r. time_key (fst r)) rs)"
  shows "sorted_wrt label_le (map fst rs)"
proof -
  have "sorted_wrt (\<lambda>a b. time_key (fst a) \<le> time_key (fst b)) rs"
    using assms(2) by (simp add: sorted_map)
  then have "sorted_wrt (\<lambda>a b. label_le (fst a) (fst b)) rs"
    by (rule sorted_wrt_mono_rel [rotated]) (use assms(1) in \<open>simp add: time_key_le\<close>)
  then show ?thesis
    by (simp add: sorted_wrt_map)
qed

lemma map_fst_filter_keys:
  "map fst (filter (\<lambda>(n, v). P n) cs) = filter P (map fst cs)"
  by (induction cs) auto

lemma sort_index_Inr:
  assumes "sort_index df = Inr out"
  shows "columns out = columns df"
    and "body out = sort_key (\<lambda>r. time_key (fst r)) (body df)"
    and "\<forall>r \<in> set (body df). is_time (fst r)"
    and "index_ascending out"
proof -
  from assms show all: "\<forall>r \<in> set (body df). is_time (fst r)"
    and b: "body out = sort_key (\<lambda>r. time_key (fst r)) (body df)"
    and "columns out = columns df"
    by (auto simp: sort_index_def split: if_splits)
  have "\<forall>r \<in> set (body out). is_time (fst r)"
    using all by (simp add: b)
  moreover have "sorted (map (\<lambda>r. time_key (fst r)) (body out))"
    by (simp add: b)
  ultimately show "index_ascending out"
    unfolding index_ascending_def by (rule sorted_time_key)
qed

lemma time_index_Inr:
  assumes wf: "wf_frame df"
    and run: "bnd (convert_column missing parse c df) (\<lambda>df1. bnd (set_index c df1) sort_index) = Inr out"
  shows "columns out = filter (\<lambda>n. n \<noteq> c) (columns df)"
    and "body out = sort_key (\<lambda>r. time_key (fst r)) (map (\<lambda>r. time_indexed_row parse c (snd r)) (body df))"
    and "c \<in> set (columns df)" and "count_list (columns df) c = 1"
    and "index_ascending out"
    and "wf_frame out"
proof -
  from run obtain df1 df2 where df1: "convert_column missing parse c df = Inr df1"
    and df2: "set_index c df1 = Inr df2" and out: "sort_index df2 = Inr out"
    by (auto simp: bnd_Inr_iff)
  note cc = convert_column_Inr [OF df1]
  note si = set_index_Inr [OF df2]
  note so = sort_index_Inr [OF out]
  show c_in: "c \<in> set (columns df)" and "count_list (columns df) c = 1"
    by (rule cc)+
  show "columns out = filter (\<lambda>n. n \<noteq> c) (columns df)"
    by (simp add: so si cc)
  have rows: "body df2 = map (\<lambda>r. time_indexed_row parse c (snd r)) (body df)"
  proof -
    have "body df2 = map (\<lambda>r. (cell_of (map (\<lambda>(n, x). (n, if n = c then converted parse (cell_of (snd r) c) else x)) (snd r)) c,
                               filter (\<lambda>(n, v). n \<noteq> c) (map (\<lambda>(n, x). (n, if n = c then converted parse (cell_of (snd r) c) else x)) (snd r))))
                        (body df)"
      by (simp add: si(4) cc(4) comp_def case_prod_unfold)
    also have "\<dots> = map (\<lambda>r. time_indexed_row parse c (snd r)) (body df)"
    proof (rule map_cong [OF refl])
      fix r assume "r \<in> set (body df)"
      with wf c_in have "c \<in> fst ` set (snd r)"
        by (metis wf_frame_def set_map)
      then show "(cell_of (map (\<lambda>(n, x). (n, if n = c then converted parse (cell_of (snd r) c) else x)) (snd r)) c,
                               filter (\<lambda>(n, v). n \<noteq> c) (map (\<lambda>(n, x). (n, if n = c then converted parse (cell_of (snd r) c) else x)) (snd r)))
            = time_indexed_row parse c (snd r)"
        by (simp add: time_indexed_row_def cell_of_setitem_row filter_setitem_row)
    qed
    finally show ?thesis .
  qed
  show "body out = sort_key (\<lambda>r. time_key (fst r)) (map (\<lambda>r. time_indexed_row parse c (snd r)) (body df))"
    by (simp add: so(2) rows)
  show "index_ascending out"
    by (rule so)
  show "wf_frame out"
    unfolding wf_frame_def
  proof
    fix r assume "r \<in> set (body out)"
    then obtain r0 where r0: "r0 \<in> set (body df)" and r: "r = time_indexed_row parse c (snd r0)"
      by (auto simp: so(2) rows)
    have "map fst (snd r) = filter (\<lambda>n. n \<noteq> c) (map fst (snd r0))"
      by (simp add: r time_indexed_row_def map_fst_filter_keys)
    with wf r0 show "map fst (snd r) = columns out"
      by (simp add: wf_frame_def so si cc)
  qed
qed


lemma files_to_df_Inr:
  assumes "files_to_df parse raw file_list ren True = Inr df"
  obtains js ds where "files_to_json raw file_list = Inr js"
    and "mapM as_record js = Inr ds"
    and "columns df = filter (\<lambda>n. n \<noteq> ''datetime'')
           (map ren (union_keys (map (normalise_json_ordered ''.'') ds)))"
    and "body df = sort_key (\<lambda>r. time_key (fst r))
           (map (\<lambda>d. time_indexed_row parse ''datetime''
                   (renamed_row ren (union_keys (map (normalise_json_ordered ''.'') ds))
                      (normalise_json_ordered ''.'' d))) ds)"
    and "count_list (map ren (union_keys (map (normalise_json_ordered ''.'') ds))) ''datetime'' = 1"
    and "index_ascending df" and "wf_frame df"
proof -
  from assms obtain js df0 where js: "files_to_json raw file_list = Inr js"
    and df0: "json_normalize ''.'' js = Inr df0"
    and run: "bnd (convert_column AttributeError parse ''datetime'' (rename ren df0))
                (\<lambda>df1. bnd (set_index ''datetime'' df1) sort_index) = Inr df"
    by (auto simp: files_to_df_def bnd_Inr_iff Let_def)
  from json_normalize_Inr [OF df0] obtain ds where ds: "mapM as_record js = Inr ds"
    and cols: "columns df0 = union_keys (map (normalise_json_ordered ''.'') ds)"
    and rows: "map snd (body df0) = map (renamed_row (\<lambda>c. c) (columns df0))
                                     (map (normalise_json_ordered ''.'') ds)"
    and wf0: "wf_frame df0"
    by blast
  note ti = time_index_Inr [OF wf_rename [OF wf0] run]
  have "map (\<lambda>r. time_indexed_row parse ''datetime'' (snd r)) (body (rename ren df0))
        = map (time_indexed_row parse ''datetime'') (map snd (body (rename ren df0)))"
    by (simp add: comp_def)
  also have "\<dots> = map (\<lambda>d. time_indexed_row parse ''datetime''
                   (renamed_row ren (union_keys (map (normalise_json_ordered ''.'') ds))
                      (normalise_json_ordered ''.'' d))) ds"
    by (simp add: map_snd_body_rename rows renamed_row_rename comp_def cols)
  finally have body: "body df = sort_key (\<lambda>r. time_key (fst r))
           (map (\<lambda>d. time_indexed_row parse ''datetime''
                   (renamed_row ren (union_keys (map (normalise_json_ordered ''.'') ds))
                      (normalise_json_ordered ''.'' d))) ds)"
    using ti(2) by simp
  show thesis
    using ti by (intro that [OF js ds _ body]) (simp_all add: columns_rename cols)
qed

section \<open>Steps and distance: the zero filter\<close>

lemma getitem_mask_filter:
  "body (getitem_mask df (invert (series_eq (column_values df c) v)))
   = filter (\<lambda>r. cell_of (snd r) c \<noteq> Val v) (body df)"
proof -
  have "map fst (filter snd (zip xs (map P xs))) = filter P xs" for xs :: "row list" and P
    by (induction xs) auto
  from this [of "body df" "\<lambda>r. cell_of (snd r) c \<noteq> Val v"] show ?thesis
    by (simp add: getitem_mask_def invert_def series_eq_def column_values_def comp_def
        case_prod_unfold)
qed

lemma unique_renamed:
  "count_list (map ren cols) x = 1 \<Longrightarrow> c0 \<in> set cols \<Longrightarrow> ren c0 = x \<Longrightarrow>
   map_of (map (\<lambda>c. (ren c, F c)) cols) x = Some (F c0)"
proof (induction cols)
  case Nil
  then show ?case by simp
next
  case (Cons c cols)
  show ?case
  proof (cases "ren c = x")
    case True
    with Cons.prems(1) have "count_list (map ren cols) x = 0" by simp
    then have "x \<notin> set (map ren cols)" using count_list_0_iff by fastforce
    with Cons.prems(2,3) have "c0 = c" by auto
    with True show ?thesis by simp
  next
    case False
    with Cons show ?thesis by auto
  qed
qed

lemma count_list_filter_other:
  "x \<noteq> k \<Longrightarrow> count_list (filter (\<lambda>n. n \<noteq> k) xs) x = count_list xs x"
  by (induction xs) auto

lemma mapM_as_record_objs: "mapM as_record (map JObj ds) = Inr ds"
  by (induction ds) (simp_all add: as_record_def)

lemma drop_zero_rows_Inr:
  assumes label: "label \<noteq> ''datetime''"
    and js: "files_to_json raw file_list = Inr (map JObj ds)"
    and run: "drop_zero_rows parse raw file_list label = Inr out"
  shows "mset (body out)
           = filter_mset (\<lambda>r. cell_of (snd r) label \<noteq> Val (JStr ''0''))
               (image_mset (value_row parse label ds) (mset ds))"
    and "\<forall>d \<in> set ds. \<forall>v. map_of (normalise_json_ordered ''.'' d) ''value'' = Some v \<longrightarrow>
           cell_of (snd (value_row parse label ds d)) label = Val v
         \<and> (value_row parse label ds d \<in> set (body out) \<longleftrightarrow> v \<noteq> JStr ''0'')"
    and "index_ascending out"
proof -
  let ?ren = "mapper [(''dateTime'', ''datetime''), (''value'', label)]"
  from run obtain df vs where df: "files_to_df parse raw file_list ?ren True = Inr df"
    and vs: "getattr df label = Inr vs"
    and out: "out = getitem_mask df (invert (series_eq vs (JStr ''0'')))"
    by (auto simp: drop_zero_rows_def bnd_Inr_iff)
  from files_to_df_Inr [OF df] obtain js' ds' where js': "files_to_json raw file_list = Inr js'"
    and ds': "mapM as_record js' = Inr ds'"
    and cols: "columns df = filter (\<lambda>n. n \<noteq> ''datetime'')
           (map ?ren (union_keys (map (normalise_json_ordered ''.'') ds')))"
    and body': "body df = sort_key (\<lambda>r. time_key (fst r))
           (map (\<lambda>d. time_indexed_row parse ''datetime''
                   (renamed_row ?ren (union_keys (map (normalise_json_ordered ''.'') ds'))
                      (normalise_json_ordered ''.'' d))) ds')"
    and asc: "index_ascending df"
    by blast
  from js js' ds' have "ds' = ds"
    by (simp add: mapM_as_record_objs)
  note cols = cols [unfolded this] and body' = body' [unfolded this]
  have body: "body df = sort_key (\<lambda>r. time_key (fst r)) (map (value_row parse label ds) ds)"
    unfolding body' value_row_def ..
  define cols0 where "cols0 = union_keys (map (normalise_json_ordered ''.'') ds)"
  from vs have vs': "vs = column_values df label" and cnt0: "count_list (columns df) label = 1"
    by (auto simp: getattr_def get_column_def split: if_splits)
  have cnt: "count_list (map ?ren cols0) label = 1"
    using cnt0 label by (simp add: cols count_list_filter_other cols0_def)
  have out_body: "body out = filter (\<lambda>r. cell_of (snd r) label \<noteq> Val (JStr ''0'')) (body df)"
    unfolding out vs' by (rule getitem_mask_filter)
  show "mset (body out) = filter_mset (\<lambda>r. cell_of (snd r) label \<noteq> Val (JStr ''0''))
                    (image_mset (value_row parse label ds) (mset ds))"
    by (simp add: out_body body)
  show "index_ascending out"
    using asc unfolding index_ascending_def out_body
    by (simp add: sorted_wrt_map sorted_wrt_filter)
  have cellv: "cell_of (snd (value_row parse label ds d)) label = Val v"
    if d: "d \<in> set ds" and v: "map_of (normalise_json_ordered ''.'' d) ''value'' = Some v" for d v
  proof -
    have "''value'' \<in> fst ` set (normalise_json_ordered ''.'' d)"
      using v by (metis map_of_eq_None_iff option.distinct(1))
    with d have in_cols: "''value'' \<in> set cols0"
      unfolding cols0_def set_union_keys by auto
    have ren: "?ren ''value'' = label"
      by (simp add: mapper_def)
    have "map_of (filter (\<lambda>(n, v). n \<noteq> ''datetime'')
                    (renamed_row ?ren cols0 (normalise_json_ordered ''.'' d))) label
          = map_of (renamed_row ?ren cols0 (normalise_json_ordered ''.'' d)) label"
      using label by (rule map_of_filter_other)
    also have "\<dots> = Some (Val (lookup_json (normalise_json_ordered ''.'' d) ''value''))"
      unfolding renamed_row_def
      by (rule unique_renamed
          [where F = "\<lambda>c. Val (lookup_json (normalise_json_ordered ''.'' d) c)",
            OF cnt in_cols ren])
    finally show ?thesis
      by (simp add: value_row_def cols0_def time_indexed_row_def cell_of_def lookup_json_def v)
  qed
  show "\<forall>d \<in> set ds. \<forall>v. map_of (normalise_json_ordered ''.'' d) ''value'' = Some v \<longrightarrow>
           cell_of (snd (value_row parse label ds d)) label = Val v
         \<and> (value_row parse label ds d \<in> set (body out) \<longleftrightarrow> v \<noteq> JStr ''0'')"
  proof (intro ballI allI impI)
    fix d v assume d: "d \<in> set ds"
      and v: "map_of (normalise_json_ordered ''.'' d) ''value'' = Some v"
    have "value_row parse label ds d \<in> set (body df)"
      using d by (simp add: body)
    then show "cell_of (snd (value_row parse label ds d)) label = Val v
         \<and> (value_row parse label ds d \<in> set (body out) \<longleftrightarrow> v \<noteq> JStr ''0'')"
      by (simp add: out_body cellv [OF d v])
  qed
qed

text \<open>
  Claim C2. In the steps and the distance transform the loaded records \<open>ds\<close> become rows,
  and the written table holds exactly the rows whose value cell is not the string \<open>"0"\<close>
  (as many times as they occur). A record with a \<open>value\<close> member \<open>v\<close> has \<open>v\<close> as its value
  cell, and its row is in the table if and only if \<open>v\<close> is not the string \<open>"0"\<close>: the string
  \<open>"0.0"\<close> and the number \<open>0\<close> stay, since the test compares with a string literal.
\<close>

theorem zero_rows_dropped:
  assumes "files_to_json raw file_list = Inr (map JObj ds)"
    and "(run = prep_steps_data \<and> label = ''number'')
       \<or> (run = prep_distance_data \<and> label = ''distance'')"
    and "run parse raw file_list = Inr out"
  shows "mset (body out)
           = filter_mset (\<lambda>r. cell_of (snd r) label \<noteq> Val (JStr ''0''))
               (image_mset (value_row parse label ds) (mset ds))
       \<and> (\<forall>d \<in> set ds. \<forall>v. map_of (normalise_json_ordered ''.'' d) ''value'' = Some v \<longrightarrow>
             cell_of (snd (value_row parse label ds d)) label = Val v
           \<and> (value_row parse label ds d \<in> set (body out) \<longleftrightarrow> v \<noteq> JStr ''0''))"
proof -
  have "label \<noteq> ''datetime''" and "drop_zero_rows parse raw file_list label = Inr out"
    using assms(2,3) by (auto simp: prep_steps_data_def prep_distance_data_def)
  from drop_zero_rows_Inr(1,2) [OF this(1) assms(1) this(2)] show ?thesis
    by simp
qed


theorem zero_rows_dropped_witness:
  "\<exists>steps distance.
     prep_steps_data (table_parser [(''2023-01-01T00:00:00'', 0), (''2023-01-01T00:01:00'', 60), (''2023-01-01T00:02:00'', 120)])
       [(''steps-2023-01-01.json'', File (JsonDoc (JArr
          [JObj [(''dateTime'', JStr ''2023-01-01T00:00:00''), (''value'', JStr ''0'')],
           JObj [(''dateTime'', JStr ''2023-01-01T00:02:00''), (''value'', JInt 0)],
           JObj [(''dateTime'', JStr ''2023-01-01T00:01:00''), (''value'', JStr ''0.0'')]]))),
       (''distance-2023-01-01.json'', File (JsonDoc (JArr
          [JObj [(''dateTime'', JStr ''2023-01-01T00:00:00''), (''value'', JStr ''0'')],
           JObj [(''dateTime'', JStr ''2023-01-01T00:01:00''), (''value'', JStr ''0.0'')]])))]
       [''steps-2023-01-01.json''] = Inr steps
   \<and> body steps = [(Time (Some 60), [(''number'', Val (JStr ''0.0''))]),
                   (Time (Some 120), [(''number'', Val (JInt 0))])]
   \<and> value_row (table_parser [(''2023-01-01T00:00:00'', 0), (''2023-01-01T00:01:00'', 60), (''2023-01-01T00:02:00'', 120)]) ''number'' [[(''dateTime'', JStr ''2023-01-01T00:00:00''), (''value'', JStr ''0'')], [(''dateTime'', JStr ''2023-01-01T00:02:00''), (''value'', JInt 0)], [(''dateTime'', JStr ''2023-01-01T00:01:00''), (''value'', JStr ''0.0'')]] [(''dateTime'', JStr ''2023-01-01T00:00:00''), (''value'', JStr ''0'')] \<notin> set (body steps)
   \<and> value_row (table_parser [(''2023-01-01T00:00:00'', 0), (''2023-01-01T00:01:00'', 60), (''2023-01-01T00:02:00'', 120)]) ''number'' [[(''dateTime'', JStr ''2023-01-01T00:00:00''), (''value'', JStr ''0'')], [(''dateTime'', JStr ''2023-01-01T00:02:00''), (''value'', JInt 0)], [(''dateTime'', JStr ''2023-01-01T00:01:00''), (''value'', JStr ''0.0'')]] [(''dateTime'', JStr ''2023-01-01T00:02:00''), (''value'', JInt 0)] \<in> set (body steps)
   \<and> value_row (table_parser [(''2023-01-01T00:00:00'', 0), (''2023-01-01T00:01:00'', 60), (''2023-01-01T00:02:00'', 120)]) ''number'' [[(''dateTime'', JStr ''2023-01-01T00:00:00''), (''value'', JStr ''0'')], [(''dateTime'', JStr ''2023-01-01T00:02:00''), (''value'', JInt 0)], [(''dateTime'', JStr ''2023-01-01T00:01:00''), (''value'', JStr ''0.0'')]] [(''dateTime'', JStr ''2023-01-01T00:01:00''), (''value'', JStr ''0.0'')] \<in> set (body steps)
   \<and> prep_distance_data (table_parser [(''2023-01-01T00:00:00'', 0), (''2023-01-01T00:01:00'', 60), (''2023-01-01T00:02:00'', 120)])
       [(''steps-2023-01-01.json'', File (JsonDoc (JArr
          [JObj [(''dateTime'', JStr ''2023-01-01T00:00:00''), (''value'', JStr ''0'')],
           JObj [(''dateTime'', JStr ''2023-01-01T00:02:00''), (''value'', JInt 0)],
           JObj [(''dateTime'', JStr ''2023-01-01T00:01:00''), (''value'', JStr ''0.0'')]]))),
       (''distance-2023-01-01.json'', File (JsonDoc (JArr
          [JObj [(''dateTime'', JStr ''2023-01-01T00:00:00''), (''value'', JStr ''0'')],
           JObj [(''dateTime'', JStr ''2023-01-01T00:01:00''), (''value'', JStr ''0.0'')]])))]
       [''distance-2023-01-01.json''] = Inr distance
   \<and> value_row (table_parser [(''2023-01-01T00:00:00'', 0), (''2023-01-01T00:01:00'', 60), (''2023-01-01T00:02:00'', 120)]) ''distance'' [[(''dateTime'', JStr ''2023-01-01T00:00:00''), (''value'', JStr ''0'')], [(''dateTime'', JStr ''2023-01-01T00:01:00''), (''value'', JStr ''0.0'')]] [(''dateTime'', JStr ''2023-01-01T00:00:00''), (''value'', JStr ''0'')] \<notin> set (body distance)
   \<and> value_row (table_parser [(''2023-01-01T00:00:00'', 0), (''2023-01-01T00:01:00'', 60), (''2023-01-01T00:02:00'', 120)]) ''distance'' [[(''dateTime'', JStr ''2023-01-01T00:00:00''), (''value'', JStr ''0'')], [(''dateTime'', JStr ''2023-01-01T00:01:00''), (''value'', JStr ''0.0'')]] [(''dateTime'', JStr ''2023-01-01T00:01:00''), (''value'', JStr ''0.0'')] \<in> set (body distance)"
proof -
  let ?parse = "(table_parser [(''2023-01-01T00:00:00'', 0), (''2023-01-01T00:01:00'', 60), (''2023-01-01T00:02:00'', 120)])"
  let ?raw = "[(''steps-2023-01-01.json'', File (JsonDoc (JArr
          [JObj [(''dateTime'', JStr ''2023-01-01T00:00:00''), (''value'', JStr ''0'')],
           JObj [(''dateTime'', JStr ''2023-01-01T00:02:00''), (''value'', JInt 0)],
           JObj [(''dateTime'', JStr ''2023-01-01T00:01:00''), (''value'', JStr ''0.0'')]]))),
       (''distance-2023-01-01.json'', File (JsonDoc (JArr
          [JObj [(''dateTime'', JStr ''2023-01-01T00:00:00''), (''value'', JStr ''0'')],
           JObj [(''dateTime'', JStr ''2023-01-01T00:01:00''), (''value'', JStr ''0.0'')]])))]"
  let ?d0 = "[(''dateTime'', JStr ''2023-01-01T00:00:00''), (''value'', JStr ''0'')]"
  let ?d1 = "[(''dateTime'', JStr ''2023-01-01T00:02:00''), (''value'', JInt 0)]"
  let ?d2 = "[(''dateTime'', JStr ''2023-01-01T00:01:00''), (''value'', JStr ''0.0'')]"
  let ?steps = "\<lparr>columns = [''number''],
                 body = [(Time (Some 60), [(''number'', Val (JStr ''0.0''))]),
                         (Time (Some 120), [(''number'', Val (JInt 0))])]\<rparr>"
  have loaded: "files_to_json ?raw [''steps-2023-01-01.json''] = Inr (map JObj [?d0, ?d1, ?d2])"
    by (simp add: files_to_json_def file_to_json_def)
  have run: "prep_steps_data ?parse ?raw [''steps-2023-01-01.json''] = Inr ?steps"
    by code_simp
  have loaded2: "files_to_json ?raw [''distance-2023-01-01.json''] = Inr (map JObj [?d0, ?d2])"
    by (simp add: files_to_json_def file_to_json_def)
  have "\<not> isl (prep_distance_data ?parse ?raw [''distance-2023-01-01.json''])"
    by code_simp
  then obtain distance
    where run2: "prep_distance_data ?parse ?raw [''distance-2023-01-01.json''] = Inr distance"
    by (cases "prep_distance_data ?parse ?raw [''distance-2023-01-01.json'']") auto
  have v0: "map_of (normalise_json_ordered ''.'' ?d0) ''value'' = Some (JStr ''0'')"
    and v1: "map_of (normalise_json_ordered ''.'' ?d1) ''value'' = Some (JInt 0)"
    and v2: "map_of (normalise_json_ordered ''.'' ?d2) ''value'' = Some (JStr ''0.0'')"
    by (simp_all add: normalise_json_ordered_def dict_of_def)
  have c: "(prep_steps_data = prep_steps_data \<and> ''number'' = ''number'')
       \<or> (prep_steps_data = prep_distance_data \<and> ''number'' = ''distance'')"
    by simp
  have c2: "(prep_distance_data = prep_steps_data \<and> ''distance'' = ''number'')
       \<or> (prep_distance_data = prep_distance_data \<and> ''distance'' = ''distance'')"
    by simp
  note s = zero_rows_dropped [where run = prep_steps_data and label = "''number''",
      OF loaded c run, THEN conjunct2, rule_format]
  note d = zero_rows_dropped [where run = prep_distance_data and label = "''distance''",
      OF loaded2 c2 run2, THEN conjunct2, rule_format]
  have "value_row ?parse ''number'' [?d0, ?d1, ?d2] ?d0 \<notin> set (body ?steps)"
    using s [OF _ v0] by simp
  moreover have "value_row ?parse ''number'' [?d0, ?d1, ?d2] ?d1 \<in> set (body ?steps)"
    using s [OF _ v1] by simp
  moreover have "value_row ?parse ''number'' [?d0, ?d1, ?d2] ?d2 \<in> set (body ?steps)"
    using s [OF _ v2] by simp
  moreover have "value_row ?parse ''distance'' [?d0, ?d2] ?d0 \<notin> set (body distance)"
    using d [OF _ v0] by simp
  moreover have "value_row ?parse ''distance'' [?d0, ?d2] ?d2 \<in> set (body distance)"
    using d [OF _ v2] by simp
  ultimately show ?thesis
    using run run2 by simp
qed

section \<open>Resting heart rate: records without a date\<close>

lemma files_to_df_plain_Inr:
  assumes "files_to_df parse raw file_list ren False = Inr df"
    and "files_to_json raw file_list = Inr (map JObj ds)"
  shows "columns df = map ren (union_keys (map (normalise_json_ordered ''.'') ds))"
    and "map snd (body df) = map (\<lambda>d. renamed_row ren (union_keys (map (normalise_json_ordered ''.'') ds))
                                       (normalise_json_ordered ''.'' d)) ds"
    and "wf_frame df"
proof -
  from assms obtain df0 where df0: "json_normalize ''.'' (map JObj ds) = Inr df0"
    and df: "df = rename ren df0"
    by (auto simp: files_to_df_def bnd_Inr_iff Let_def)
  from json_normalize_Inr [OF df0] have wf0: "wf_frame df0"
    and cols: "columns df0 = union_keys (map (normalise_json_ordered ''.'') ds)"
    and rows: "map snd (body df0) = map (renamed_row (\<lambda>c. c) (columns df0))
                                     (map (normalise_json_ordered ''.'') ds)"
    by (auto simp: mapM_as_record_objs)
  show "columns df = map ren (union_keys (map (normalise_json_ordered ''.'') ds))"
    by (simp add: df columns_rename cols)
  show "map snd (body df) = map (\<lambda>d. renamed_row ren (union_keys (map (normalise_json_ordered ''.'') ds))
                                       (normalise_json_ordered ''.'' d)) ds"
    by (simp add: df map_snd_body_rename rows renamed_row_rename comp_def cols)
  show "wf_frame df"
    unfolding df using wf0 by (rule wf_rename)
qed

lemma getitem_mask_notna:
  "body (getitem_mask df (notna (column_values df c)))
   = filter (\<lambda>r. \<not> isna (cell_of (snd r) c)) (body df)"
proof -
  have "map fst (filter snd (zip xs (map P xs))) = filter P xs" for xs :: "row list" and P
    by (induction xs) auto
  from this [of "body df" "\<lambda>r. \<not> isna (cell_of (snd r) c)"] show ?thesis
    by (simp add: getitem_mask_def notna_def column_values_def comp_def case_prod_unfold)
qed

lemma cell_of_set_cell_same:
  "c \<in> fst ` set cs \<Longrightarrow> cell_of (set_cell c v cs) c = v"
  unfolding set_cell_def by (rule cell_of_setitem_row)

lemma cell_of_set_cell_other:
  "k \<noteq> c \<Longrightarrow> cell_of (set_cell c v cs) k = cell_of cs k"
  by (induction cs) (auto simp: cell_of_def set_cell_def)

lemma keys_set_cell: "map fst (set_cell c v cs) = map fst cs"
  by (simp add: set_cell_def comp_def case_prod_unfold)

lemma filter_set_cell_twice:
  "filter (\<lambda>(n, x). n \<noteq> c) (set_cell k v (set_cell c w cs))
   = filter (\<lambda>(n, x). n \<noteq> c) (set_cell k v cs)"
  by (induction cs) (auto simp: set_cell_def)

lemma convert_column_rows:
  assumes "convert_column missing parse c df = Inr df1"
  shows "map snd (body df1) = map (\<lambda>cs. set_cell c (converted parse (cell_of cs c)) cs) (map snd (body df))"
  by (simp add: convert_column_Inr(4) [OF assms] set_cell_def comp_def case_prod_unfold)

lemma resting_columns_fixed:
  "resting_columns ''value.date'' = ''date''" "resting_columns ''dateTime'' = ''datetime''"
  by code_simp+

lemma resting_Inr:
  assumes js: "files_to_json raw file_list = Inr (map JObj ds)"
    and run: "prep_heart_rate_resting_data parse raw file_list = Inr out"
  shows "body out = sort_key (\<lambda>r. time_key (fst r))
           (map (resting_row parse ds)
              (filter (\<lambda>d. \<not> isna (cell_of (resting_cells ds d) ''date'')) ds))"
    and "count_list (map resting_columns (union_keys (map (normalise_json_ordered ''.'') ds))) ''date'' = 1"
    and "count_list (map resting_columns (union_keys (map (normalise_json_ordered ''.'') ds))) ''datetime'' = 1"
    and "index_ascending out"
proof -
  let ?cols = "union_keys (map (normalise_json_ordered ''.'') ds)"
  from run obtain df0 dates df1 df2 df3
    where df0: "files_to_df parse raw file_list resting_columns False = Inr df0"
      and dates: "getattr df0 ''date'' = Inr dates"
      and df1: "convert_column KeyError parse ''datetime'' (getitem_mask df0 (notna dates)) = Inr df1"
      and df2: "convert_column KeyError parse ''date'' df1 = Inr df2"
      and df3: "set_index ''datetime'' df2 = Inr df3"
      and out: "sort_index df3 = Inr out"
    by (auto simp: prep_heart_rate_resting_data_def bnd_Inr_iff Let_def)
  note p = files_to_df_plain_Inr [OF df0 js]
  define df where "df = getitem_mask df0 (notna dates)"
  from dates have dates': "dates = column_values df0 ''date''"
    and cnt: "count_list (columns df0) ''date'' = 1"
    by (auto simp: getattr_def get_column_def split: if_splits)
  show "count_list (map resting_columns ?cols) ''date'' = 1"
    using cnt by (simp add: p(1))
  have cols_df: "columns df = columns df0"
    by (simp add: df_def getitem_mask_def)
  have body_df: "body df = filter (\<lambda>r. \<not> isna (cell_of (snd r) ''date'')) (body df0)"
    unfolding df_def dates' by (rule getitem_mask_notna)
  have wf: "wf_frame df"
    using p(3) by (auto simp: wf_frame_def cols_df body_df)
  have cells: "map snd (body df) = map (resting_cells ds)
                 (filter (\<lambda>d. \<not> isna (cell_of (resting_cells ds d) ''date'')) ds)"
  proof -
    have "map snd (body df) = filter (\<lambda>cs. \<not> isna (cell_of cs ''date'')) (map snd (body df0))"
      by (simp add: body_df filter_map comp_def)
    also have "map snd (body df0) = map (resting_cells ds) ds"
      by (simp add: p(2) resting_cells_def)
    finally show ?thesis
      by (simp add: filter_map comp_def)
  qed
  note c1 = convert_column_Inr [OF df1 [folded df_def]]
  show "count_list (map resting_columns ?cols) ''datetime'' = 1"
    using c1(2) by (simp add: cols_df p(1))
  have rows1: "map snd (body df1)
               = map (\<lambda>cs. set_cell ''datetime'' (converted parse (cell_of cs ''datetime'')) cs)
                   (map snd (body df))"
    using df1 [folded df_def] by (rule convert_column_rows)
  have rows2: "map snd (body df2)
               = map (\<lambda>cs. set_cell ''date'' (converted parse (cell_of cs ''date'')) cs)
                   (map snd (body df1))"
    using df2 by (rule convert_column_rows)
  note si = set_index_Inr [OF df3]
  note so = sort_index_Inr [OF out]
  have "body df3 = map (\<lambda>cs. (cell_of cs ''datetime'', filter (\<lambda>(n, v). n \<noteq> ''datetime'') cs))
                     (map snd (body df2))"
    by (rule si)
  also have "\<dots> = map (\<lambda>cs.
                 (cell_of (set_cell ''date'' (converted parse (cell_of (set_cell ''datetime'' (converted parse (cell_of cs ''datetime'')) cs) ''date''))
                             (set_cell ''datetime'' (converted parse (cell_of cs ''datetime'')) cs)) ''datetime'',
                  filter (\<lambda>(n, v). n \<noteq> ''datetime'')
                    (set_cell ''date'' (converted parse (cell_of (set_cell ''datetime'' (converted parse (cell_of cs ''datetime'')) cs) ''date''))
                             (set_cell ''datetime'' (converted parse (cell_of cs ''datetime'')) cs))))
               (map snd (body df))"
    by (simp add: rows2 rows1 comp_def)
  also have "\<dots> = map (\<lambda>cs. (converted parse (cell_of cs ''datetime''),
                             filter (\<lambda>(n, v). n \<noteq> ''datetime'')
                               (set_cell ''date'' (converted parse (cell_of cs ''date'')) cs)))
                     (map snd (body df))"
  proof (rule map_cong [OF refl])
    fix cs assume "cs \<in> set (map snd (body df))"
    with wf have "map fst cs = columns df"
      by (auto simp: wf_frame_def)
    with c1(1) have "''datetime'' \<in> fst ` set cs"
      by (metis set_map)
    then have "''datetime'' \<in> fst ` set (set_cell ''datetime'' (converted parse (cell_of cs ''datetime'')) cs)"
      by (metis keys_set_cell set_map)
    then show "(cell_of (set_cell ''date'' (converted parse (cell_of (set_cell ''datetime'' (converted parse (cell_of cs ''datetime'')) cs) ''date''))
                             (set_cell ''datetime'' (converted parse (cell_of cs ''datetime'')) cs)) ''datetime'',
                  filter (\<lambda>(n, v). n \<noteq> ''datetime'')
                    (set_cell ''date'' (converted parse (cell_of (set_cell ''datetime'' (converted parse (cell_of cs ''datetime'')) cs) ''date''))
                             (set_cell ''datetime'' (converted parse (cell_of cs ''datetime'')) cs)))
          = (converted parse (cell_of cs ''datetime''),
                             filter (\<lambda>(n, v). n \<noteq> ''datetime'')
                               (set_cell ''date'' (converted parse (cell_of cs ''date'')) cs))"
      using \<open>''datetime'' \<in> fst ` set cs\<close>
      by (simp add: cell_of_set_cell_other cell_of_set_cell_same filter_set_cell_twice)
  qed
  also have "\<dots> = map (resting_row parse ds)
                 (filter (\<lambda>d. \<not> isna (cell_of (resting_cells ds d) ''date'')) ds)"
    by (simp add: cells resting_row_def Let_def comp_def)
  finally show "body out = sort_key (\<lambda>r. time_key (fst r))
           (map (resting_row parse ds)
              (filter (\<lambda>d. \<not> isna (cell_of (resting_cells ds d) ''date'')) ds))"
    by (simp add: so(2))
  show "index_ascending out"
    by (rule so)
qed


lemma flat_key_in_cols:
  assumes "d \<in> set ds" and "map_of (normalise_json_ordered sep d) k = Some v"
  shows "k \<in> set (union_keys (map (normalise_json_ordered sep) ds))"
proof -
  have "k \<in> fst ` set (normalise_json_ordered sep d)"
    using assms(2) by (metis map_of_eq_None_iff option.distinct(1))
  with assms(1) show ?thesis
    unfolding set_union_keys by auto
qed

text \<open>
  Claim C5. The resting-heart-rate table holds exactly the rows of the loaded records whose
  date cell is not null, as many times as they occur. The date cell of a record is its
  nested \<open>value.date\<close> member, so a record with a null date is left out and one with any
  other date is kept; the index label of a record's row is its \<open>dateTime\<close> member as
  \<open>pd.to_datetime\<close> reads it.
\<close>

theorem resting_null_dates_excluded:
  assumes "files_to_json raw file_list = Inr (map JObj ds)"
    and "prep_heart_rate_resting_data parse raw file_list = Inr out"
  shows "mset (body out)
           = image_mset (resting_row parse ds)
               (filter_mset (\<lambda>d. \<not> isna (cell_of (resting_cells ds d) ''date'')) (mset ds))
       \<and> (\<forall>d \<in> set ds. \<forall>v. map_of (normalise_json_ordered ''.'' d) ''value.date'' = Some v \<longrightarrow>
             cell_of (resting_cells ds d) ''date'' = Val v
           \<and> (isna (cell_of (resting_cells ds d) ''date'') \<longleftrightarrow> v = JNull))
       \<and> (\<forall>d \<in> set ds. \<forall>v. map_of (normalise_json_ordered ''.'' d) ''dateTime'' = Some v \<longrightarrow>
             fst (resting_row parse ds d) = converted parse (Val v))"
proof (intro conjI ballI allI impI)
  note r = resting_Inr [OF assms]
  show "mset (body out)
           = image_mset (resting_row parse ds)
               (filter_mset (\<lambda>d. \<not> isna (cell_of (resting_cells ds d) ''date'')) (mset ds))"
    by (simp add: r(1))
  fix d v assume d: "d \<in> set ds"
  {
    assume v: "map_of (normalise_json_ordered ''.'' d) ''value.date'' = Some v"
    have "map_of (resting_cells ds d) ''date''
          = Some (Val (lookup_json (normalise_json_ordered ''.'' d) ''value.date''))"
      unfolding resting_cells_def renamed_row_def
      by (rule unique_renamed
          [where F = "\<lambda>c. Val (lookup_json (normalise_json_ordered ''.'' d) c)",
            OF r(2) flat_key_in_cols [OF d v] resting_columns_fixed(1)])
    then show c: "cell_of (resting_cells ds d) ''date'' = Val v"
      by (simp add: cell_of_def lookup_json_def v)
    show "isna (cell_of (resting_cells ds d) ''date'') \<longleftrightarrow> v = JNull"
      by (simp add: c isna_def)
  }
  {
    assume v: "map_of (normalise_json_ordered ''.'' d) ''dateTime'' = Some v"
    have "map_of (resting_cells ds d) ''datetime''
          = Some (Val (lookup_json (normalise_json_ordered ''.'' d) ''dateTime''))"
      unfolding resting_cells_def renamed_row_def
      by (rule unique_renamed
          [where F = "\<lambda>c. Val (lookup_json (normalise_json_ordered ''.'' d) c)",
            OF r(3) flat_key_in_cols [OF d v] resting_columns_fixed(2)])
    then show "fst (resting_row parse ds d) = converted parse (Val v)"
      by (simp add: resting_row_def Let_def cell_of_def lookup_json_def v)
  }
qed

theorem resting_null_dates_excluded_witness:
  "prep_heart_rate_resting_data (table_parser [(''04/17/21 00:00:00'', 1), (''04/18/21 00:00:00'', 2), (''04/18/21'', 2)])
     [(''resting_heart_rate-2021-04-17.json'', File (JsonDoc (JArr
          [JObj [(''dateTime'', JStr ''04/18/21 00:00:00''), (''value'', JObj [(''date'', JStr ''04/18/21''), (''value'', JInt 58), (''error'', JInt 6)])],
           JObj [(''dateTime'', JStr ''04/17/21 00:00:00''), (''value'', JObj [(''date'', JNull), (''value'', JInt 0), (''error'', JInt 0)])]])))]
     [''resting_heart_rate-2021-04-17.json'']
   = Inr \<lparr>columns = [''date'', ''value'', ''error''],
        body = [(Time (Some 2), [(''date'', Time (Some 2)), (''value'', Val (JInt 58)),
                                 (''error'', Val (JInt 6))])]\<rparr>
   \<and> mset (body \<lparr>columns = [''date'', ''value'', ''error''],
        body = [(Time (Some 2), [(''date'', Time (Some 2)), (''value'', Val (JInt 58)),
                                 (''error'', Val (JInt 6))])]\<rparr>)
       = image_mset (resting_row (table_parser [(''04/17/21 00:00:00'', 1), (''04/18/21 00:00:00'', 2), (''04/18/21'', 2)]) [[(''dateTime'', JStr ''04/18/21 00:00:00''), (''value'', JObj [(''date'', JStr ''04/18/21''), (''value'', JInt 58), (''error'', JInt 6)])], [(''dateTime'', JStr ''04/17/21 00:00:00''), (''value'', JObj [(''date'', JNull), (''value'', JInt 0), (''error'', JInt 0)])]])
           (filter_mset (\<lambda>d. \<not> isna (cell_of (resting_cells [[(''dateTime'', JStr ''04/18/21 00:00:00''), (''value'', JObj [(''date'', JStr ''04/18/21''), (''value'', JInt 58), (''error'', JInt 6)])], [(''dateTime'', JStr ''04/17/21 00:00:00''), (''value'', JObj [(''date'', JNull), (''value'', JInt 0), (''error'', JInt 0)])]] d) ''date''))
              (mset [[(''dateTime'', JStr ''04/18/21 00:00:00''), (''value'', JObj [(''date'', JStr ''04/18/21''), (''value'', JInt 58), (''error'', JInt 6)])], [(''dateTime'', JStr ''04/17/21 00:00:00''), (''value'', JObj [(''date'', JNull), (''value'', JInt 0), (''error'', JInt 0)])]]))
   \<and> isna (cell_of (resting_cells [[(''dateTime'', JStr ''04/18/21 00:00:00''), (''value'', JObj [(''date'', JStr ''04/18/21''), (''value'', JInt 58), (''error'', JInt 6)])], [(''dateTime'', JStr ''04/17/21 00:00:00''), (''value'', JObj [(''date'', JNull), (''value'', JInt 0), (''error'', JInt 0)])]] [(''dateTime'', JStr ''04/17/21 00:00:00''), (''value'', JObj [(''date'', JNull), (''value'', JInt 0), (''error'', JInt 0)])]) ''date'')
   \<and> \<not> isna (cell_of (resting_cells [[(''dateTime'', JStr ''04/18/21 00:00:00''), (''value'', JObj [(''date'', JStr ''04/18/21''), (''value'', JInt 58), (''error'', JInt 6)])], [(''dateTime'', JStr ''04/17/21 00:00:00''), (''value'', JObj [(''date'', JNull), (''value'', JInt 0), (''error'', JInt 0)])]] [(''dateTime'', JStr ''04/18/21 00:00:00''), (''value'', JObj [(''date'', JStr ''04/18/21''), (''value'', JInt 58), (''error'', JInt 6)])]) ''date'')
   \<and> fst (resting_row (table_parser [(''04/17/21 00:00:00'', 1), (''04/18/21 00:00:00'', 2), (''04/18/21'', 2)]) [[(''dateTime'', JStr ''04/18/21 00:00:00''), (''value'', JObj [(''date'', JStr ''04/18/21''), (''value'', JInt 58), (''error'', JInt 6)])], [(''dateTime'', JStr ''04/17/21 00:00:00''), (''value'', JObj [(''date'', JNull), (''value'', JInt 0), (''error'', JInt 0)])]] [(''dateTime'', JStr ''04/18/21 00:00:00''), (''value'', JObj [(''date'', JStr ''04/18/21''), (''value'', JInt 58), (''error'', JInt 6)])]) = Time (Some 2)"
proof -
  let ?parse = "(table_parser [(''04/17/21 00:00:00'', 1), (''04/18/21 00:00:00'', 2), (''04/18/21'', 2)])"
  let ?raw = "[(''resting_heart_rate-2021-04-17.json'', File (JsonDoc (JArr
          [JObj [(''dateTime'', JStr ''04/18/21 00:00:00''), (''value'', JObj [(''date'', JStr ''04/18/21''), (''value'', JInt 58), (''error'', JInt 6)])],
           JObj [(''dateTime'', JStr ''04/17/21 00:00:00''), (''value'', JObj [(''date'', JNull), (''value'', JInt 0), (''error'', JInt 0)])]])))]"
  let ?ok = "[(''dateTime'', JStr ''04/18/21 00:00:00''), (''value'', JObj [(''date'', JStr ''04/18/21''), (''value'', JInt 58), (''error'', JInt 6)])]"
  let ?null = "[(''dateTime'', JStr ''04/17/21 00:00:00''), (''value'', JObj [(''date'', JNull), (''value'', JInt 0), (''error'', JInt 0)])]"
  let ?out = "\<lparr>columns = [''date'', ''value'', ''error''],
        body = [(Time (Some 2), [(''date'', Time (Some 2)), (''value'', Val (JInt 58)),
                                 (''error'', Val (JInt 6))])]\<rparr>"
  have loaded: "files_to_json ?raw [''resting_heart_rate-2021-04-17.json''] = Inr (map JObj [?ok, ?null])"
    by (simp add: files_to_json_def file_to_json_def)
  have run: "prep_heart_rate_resting_data ?parse ?raw [''resting_heart_rate-2021-04-17.json''] = Inr ?out"
    by code_simp
  note t = resting_null_dates_excluded [OF loaded run]
  have v_null: "map_of (normalise_json_ordered ''.'' ?null) ''value.date'' = Some JNull"
    and v_ok: "map_of (normalise_json_ordered ''.'' ?ok) ''value.date'' = Some (JStr ''04/18/21'')"
    and t_ok: "map_of (normalise_json_ordered ''.'' ?ok) ''dateTime'' = Some (JStr ''04/18/21 00:00:00'')"
    by (simp_all add: normalise_json_ordered_def dict_of_def)
  have conv: "converted ?parse (Val (JStr ''04/18/21 00:00:00'')) = Time (Some 2)"
    by (simp add: converted_def to_datetime_cell_def table_parser_def)
  have "isna (cell_of (resting_cells [?ok, ?null] ?null) ''date'')"
    using t [THEN conjunct2, THEN conjunct1, rule_format, OF _ v_null] by (simp add: isna_def)
  moreover have "\<not> isna (cell_of (resting_cells [?ok, ?null] ?ok) ''date'')"
    using t [THEN conjunct2, THEN conjunct1, rule_format, OF _ v_ok] by (simp add: isna_def)
  moreover have "fst (resting_row ?parse [?ok, ?null] ?ok) = Time (Some 2)"
    using t [THEN conjunct2, THEN conjunct2, rule_format, OF _ t_ok] conv by simp
  ultimately show ?thesis
    using run t [THEN conjunct1] by simp
qed

section \<open>Heart rate: the format check\<close>

text \<open>
  Claim C7. With a format that is neither \<open>'hdf'\<close> nor \<open>'csv'\<close> the heart-rate routine
  prints its warning and then does exactly what it does for \<open>'csv'\<close>: nothing stops it.
  When the table and the two resampled tables can be computed, it writes
  \<open>heart_rate.csv\<close>, \<open>heart_rate_hourly.csv\<close> and \<open>heart_rate_daily.csv\<close> and ends
  without an exception.
\<close>

theorem invalid_format_continues:
  assumes "fmt \<noteq> ''hdf''" and "fmt \<noteq> ''csv''"
  shows "prep_heart_rate_details fmt parse resample raw file_list
           = (Printed ''format should be 'hdf' (default) or 'csv'!''
                # fst (prep_heart_rate_details ''csv'' parse resample raw file_list),
              snd (prep_heart_rate_details ''csv'' parse resample raw file_list))
       \<and> (\<forall>df hourly daily.
             heart_rate_frame parse raw file_list = Inr df \<longrightarrow>
             resample ''H'' df = Inr hourly \<longrightarrow>
             resample ''D'' df = Inr daily \<longrightarrow>
             prep_heart_rate_details fmt parse resample raw file_list
               = ([Printed ''format should be 'hdf' (default) or 'csv'!'',
                   Logged ''Processing heart_rate-YYYY-MM-DD.json files ...'',
                   Written ''heart_rate.csv'' df,
                   Logged ''File heart_rate.csv ready'',
                   Written ''heart_rate_hourly.csv'' hourly,
                   Logged ''File heart_rate_hourly.csv ready'',
                   Written ''heart_rate_daily.csv'' daily,
                   Logged ''File heart_rate_daily.csv ready''], None))"
  using assms
  by (simp add: prep_heart_rate_details_def Let_def split: sum.splits)

theorem invalid_format_continues_witness:
  "prep_heart_rate_details ''xlsx'' (table_parser [(''2023-01-01T00:00:00'', 0)]) (\<lambda>rule df. Inr df)
     [(''heart_rate-2023-01-01.json'', File (JsonDoc (JArr
         [JObj [(''dateTime'', JStr ''2023-01-01T00:00:00''),
                (''value'', JObj [(''bpm'', JInt 60), (''confidence'', JInt 2)])]])))]
     [''heart_rate-2023-01-01.json'']
   = ([Printed ''format should be 'hdf' (default) or 'csv'!'',
       Logged ''Processing heart_rate-YYYY-MM-DD.json files ...'',
       Written ''heart_rate.csv''
         \<lparr>columns = [''bpm'', ''confidence''],
          body = [(Time (Some 0), [(''bpm'', Val (JInt 60)), (''confidence'', Val (JInt 2))])]\<rparr>,
       Logged ''File heart_rate.csv ready'',
       Written ''heart_rate_hourly.csv''
         \<lparr>columns = [''bpm'', ''confidence''],
          body = [(Time (Some 0), [(''bpm'', Val (JInt 60)), (''confidence'', Val (JInt 2))])]\<rparr>,
       Logged ''File heart_rate_hourly.csv ready'',
       Written ''heart_rate_daily.csv''
         \<lparr>columns = [''bpm'', ''confidence''],
          body = [(Time (Some 0), [(''bpm'', Val (JInt 60)), (''confidence'', Val (JInt 2))])]\<rparr>,
       Logged ''File heart_rate_daily.csv ready''], None)"
proof -
  let ?parse = "table_parser [(''2023-01-01T00:00:00'', 0)]"
  let ?raw = "[(''heart_rate-2023-01-01.json'', File (JsonDoc (JArr
         [JObj [(''dateTime'', JStr ''2023-01-01T00:00:00''),
                (''value'', JObj [(''bpm'', JInt 60), (''confidence'', JInt 2)])]])))]"
  let ?df = "\<lparr>columns = [''bpm'', ''confidence''],
          body = [(Time (Some 0), [(''bpm'', Val (JInt 60)), (''confidence'', Val (JInt 2))])]\<rparr>"
  have frame: "heart_rate_frame ?parse ?raw [''heart_rate-2023-01-01.json''] = Inr ?df"
    by code_simp
  have a: "''xlsx'' \<noteq> ''hdf''" and b: "''xlsx'' \<noteq> ''csv''"
    by simp_all
  from invalid_format_continues [OF a b, of ?parse "\<lambda>rule df. Inr df" ?raw
      "[''heart_rate-2023-01-01.json'']", THEN conjunct2, rule_format, OF frame refl refl]
  show ?thesis .
qed

section \<open>Import staging: what is copied\<close>















section \<open>Activity levels: the join and the filter\<close>

lemma mapM_list_all2: "mapM f xs = Inr ys \<Longrightarrow> list_all2 (\<lambda>x y. f x = Inr y) xs ys"
  by (induction xs arbitrary: ys) (auto split: sum.splits)


lemma mapM_Inr_preimage: "mapM f xs = Inr ys \<Longrightarrow> \<forall>y \<in> set ys. \<exists>x \<in> set xs. f x = Inr y"
  by (induction xs arbitrary: ys) (auto split: sum.splits)

lemma sort_index_times:
  assumes "sort_index df = Inr out"
  shows "\<forall>r \<in> set (body out). is_time (fst r)"
  using sort_index_Inr(2,3) [OF assms] by simp

lemma files_to_df_times:
  assumes "files_to_df parse raw file_list ren True = Inr df"
  shows "\<forall>r \<in> set (body df). is_time (fst r)"
proof -
  from assms obtain df3 where "sort_index df3 = Inr df"
    by (auto simp: files_to_df_def bnd_Inr_iff Let_def)
  then show ?thesis by (rule sort_index_times)
qed

lemma reindex_Inr:
  assumes "reindex u df = Inr p" and "wf_frame df"
  shows "length p = length u" and "\<forall>cs \<in> set p. map fst cs = columns df"
proof -
  show "length p = length u"
    using assms(1) by (auto simp: reindex_def split: if_splits dest: arg_cong [where f = length])
  show "\<forall>cs \<in> set p. map fst cs = columns df"
  proof (cases "map fst (body df) = u")
    case True
    with assms show ?thesis by (auto simp: reindex_def wf_frame_def)
  next
    case False
    with assms(1) have p: "p = map (\<lambda>i. case map_of (body df) i of
                            Some cs \<Rightarrow> cs
                          | None \<Rightarrow> map (\<lambda>c. (c, Val JNull)) (columns df)) u"
      by (auto simp: reindex_def split: if_splits)
    show ?thesis
    proof
      fix cs assume "cs \<in> set p"
      then obtain i where cs: "cs = (case map_of (body df) i of
                            Some cs \<Rightarrow> cs
                          | None \<Rightarrow> map (\<lambda>c. (c, Val JNull)) (columns df))"
        unfolding p by auto
      show "map fst cs = columns df"
      proof (cases "map_of (body df) i")
        case None
        then show ?thesis by (simp add: cs comp_def)
      next
        case (Some cs')
        then have "(i, cs') \<in> set (body df)" by (rule map_of_SomeD)
        with assms(2) Some show ?thesis by (auto simp: cs wf_frame_def)
      qed
    qed
  qed
qed

lemma set_union_labels: "set (union_labels xs ys) \<subseteq> set xs \<union> set ys"
proof -
  have "set (foldl (\<lambda>rest x. remove1 x rest) ys xs) \<subseteq> set ys"
  proof (induction xs arbitrary: ys)
    case Nil
    then show ?case by simp
  next
    case (Cons x xs)
    have "set (foldl (\<lambda>rest x. remove1 x rest) (remove1 x ys) xs) \<subseteq> set (remove1 x ys)"
      by (rule Cons.IH)
    also have "\<dots> \<subseteq> set ys" by (rule set_remove1_subset)
    finally show ?case by simp
  qed
  then show ?thesis by (auto simp: union_labels_def)
qed

lemma set_foldl_union_labels:
  "set (foldl union_labels i rest) \<subseteq> set i \<union> \<Union> (set ` set rest)"
proof (induction rest arbitrary: i)
  case Nil
  then show ?case by simp
next
  case (Cons j rest)
  have "set (foldl union_labels (union_labels i j) rest)
        \<subseteq> set (union_labels i j) \<union> \<Union> (set ` set rest)"
    by (rule Cons.IH)
  with set_union_labels [of i j] show ?case by auto
qed

lemma sorted_times:
  assumes "\<forall>l \<in> set ls. is_time l" and "sorted (map time_key ls)"
  shows "sorted_wrt label_le ls"
proof -
  have "sorted_wrt (\<lambda>a b. time_key a \<le> time_key b) ls"
    using assms(2) by (simp add: sorted_map)
  then show ?thesis
    by (rule sorted_wrt_mono_rel [rotated]) (use assms(1) in \<open>simp add: time_key_le\<close>)
qed

lemma combined_index_ascending:
  assumes "\<forall>i \<in> set idxs. (\<forall>l \<in> set i. is_time l) \<and> sorted_wrt label_le i"
  shows "sorted_wrt label_le (combined_index idxs)"
proof (cases idxs)
  case Nil
  then show ?thesis by (simp add: combined_index_def)
next
  case (Cons i rest)
  show ?thesis
  proof (cases "\<forall>j \<in> set rest. j = i")
    case True
    with Cons assms show ?thesis by (simp add: combined_index_def)
  next
    case False
    have "set (foldl union_labels i rest) \<subseteq> set i \<union> \<Union> (set ` set rest)"
      by (rule set_foldl_union_labels)
    with assms Cons have "\<forall>l \<in> set (sort_key time_key (foldl union_labels i rest)). is_time l"
      by auto
    then have "sorted_wrt label_le (sort_key time_key (foldl union_labels i rest))"
      by (rule sorted_times) simp
    with False Cons show ?thesis by (auto simp: combined_index_def)
  qed
qed

lemma concat_columns_Inr:
  assumes "concat_columns dfs = Inr joined" and "\<forall>df \<in> set dfs. wf_frame df"
  shows "columns joined = concat (map columns dfs)"
    and "wf_frame joined"
    and "map fst (body joined) = combined_index (map (\<lambda>df. map fst (body df)) dfs)"
proof -
  define u where "u = combined_index (map (\<lambda>df. map fst (body df)) dfs)"
  from assms(1) obtain parts where parts: "mapM (reindex u) dfs = Inr parts"
    and j: "joined = \<lparr>columns = concat (map columns dfs),
                      body = map (\<lambda>k. (u ! k, concat (map (\<lambda>p. p ! k) parts))) [0..<length u]\<rparr>"
    by (auto simp: concat_columns_def bnd_Inr_iff Let_def u_def split: if_splits)
  show "columns joined = concat (map columns dfs)"
    by (simp add: j)
  show "map fst (body joined) = combined_index (map (\<lambda>df. map fst (body df)) dfs)"
    by (simp add: j comp_def map_nth u_def [symmetric])
  have rel: "list_all2 (\<lambda>df p. length p = length u \<and> (\<forall>cs \<in> set p. map fst cs = columns df)) dfs parts"
    using mapM_list_all2 [OF parts]
  proof (rule list.rel_mono_strong)
    fix df p assume "df \<in> set dfs" and "reindex u df = Inr p"
    with assms(2) show "length p = length u \<and> (\<forall>cs \<in> set p. map fst cs = columns df)"
      using reindex_Inr by blast
  qed
  have keys: "concat (map (\<lambda>p. map fst (p ! k)) parts) = concat (map columns dfs)"
    if "k < length u" for k
  proof -
    have "map (\<lambda>p. map fst (p ! k)) parts = map columns dfs"
      using rel that by (induction dfs parts rule: list_all2_induct) auto
    then show ?thesis by simp
  qed
  show "wf_frame joined"
    unfolding wf_frame_def
  proof
    fix r assume "r \<in> set (body joined)"
    then obtain k where k: "k < length u" and r: "r = (u ! k, concat (map (\<lambda>p. p ! k) parts))"
      by (auto simp: j)
    show "map fst (snd r) = columns joined"
      using keys [OF k] by (simp add: r j map_concat comp_def)
  qed
qed



lemma level_frame_Inr:
  assumes "level_frame parse raw file_lists level = Inr df"
  shows "wf_frame df" and "index_ascending df" and "\<forall>r \<in> set (body df). is_time (fst r)"
    and "\<And>ds d v. files_to_json raw (file_lists level) = Inr (map JObj ds) \<Longrightarrow> d \<in> set ds \<Longrightarrow>
           map_of (normalise_json_ordered ''.'' d) ''value'' = Some v \<Longrightarrow>
           str_replace ''_active'' '''' level \<noteq> ''datetime'' \<Longrightarrow>
           str_replace ''_active'' '''' level \<in> set (columns df)"
proof -
  let ?ren = "mapper [(''dateTime'', ''datetime''), (''value'', str_replace ''_active'' '''' level)]"
  from assms have df: "files_to_df parse raw (file_lists level) ?ren True = Inr df"
    by (simp add: level_frame_def)
  from files_to_df_Inr [OF df] obtain js' ds' where js': "files_to_json raw (file_lists level) = Inr js'"
    and ds': "mapM as_record js' = Inr ds'"
    and cols: "columns df = filter (\<lambda>n. n \<noteq> ''datetime'')
           (map ?ren (union_keys (map (normalise_json_ordered ''.'') ds')))"
    and asc: "index_ascending df" and wf: "wf_frame df"
    by blast
  show "wf_frame df" by (rule wf)
  show "index_ascending df" by (rule asc)
  show "\<forall>r \<in> set (body df). is_time (fst r)"
    using df by (rule files_to_df_times)
  fix ds d v
  assume js: "files_to_json raw (file_lists level) = Inr (map JObj ds)" and d: "d \<in> set ds"
    and v: "map_of (normalise_json_ordered ''.'' d) ''value'' = Some v"
    and ne: "str_replace ''_active'' '''' level \<noteq> ''datetime''"
  from js js' ds' have "ds' = ds"
    by (simp add: mapM_as_record_objs)
  with flat_key_in_cols [OF d v]
  have "''value'' \<in> set (union_keys (map (normalise_json_ordered ''.'') ds'))"
    by simp
  then have "?ren ''value'' \<in> set (map ?ren (union_keys (map (normalise_json_ordered ''.'') ds')))"
    by simp
  moreover have "?ren ''value'' = str_replace ''_active'' '''' level"
    by (simp add: mapper_def)
  ultimately show "str_replace ''_active'' '''' level \<in> set (columns df)"
    using ne by (simp add: cols)
qed



section \<open>Sleep: the session overview\<close>

lemma drop_columns_Inr:
  assumes "drop_columns labels df = Inr df1"
  shows "set labels \<subseteq> set (columns df)"
    and "columns df1 = filter (\<lambda>c. c \<notin> set labels) (columns df)"
    and "map snd (body df1) = map (filter (\<lambda>(n, v). n \<notin> set labels)) (map snd (body df))"
  using assms by (auto simp: drop_columns_def comp_def case_prod_unfold split: if_splits)

lemma wf_drop_columns:
  assumes "drop_columns labels df = Inr df1" and "wf_frame df"
  shows "wf_frame df1"
  unfolding wf_frame_def
proof
  fix r assume "r \<in> set (body df1)"
  then have "snd r \<in> set (map snd (body df1))" by simp
  then obtain cs where cs: "cs \<in> snd ` set (body df)"
    and r: "snd r = filter (\<lambda>(n, v). n \<notin> set labels) cs"
    unfolding drop_columns_Inr(3) [OF assms(1)] by auto
  from cs assms(2) have "map fst cs = columns df"
    by (auto simp: wf_frame_def)
  then show "map fst (snd r) = columns df1"
    by (simp add: r map_fst_filter_keys drop_columns_Inr(2) [OF assms(1)])
qed

lemma renamed_filtered_row:
  "map (\<lambda>(c, y). (ren c, y)) (filter (\<lambda>(n, v). P n) (renamed_row (\<lambda>c. c) cols f))
   = renamed_row ren (filter P cols) f"
  by (induction cols) (auto simp: renamed_row_def)

lemma set_cell_commute:
  "k \<noteq> c \<Longrightarrow> set_cell k v (set_cell c w cs) = set_cell c w (set_cell k v cs)"
  by (induction cs) (auto simp: set_cell_def)

lemma filter_set_cell_same:
  "filter (\<lambda>(n, x). n \<noteq> c) (set_cell c v cs) = filter (\<lambda>(n, x). n \<noteq> c) cs"
  unfolding set_cell_def by (rule filter_setitem_row)

lemma keys_image_set_cell: "fst ` set (set_cell c v cs) = fst ` set cs"
  by (metis keys_set_cell set_map)

lemma sleep_overviews_Inr:
  assumes sums: "mapM summary_only json_data = Inr (map JObj ds)"
    and run: "sleep_overviews parse json_data = Inr out"
  shows "set [''type'', ''infoCode''] \<subseteq> set (union_keys (map (normalise_json_ordered ''_'') ds))"
    and "columns out = filter (\<lambda>n. n \<noteq> ''date_of_sleep'')
           (map sleep_columns
              (filter (\<lambda>c. c \<notin> set [''type'', ''infoCode''])
                 (union_keys (map (normalise_json_ordered ''_'') ds))))"
    and "mset (body out) = image_mset (overview_row parse ds) (mset ds)"
    and "index_ascending out"
    and "\<forall>d \<in> set ds. is_time (converted parse (cell_of (overview_cells ds d) ''start_time''))
                    \<and> is_time (converted parse (cell_of (overview_cells ds d) ''end_time''))"
    and "count_list (map sleep_columns
              (filter (\<lambda>c. c \<notin> set [''type'', ''infoCode''])
                 (union_keys (map (normalise_json_ordered ''_'') ds)))) ''date_of_sleep'' = 1"
    and "\<forall>r \<in> set (body out). is_time (fst r)"
    and "\<forall>d \<in> set ds. {''start_time'', ''end_time''} \<subseteq> fst ` set (overview_cells ds d)"
proof -
  let ?cols = "union_keys (map (normalise_json_ordered ''_'') ds)"
  let ?kept = "filter (\<lambda>c. c \<notin> set [''type'', ''infoCode'']) ?cols"
  from run sums obtain df0 df1 df2 df3 df4 df5
    where df0: "json_normalize ''_'' (map JObj ds) = Inr df0"
      and df1: "drop_columns [''type'', ''infoCode''] df0 = Inr df1"
      and df2: "convert_column KeyError parse ''date_of_sleep'' (rename sleep_columns df1) = Inr df2"
      and df3: "convert_column KeyError parse ''start_time'' df2 = Inr df3"
      and df4: "convert_column KeyError parse ''end_time'' df3 = Inr df4"
      and df5: "set_index ''date_of_sleep'' df4 = Inr df5"
      and out: "sort_index df5 = Inr out"
    by (auto simp: sleep_overviews_def bnd_Inr_iff)
  from json_normalize_Inr [OF df0] have wf0: "wf_frame df0"
    and cols0: "columns df0 = ?cols"
    and rows0: "map snd (body df0) = map (renamed_row (\<lambda>c. c) ?cols)
                                     (map (normalise_json_ordered ''_'') ds)"
    by (auto simp: mapM_as_record_objs)
  note dc = drop_columns_Inr [OF df1]
  show "set [''type'', ''infoCode''] \<subseteq> set ?cols"
    using dc(1) by (simp add: cols0)
  define df where "df = rename sleep_columns df1"
  have wf: "wf_frame df"
    unfolding df_def by (rule wf_rename [OF wf_drop_columns [OF df1 wf0]])
  have cols: "columns df = map sleep_columns ?kept"
    by (simp add: df_def columns_rename dc(2) cols0)
  have cells: "map snd (body df) = map (overview_cells ds) ds"
    by (simp add: df_def map_snd_body_rename dc(3) rows0 comp_def overview_cells_def
        renamed_filtered_row)
  note c2 = convert_column_Inr [OF df2 [folded df_def]]
  note c3 = convert_column_Inr [OF df3]
  note c4 = convert_column_Inr [OF df4]
  show "count_list (map sleep_columns ?kept) ''date_of_sleep'' = 1"
    using c2(2) by (simp add: cols)
  have r2: "map snd (body df2)
            = map (\<lambda>cs. set_cell ''date_of_sleep'' (converted parse (cell_of cs ''date_of_sleep'')) cs)
                (map snd (body df))"
    using df2 [folded df_def] by (rule convert_column_rows)
  have r3: "map snd (body df3)
            = map (\<lambda>cs. set_cell ''start_time'' (converted parse (cell_of cs ''start_time'')) cs)
                (map snd (body df2))"
    using df3 by (rule convert_column_rows)
  have r4: "map snd (body df4)
            = map (\<lambda>cs. set_cell ''end_time'' (converted parse (cell_of cs ''end_time'')) cs)
                (map snd (body df3))"
    using df4 by (rule convert_column_rows)
  note si = set_index_Inr [OF df5]
  note so = sort_index_Inr [OF out]
  show "columns out = filter (\<lambda>n. n \<noteq> ''date_of_sleep'') (map sleep_columns ?kept)"
    by (simp add: so(1) si(3) c4(3) c3(3) c2(3) cols)
  define final where "final = (\<lambda>cs.
      set_cell ''end_time'' (converted parse (cell_of cs ''end_time''))
        (set_cell ''start_time'' (converted parse (cell_of cs ''start_time''))
           (set_cell ''date_of_sleep'' (converted parse (cell_of cs ''date_of_sleep'')) cs)))"
  have r4': "map snd (body df4) = map final (map snd (body df))"
    by (simp add: r4 r3 r2 comp_def final_def cell_of_set_cell_other)
  have "body df5 = map (\<lambda>cs. (cell_of (final cs) ''date_of_sleep'',
                               filter (\<lambda>(n, v). n \<noteq> ''date_of_sleep'') (final cs)))
                     (map snd (body df))"
    by (simp add: si(4) r4' comp_def)
  also have "\<dots> = map (\<lambda>cs. (converted parse (cell_of cs ''date_of_sleep''),
                             filter (\<lambda>(n, v). n \<noteq> ''date_of_sleep'')
                               (set_cell ''end_time'' (converted parse (cell_of cs ''end_time''))
                                  (set_cell ''start_time'' (converted parse (cell_of cs ''start_time'')) cs))))
                     (map snd (body df))"
  proof (rule map_cong [OF refl])
    fix cs assume "cs \<in> set (map snd (body df))"
    with wf have "map fst cs = columns df"
      by (auto simp: wf_frame_def)
    with c2(1) have key: "''date_of_sleep'' \<in> fst ` set cs"
      by (metis set_map)
    have 1: "cell_of (final cs) ''date_of_sleep'' = converted parse (cell_of cs ''date_of_sleep'')"
      using key by (simp add: final_def cell_of_set_cell_other cell_of_set_cell_same)
    have "final cs = set_cell ''date_of_sleep'' (converted parse (cell_of cs ''date_of_sleep''))
                       (set_cell ''end_time'' (converted parse (cell_of cs ''end_time''))
                          (set_cell ''start_time'' (converted parse (cell_of cs ''start_time'')) cs))"
      unfolding final_def
      by (simp add: set_cell_commute [of "''end_time''" "''date_of_sleep''"]
          set_cell_commute [of "''start_time''" "''date_of_sleep''"])
    then have 2: "filter (\<lambda>(n, v). n \<noteq> ''date_of_sleep'') (final cs)
                  = filter (\<lambda>(n, v). n \<noteq> ''date_of_sleep'')
                      (set_cell ''end_time'' (converted parse (cell_of cs ''end_time''))
                         (set_cell ''start_time'' (converted parse (cell_of cs ''start_time'')) cs))"
      by (simp add: filter_set_cell_same)
    show "(cell_of (final cs) ''date_of_sleep'',
                               filter (\<lambda>(n, v). n \<noteq> ''date_of_sleep'') (final cs))
          = (converted parse (cell_of cs ''date_of_sleep''),
                             filter (\<lambda>(n, v). n \<noteq> ''date_of_sleep'')
                               (set_cell ''end_time'' (converted parse (cell_of cs ''end_time''))
                                  (set_cell ''start_time'' (converted parse (cell_of cs ''start_time'')) cs)))"
      by (simp only: 1 2)
  qed
  also have "\<dots> = map (overview_row parse ds) ds"
    by (simp add: cells overview_row_def Let_def comp_def)
  finally show "mset (body out) = image_mset (overview_row parse ds) (mset ds)"
    by (simp add: so(2))
  show "index_ascending out"
    by (rule so)
  show "\<forall>r \<in> set (body out). is_time (fst r)"
    using out by (rule sort_index_times)
  show "\<forall>d \<in> set ds. {''start_time'', ''end_time''} \<subseteq> fst ` set (overview_cells ds d)"
  proof
    fix d assume "d \<in> set ds"
    have "map fst (overview_cells ds d) = columns df"
      by (simp add: overview_cells_def renamed_row_def comp_def cols)
    then have "fst ` set (overview_cells ds d) = set (columns df)"
      by (metis set_map)
    with c3(1) c4(1) show "{''start_time'', ''end_time''} \<subseteq> fst ` set (overview_cells ds d)"
      by (simp add: c3(3) c2(3))
  qed
  show "\<forall>d \<in> set ds. is_time (converted parse (cell_of (overview_cells ds d) ''start_time''))
                    \<and> is_time (converted parse (cell_of (overview_cells ds d) ''end_time''))"
  proof
    fix d assume d: "d \<in> set ds"
    then have cs: "overview_cells ds d \<in> set (map snd (body df))"
      by (simp add: cells)
    let ?cs = "overview_cells ds d"
    have "\<forall>cs \<in> set (map snd (body df2)). is_time (converted parse (cell_of cs ''start_time''))"
      using c3(5) by simp
    then have "\<forall>cs \<in> set (map snd (body df)). is_time (converted parse (cell_of cs ''start_time''))"
      unfolding r2 by (simp add: cell_of_set_cell_other)
    with cs have a: "is_time (converted parse (cell_of ?cs ''start_time''))"
      by blast
    have "\<forall>cs \<in> set (map snd (body df3)). is_time (converted parse (cell_of cs ''end_time''))"
      using c4(5) by simp
    then have "\<forall>cs \<in> set (map snd (body df)). is_time (converted parse (cell_of cs ''end_time''))"
      unfolding r3 r2 by (simp add: cell_of_set_cell_other)
    with cs have b: "is_time (converted parse (cell_of ?cs ''end_time''))"
      by blast
    from a b show "is_time (converted parse (cell_of ?cs ''start_time''))
                    \<and> is_time (converted parse (cell_of ?cs ''end_time''))"
      by simp
  qed
qed

lemma cell_of_filter_other:
  "x \<noteq> k \<Longrightarrow> cell_of (filter (\<lambda>(n, v). n \<noteq> k) al) x = cell_of al x"
  by (simp add: cell_of_def map_of_filter_other)

lemma sleep_columns_fixed:
  "sleep_columns ''dateOfSleep'' = ''date_of_sleep''"
  "map sleep_columns (map fst sleep_mapping) = map snd sleep_mapping"
  "sleep_columns ''levels_deep_minutes'' = ''deep_minutes''"
  "sleep_columns ''levels_deep_thirtyDayAvgMinutes'' = ''deep_30_day_avg_minutes''"
  by code_simp+

lemma summary_only_Inr:
  assumes "summary_only j = Inr j'"
  shows "\<exists>d l s. j = JObj d \<and> map_of d ''levels'' = Some (JObj l) \<and> map_of l ''summary'' = Some s
           \<and> j' = JObj (AList.update ''levels'' s d)"
  using assms by (auto simp: summary_only_def split: json.splits option.splits)

text \<open>
  Claim C9. The overview of the sleep sessions: each session's \<open>levels\<close> member is replaced
  by its \<open>summary\<close>; the sessions are flattened with underscore-joined names; the columns
  \<open>type\<close> and \<open>infoCode\<close> (which must exist) are dropped and no other; the remaining
  columns are renamed, every name of the rename table to its counterpart; the columns
  \<open>date_of_sleep\<close>, \<open>start_time\<close> and \<open>end_time\<close> are converted to times; and the table is
  indexed by \<open>date_of_sleep\<close>, which is a session's \<open>dateOfSleep\<close> read as a time, in
  ascending order. The rows are one per session, as a multiset: nothing is said about the
  order of sessions of the same date.
\<close>

theorem sleep_overview_shape:
  assumes "mapM summary_only json_data = Inr (map JObj ds)"
    and "sleep_overviews parse json_data = Inr out"
  shows "(\<forall>j \<in> set json_data. \<exists>d l s.
            j = JObj d \<and> map_of d ''levels'' = Some (JObj l) \<and> map_of l ''summary'' = Some s
          \<and> summary_only j = Inr (JObj (AList.update ''levels'' s d)))
       \<and> set [''type'', ''infoCode''] \<subseteq> set (union_keys (map (normalise_json_ordered ''_'') ds))
       \<and> columns out
           = filter (\<lambda>n. n \<noteq> ''date_of_sleep'')
               (map sleep_columns
                  (filter (\<lambda>c. c \<notin> set [''type'', ''infoCode''])
                     (union_keys (map (normalise_json_ordered ''_'') ds))))
       \<and> map sleep_columns (map fst sleep_mapping) = map snd sleep_mapping
       \<and> mset (body out) = image_mset (overview_row parse ds) (mset ds)
       \<and> index_ascending out
       \<and> (\<forall>d \<in> set ds.
             is_time (fst (overview_row parse ds d))
           \<and> is_time (cell_of (snd (overview_row parse ds d)) ''start_time'')
           \<and> is_time (cell_of (snd (overview_row parse ds d)) ''end_time'')
           \<and> (\<forall>v. map_of (normalise_json_ordered ''_'' d) ''dateOfSleep'' = Some v \<longrightarrow>
                  fst (overview_row parse ds d) = converted parse (Val v)))"
proof -
  note so = sleep_overviews_Inr [OF assms]
  have repl: "\<forall>j \<in> set json_data. \<exists>d l s.
            j = JObj d \<and> map_of d ''levels'' = Some (JObj l) \<and> map_of l ''summary'' = Some s
          \<and> summary_only j = Inr (JObj (AList.update ''levels'' s d))"
  proof
    fix j assume "j \<in> set json_data"
    with mapM_Inr_all [OF assms(1)] obtain j' where j': "summary_only j = Inr j'"
      by blast
    from summary_only_Inr [OF j'] j' show "\<exists>d l s.
            j = JObj d \<and> map_of d ''levels'' = Some (JObj l) \<and> map_of l ''summary'' = Some s
          \<and> summary_only j = Inr (JObj (AList.update ''levels'' s d))"
      by auto
  qed
  have rows: "is_time (fst (overview_row parse ds d))
           \<and> is_time (cell_of (snd (overview_row parse ds d)) ''start_time'')
           \<and> is_time (cell_of (snd (overview_row parse ds d)) ''end_time'')
           \<and> (\<forall>v. map_of (normalise_json_ordered ''_'' d) ''dateOfSleep'' = Some v \<longrightarrow>
                  fst (overview_row parse ds d) = converted parse (Val v))"
    if d: "d \<in> set ds" for d
  proof (intro conjI allI impI)
    let ?cs = "overview_cells ds d"
    from so(3) have "set (body out) = set (map (overview_row parse ds) ds)"
      by (metis mset_eq_setD mset_map)
    with d have "overview_row parse ds d \<in> set (body out)"
      by simp
    with so(7) show "is_time (fst (overview_row parse ds d))"
      by blast
    from so(8) d have st: "''start_time'' \<in> fst ` set ?cs" and en: "''end_time'' \<in> fst ` set ?cs"
      by auto
    have "cell_of (snd (overview_row parse ds d)) ''start_time''
          = converted parse (cell_of ?cs ''start_time'')"
      using st by (simp add: overview_row_def Let_def cell_of_filter_other cell_of_set_cell_other
          cell_of_set_cell_same)
    with so(5) d show "is_time (cell_of (snd (overview_row parse ds d)) ''start_time'')"
      by simp
    have "''end_time'' \<in> fst ` set (set_cell ''start_time'' (converted parse (cell_of ?cs ''start_time'')) ?cs)"
      using en by (simp add: keys_image_set_cell)
    then have "cell_of (snd (overview_row parse ds d)) ''end_time''
          = converted parse (cell_of ?cs ''end_time'')"
      by (simp add: overview_row_def Let_def cell_of_filter_other cell_of_set_cell_same)
    with so(5) d show "is_time (cell_of (snd (overview_row parse ds d)) ''end_time'')"
      by simp
    fix v assume v: "map_of (normalise_json_ordered ''_'' d) ''dateOfSleep'' = Some v"
    have "''dateOfSleep'' \<in> set (filter (\<lambda>c. c \<notin> set [''type'', ''infoCode''])
                 (union_keys (map (normalise_json_ordered ''_'') ds)))"
      using flat_key_in_cols [OF d v] by simp
    then have "map_of ?cs ''date_of_sleep''
               = Some (Val (lookup_json (normalise_json_ordered ''_'' d) ''dateOfSleep''))"
      unfolding overview_cells_def renamed_row_def
      by (rule unique_renamed
          [where F = "\<lambda>c. Val (lookup_json (normalise_json_ordered ''_'' d) c)",
            OF so(6) _ sleep_columns_fixed(1)])
    then show "fst (overview_row parse ds d) = converted parse (Val v)"
      by (simp add: overview_row_def Let_def cell_of_def lookup_json_def v)
  qed
  from repl so(1,2,3,4) rows sleep_columns_fixed(2) show ?thesis
    by blast
qed

theorem sleep_overview_shape_witness:
  "prep_sleep_data (table_parser [(''2023-01-01'', 86400), (''2023-01-02'', 172800), (''2022-12-31T23:10:00'', 83400), (''2023-01-01T07:00:00'', 111600), (''2023-01-01T23:30:00'', 171000), (''2023-01-02T06:30:00'', 196200), (''2022-12-31T23:40:00'', 85200), (''2023-01-02T00:15:00'', 173700), (''2023-01-02T06:31:00'', 196260)])
     [(''sleep-2023-01-01.json'', File (JsonDoc (JArr [JObj [(''logId'', JInt 2), (''dateOfSleep'', JStr ''2023-01-02''), (''startTime'', JStr ''2023-01-01T23:30:00''), (''endTime'', JStr ''2023-01-02T06:30:00''), (''type'', JStr ''stages''), (''infoCode'', JInt 0),
        (''levels'', JObj [(''summary'', JObj [(''deep'', JObj [(''count'', JInt 2), (''minutes'', JInt 45), (''thirtyDayAvgMinutes'', JInt 50)])]),
                           (''data'', JArr [JObj [(''dateTime'', JStr ''2023-01-01T23:30:00''), (''level'', JStr ''light''), (''seconds'', JInt 2700)], JObj [(''dateTime'', JStr ''2023-01-02T00:15:00''), (''level'', JStr ''deep''), (''seconds'', JInt 2700)]])])],
      JObj [(''logId'', JInt 1), (''dateOfSleep'', JStr ''2023-01-01''), (''startTime'', JStr ''2022-12-31T23:10:00''), (''endTime'', JStr ''2023-01-01T07:00:00''), (''type'', JStr ''stages''), (''infoCode'', JInt 0),
        (''levels'', JObj [(''summary'', JObj [(''deep'', JObj [(''count'', JInt 3), (''minutes'', JInt 60), (''thirtyDayAvgMinutes'', JInt 55)])]),
                           (''data'', JArr [JObj [(''dateTime'', JStr ''2022-12-31T23:10:00''), (''level'', JStr ''light''), (''seconds'', JInt 1800)], JObj [(''dateTime'', JStr ''2022-12-31T23:40:00''), (''level'', JStr ''deep''), (''seconds'', JInt 3600)]])])]]))),
     (''sleep_score.csv'', File (CsvDoc [''sleep_log_entry_id'', ''timestamp'', ''overall_score''] [[JInt 2, JStr ''2023-01-02T06:31:00'', JInt 80], [JInt 1, JStr ''2023-01-01T07:00:00'', JInt 85]]))]
     [''sleep-2023-01-01.json'']
   = Inr (\<lparr>columns = [''level'', ''seconds''],
        body = [(Time (Some 83400), [(''level'', Val (JStr ''light'')), (''seconds'', Val (JInt 1800))]),
                (Time (Some 85200), [(''level'', Val (JStr ''deep'')), (''seconds'', Val (JInt 3600))]),
                (Time (Some 171000), [(''level'', Val (JStr ''light'')), (''seconds'', Val (JInt 2700))]),
                (Time (Some 173700), [(''level'', Val (JStr ''deep'')), (''seconds'', Val (JInt 2700))])]\<rparr>,
          \<lparr>columns = [''sleep_log_entry_id'', ''start_time'', ''end_time'', ''deep_count'',
                   ''deep_minutes'', ''deep_30_day_avg_minutes''],
        body = [(Time (Some 86400),
                 [(''sleep_log_entry_id'', Val (JInt 1)), (''start_time'', Time (Some 83400)),
                  (''end_time'', Time (Some 111600)), (''deep_count'', Val (JInt 3)),
                  (''deep_minutes'', Val (JInt 60)),
                  (''deep_30_day_avg_minutes'', Val (JInt 55))]),
                (Time (Some 172800),
                 [(''sleep_log_entry_id'', Val (JInt 2)), (''start_time'', Time (Some 171000)),
                  (''end_time'', Time (Some 196200)), (''deep_count'', Val (JInt 2)),
                  (''deep_minutes'', Val (JInt 45)),
                  (''deep_30_day_avg_minutes'', Val (JInt 50))])]\<rparr>,
          \<lparr>columns = [''sleep_log_entry_id'', ''overall_score''],
        body = [(Time (Some 111600), [(''sleep_log_entry_id'', Val (JInt 1)), (''overall_score'', Val (JInt 85))]),
                (Time (Some 196260), [(''sleep_log_entry_id'', Val (JInt 2)), (''overall_score'', Val (JInt 80))])]\<rparr>)
   \<and> files_to_json
       [(''sleep-2023-01-01.json'', File (JsonDoc (JArr [JObj [(''logId'', JInt 2), (''dateOfSleep'', JStr ''2023-01-02''), (''startTime'', JStr ''2023-01-01T23:30:00''), (''endTime'', JStr ''2023-01-02T06:30:00''), (''type'', JStr ''stages''), (''infoCode'', JInt 0),
        (''levels'', JObj [(''summary'', JObj [(''deep'', JObj [(''count'', JInt 2), (''minutes'', JInt 45), (''thirtyDayAvgMinutes'', JInt 50)])]),
                           (''data'', JArr [JObj [(''dateTime'', JStr ''2023-01-01T23:30:00''), (''level'', JStr ''light''), (''seconds'', JInt 2700)], JObj [(''dateTime'', JStr ''2023-01-02T00:15:00''), (''level'', JStr ''deep''), (''seconds'', JInt 2700)]])])],
      JObj [(''logId'', JInt 1), (''dateOfSleep'', JStr ''2023-01-01''), (''startTime'', JStr ''2022-12-31T23:10:00''), (''endTime'', JStr ''2023-01-01T07:00:00''), (''type'', JStr ''stages''), (''infoCode'', JInt 0),
        (''levels'', JObj [(''summary'', JObj [(''deep'', JObj [(''count'', JInt 3), (''minutes'', JInt 60), (''thirtyDayAvgMinutes'', JInt 55)])]),
                           (''data'', JArr [JObj [(''dateTime'', JStr ''2022-12-31T23:10:00''), (''level'', JStr ''light''), (''seconds'', JInt 1800)], JObj [(''dateTime'', JStr ''2022-12-31T23:40:00''), (''level'', JStr ''deep''), (''seconds'', JInt 3600)]])])]]))),
     (''sleep_score.csv'', File (CsvDoc [''sleep_log_entry_id'', ''timestamp'', ''overall_score''] [[JInt 2, JStr ''2023-01-02T06:31:00'', JInt 80], [JInt 1, JStr ''2023-01-01T07:00:00'', JInt 85]]))]
       [''sleep-2023-01-01.json'']
     = Inr [JObj [(''logId'', JInt 2), (''dateOfSleep'', JStr ''2023-01-02''), (''startTime'', JStr ''2023-01-01T23:30:00''), (''endTime'', JStr ''2023-01-02T06:30:00''), (''type'', JStr ''stages''), (''infoCode'', JInt 0),
        (''levels'', JObj [(''summary'', JObj [(''deep'', JObj [(''count'', JInt 2), (''minutes'', JInt 45), (''thirtyDayAvgMinutes'', JInt 50)])]),
                           (''data'', JArr [JObj [(''dateTime'', JStr ''2023-01-01T23:30:00''), (''level'', JStr ''light''), (''seconds'', JInt 2700)], JObj [(''dateTime'', JStr ''2023-01-02T00:15:00''), (''level'', JStr ''deep''), (''seconds'', JInt 2700)]])])],
            JObj [(''logId'', JInt 1), (''dateOfSleep'', JStr ''2023-01-01''), (''startTime'', JStr ''2022-12-31T23:10:00''), (''endTime'', JStr ''2023-01-01T07:00:00''), (''type'', JStr ''stages''), (''infoCode'', JInt 0),
        (''levels'', JObj [(''summary'', JObj [(''deep'', JObj [(''count'', JInt 3), (''minutes'', JInt 60), (''thirtyDayAvgMinutes'', JInt 55)])]),
                           (''data'', JArr [JObj [(''dateTime'', JStr ''2022-12-31T23:10:00''), (''level'', JStr ''light''), (''seconds'', JInt 1800)], JObj [(''dateTime'', JStr ''2022-12-31T23:40:00''), (''level'', JStr ''deep''), (''seconds'', JInt 3600)]])])]]
   \<and> sleep_overviews (table_parser [(''2023-01-01'', 86400), (''2023-01-02'', 172800), (''2022-12-31T23:10:00'', 83400), (''2023-01-01T07:00:00'', 111600), (''2023-01-01T23:30:00'', 171000), (''2023-01-02T06:30:00'', 196200), (''2022-12-31T23:40:00'', 85200), (''2023-01-02T00:15:00'', 173700), (''2023-01-02T06:31:00'', 196260)])
       [JObj [(''logId'', JInt 2), (''dateOfSleep'', JStr ''2023-01-02''), (''startTime'', JStr ''2023-01-01T23:30:00''), (''endTime'', JStr ''2023-01-02T06:30:00''), (''type'', JStr ''stages''), (''infoCode'', JInt 0),
        (''levels'', JObj [(''summary'', JObj [(''deep'', JObj [(''count'', JInt 2), (''minutes'', JInt 45), (''thirtyDayAvgMinutes'', JInt 50)])]),
                           (''data'', JArr [JObj [(''dateTime'', JStr ''2023-01-01T23:30:00''), (''level'', JStr ''light''), (''seconds'', JInt 2700)], JObj [(''dateTime'', JStr ''2023-01-02T00:15:00''), (''level'', JStr ''deep''), (''seconds'', JInt 2700)]])])],
        JObj [(''logId'', JInt 1), (''dateOfSleep'', JStr ''2023-01-01''), (''startTime'', JStr ''2022-12-31T23:10:00''), (''endTime'', JStr ''2023-01-01T07:00:00''), (''type'', JStr ''stages''), (''infoCode'', JInt 0),
        (''levels'', JObj [(''summary'', JObj [(''deep'', JObj [(''count'', JInt 3), (''minutes'', JInt 60), (''thirtyDayAvgMinutes'', JInt 55)])]),
                           (''data'', JArr [JObj [(''dateTime'', JStr ''2022-12-31T23:10:00''), (''level'', JStr ''light''), (''seconds'', JInt 1800)], JObj [(''dateTime'', JStr ''2022-12-31T23:40:00''), (''level'', JStr ''deep''), (''seconds'', JInt 3600)]])])]]
     = Inr \<lparr>columns = [''sleep_log_entry_id'', ''start_time'', ''end_time'', ''deep_count'',
                   ''deep_minutes'', ''deep_30_day_avg_minutes''],
        body = [(Time (Some 86400),
                 [(''sleep_log_entry_id'', Val (JInt 1)), (''start_time'', Time (Some 83400)),
                  (''end_time'', Time (Some 111600)), (''deep_count'', Val (JInt 3)),
                  (''deep_minutes'', Val (JInt 60)),
                  (''deep_30_day_avg_minutes'', Val (JInt 55))]),
                (Time (Some 172800),
                 [(''sleep_log_entry_id'', Val (JInt 2)), (''start_time'', Time (Some 171000)),
                  (''end_time'', Time (Some 196200)), (''deep_count'', Val (JInt 2)),
                  (''deep_minutes'', Val (JInt 45)),
                  (''deep_30_day_avg_minutes'', Val (JInt 50))])]\<rparr>
   \<and> mset (body \<lparr>columns = [''sleep_log_entry_id'', ''start_time'', ''end_time'', ''deep_count'',
                   ''deep_minutes'', ''deep_30_day_avg_minutes''],
        body = [(Time (Some 86400),
                 [(''sleep_log_entry_id'', Val (JInt 1)), (''start_time'', Time (Some 83400)),
                  (''end_time'', Time (Some 111600)), (''deep_count'', Val (JInt 3)),
                  (''deep_minutes'', Val (JInt 60)),
                  (''deep_30_day_avg_minutes'', Val (JInt 55))]),
                (Time (Some 172800),
                 [(''sleep_log_entry_id'', Val (JInt 2)), (''start_time'', Time (Some 171000)),
                  (''end_time'', Time (Some 196200)), (''deep_count'', Val (JInt 2)),
                  (''deep_minutes'', Val (JInt 45)),
                  (''deep_30_day_avg_minutes'', Val (JInt 50))])]\<rparr>)
     = {#overview_row (table_parser [(''2023-01-01'', 86400), (''2023-01-02'', 172800), (''2022-12-31T23:10:00'', 83400), (''2023-01-01T07:00:00'', 111600), (''2023-01-01T23:30:00'', 171000), (''2023-01-02T06:30:00'', 196200), (''2022-12-31T23:40:00'', 85200), (''2023-01-02T00:15:00'', 173700), (''2023-01-02T06:31:00'', 196260)])
           [[(''logId'', JInt 2), (''dateOfSleep'', JStr ''2023-01-02''), (''startTime'', JStr ''2023-01-01T23:30:00''), (''endTime'', JStr ''2023-01-02T06:30:00''), (''type'', JStr ''stages''), (''infoCode'', JInt 0),
        (''levels'', JObj [(''deep'', JObj [(''count'', JInt 2), (''minutes'', JInt 45), (''thirtyDayAvgMinutes'', JInt 50)])])],
            [(''logId'', JInt 1), (''dateOfSleep'', JStr ''2023-01-01''), (''startTime'', JStr ''2022-12-31T23:10:00''), (''endTime'', JStr ''2023-01-01T07:00:00''), (''type'', JStr ''stages''), (''infoCode'', JInt 0),
        (''levels'', JObj [(''deep'', JObj [(''count'', JInt 3), (''minutes'', JInt 60), (''thirtyDayAvgMinutes'', JInt 55)])])]]
           [(''logId'', JInt 2), (''dateOfSleep'', JStr ''2023-01-02''), (''startTime'', JStr ''2023-01-01T23:30:00''), (''endTime'', JStr ''2023-01-02T06:30:00''), (''type'', JStr ''stages''), (''infoCode'', JInt 0),
        (''levels'', JObj [(''deep'', JObj [(''count'', JInt 2), (''minutes'', JInt 45), (''thirtyDayAvgMinutes'', JInt 50)])])],
         overview_row (table_parser [(''2023-01-01'', 86400), (''2023-01-02'', 172800), (''2022-12-31T23:10:00'', 83400), (''2023-01-01T07:00:00'', 111600), (''2023-01-01T23:30:00'', 171000), (''2023-01-02T06:30:00'', 196200), (''2022-12-31T23:40:00'', 85200), (''2023-01-02T00:15:00'', 173700), (''2023-01-02T06:31:00'', 196260)])
           [[(''logId'', JInt 2), (''dateOfSleep'', JStr ''2023-01-02''), (''startTime'', JStr ''2023-01-01T23:30:00''), (''endTime'', JStr ''2023-01-02T06:30:00''), (''type'', JStr ''stages''), (''infoCode'', JInt 0),
        (''levels'', JObj [(''deep'', JObj [(''count'', JInt 2), (''minutes'', JInt 45), (''thirtyDayAvgMinutes'', JInt 50)])])],
            [(''logId'', JInt 1), (''dateOfSleep'', JStr ''2023-01-01''), (''startTime'', JStr ''2022-12-31T23:10:00''), (''endTime'', JStr ''2023-01-01T07:00:00''), (''type'', JStr ''stages''), (''infoCode'', JInt 0),
        (''levels'', JObj [(''deep'', JObj [(''count'', JInt 3), (''minutes'', JInt 60), (''thirtyDayAvgMinutes'', JInt 55)])])]]
           [(''logId'', JInt 1), (''dateOfSleep'', JStr ''2023-01-01''), (''startTime'', JStr ''2022-12-31T23:10:00''), (''endTime'', JStr ''2023-01-01T07:00:00''), (''type'', JStr ''stages''), (''infoCode'', JInt 0),
        (''levels'', JObj [(''deep'', JObj [(''count'', JInt 3), (''minutes'', JInt 60), (''thirtyDayAvgMinutes'', JInt 55)])])]#}
   \<and> index_ascending \<lparr>columns = [''sleep_log_entry_id'', ''start_time'', ''end_time'', ''deep_count'',
                   ''deep_minutes'', ''deep_30_day_avg_minutes''],
        body = [(Time (Some 86400),
                 [(''sleep_log_entry_id'', Val (JInt 1)), (''start_time'', Time (Some 83400)),
                  (''end_time'', Time (Some 111600)), (''deep_count'', Val (JInt 3)),
                  (''deep_minutes'', Val (JInt 60)),
                  (''deep_30_day_avg_minutes'', Val (JInt 55))]),
                (Time (Some 172800),
                 [(''sleep_log_entry_id'', Val (JInt 2)), (''start_time'', Time (Some 171000)),
                  (''end_time'', Time (Some 196200)), (''deep_count'', Val (JInt 2)),
                  (''deep_minutes'', Val (JInt 45)),
                  (''deep_30_day_avg_minutes'', Val (JInt 50))])]\<rparr>"
proof -
  let ?parse = "(table_parser [(''2023-01-01'', 86400), (''2023-01-02'', 172800), (''2022-12-31T23:10:00'', 83400), (''2023-01-01T07:00:00'', 111600), (''2023-01-01T23:30:00'', 171000), (''2023-01-02T06:30:00'', 196200), (''2022-12-31T23:40:00'', 85200), (''2023-01-02T00:15:00'', 173700), (''2023-01-02T06:31:00'', 196260)])"
  let ?s2 = "JObj [(''logId'', JInt 2), (''dateOfSleep'', JStr ''2023-01-02''), (''startTime'', JStr ''2023-01-01T23:30:00''), (''endTime'', JStr ''2023-01-02T06:30:00''), (''type'', JStr ''stages''), (''infoCode'', JInt 0),
        (''levels'', JObj [(''summary'', JObj [(''deep'', JObj [(''count'', JInt 2), (''minutes'', JInt 45), (''thirtyDayAvgMinutes'', JInt 50)])]),
                           (''data'', JArr [JObj [(''dateTime'', JStr ''2023-01-01T23:30:00''), (''level'', JStr ''light''), (''seconds'', JInt 2700)], JObj [(''dateTime'', JStr ''2023-01-02T00:15:00''), (''level'', JStr ''deep''), (''seconds'', JInt 2700)]])])]"
  let ?s1 = "JObj [(''logId'', JInt 1), (''dateOfSleep'', JStr ''2023-01-01''), (''startTime'', JStr ''2022-12-31T23:10:00''), (''endTime'', JStr ''2023-01-01T07:00:00''), (''type'', JStr ''stages''), (''infoCode'', JInt 0),
        (''levels'', JObj [(''summary'', JObj [(''deep'', JObj [(''count'', JInt 3), (''minutes'', JInt 60), (''thirtyDayAvgMinutes'', JInt 55)])]),
                           (''data'', JArr [JObj [(''dateTime'', JStr ''2022-12-31T23:10:00''), (''level'', JStr ''light''), (''seconds'', JInt 1800)], JObj [(''dateTime'', JStr ''2022-12-31T23:40:00''), (''level'', JStr ''deep''), (''seconds'', JInt 3600)]])])]"
  let ?d2 = "[(''logId'', JInt 2), (''dateOfSleep'', JStr ''2023-01-02''), (''startTime'', JStr ''2023-01-01T23:30:00''), (''endTime'', JStr ''2023-01-02T06:30:00''), (''type'', JStr ''stages''), (''infoCode'', JInt 0),
        (''levels'', JObj [(''deep'', JObj [(''count'', JInt 2), (''minutes'', JInt 45), (''thirtyDayAvgMinutes'', JInt 50)])])]"
  let ?d1 = "[(''logId'', JInt 1), (''dateOfSleep'', JStr ''2023-01-01''), (''startTime'', JStr ''2022-12-31T23:10:00''), (''endTime'', JStr ''2023-01-01T07:00:00''), (''type'', JStr ''stages''), (''infoCode'', JInt 0),
        (''levels'', JObj [(''deep'', JObj [(''count'', JInt 3), (''minutes'', JInt 60), (''thirtyDayAvgMinutes'', JInt 55)])])]"
  let ?raw = "[(''sleep-2023-01-01.json'', File (JsonDoc (JArr [JObj [(''logId'', JInt 2), (''dateOfSleep'', JStr ''2023-01-02''), (''startTime'', JStr ''2023-01-01T23:30:00''), (''endTime'', JStr ''2023-01-02T06:30:00''), (''type'', JStr ''stages''), (''infoCode'', JInt 0),
        (''levels'', JObj [(''summary'', JObj [(''deep'', JObj [(''count'', JInt 2), (''minutes'', JInt 45), (''thirtyDayAvgMinutes'', JInt 50)])]),
                           (''data'', JArr [JObj [(''dateTime'', JStr ''2023-01-01T23:30:00''), (''level'', JStr ''light''), (''seconds'', JInt 2700)], JObj [(''dateTime'', JStr ''2023-01-02T00:15:00''), (''level'', JStr ''deep''), (''seconds'', JInt 2700)]])])],
      JObj [(''logId'', JInt 1), (''dateOfSleep'', JStr ''2023-01-01''), (''startTime'', JStr ''2022-12-31T23:10:00''), (''endTime'', JStr ''2023-01-01T07:00:00''), (''type'', JStr ''stages''), (''infoCode'', JInt 0),
        (''levels'', JObj [(''summary'', JObj [(''deep'', JObj [(''count'', JInt 3), (''minutes'', JInt 60), (''thirtyDayAvgMinutes'', JInt 55)])]),
                           (''data'', JArr [JObj [(''dateTime'', JStr ''2022-12-31T23:10:00''), (''level'', JStr ''light''), (''seconds'', JInt 1800)], JObj [(''dateTime'', JStr ''2022-12-31T23:40:00''), (''level'', JStr ''deep''), (''seconds'', JInt 3600)]])])]]))),
     (''sleep_score.csv'', File (CsvDoc [''sleep_log_entry_id'', ''timestamp'', ''overall_score''] [[JInt 2, JStr ''2023-01-02T06:31:00'', JInt 80], [JInt 1, JStr ''2023-01-01T07:00:00'', JInt 85]]))]"
  let ?out = "\<lparr>columns = [''sleep_log_entry_id'', ''start_time'', ''end_time'', ''deep_count'',
                   ''deep_minutes'', ''deep_30_day_avg_minutes''],
        body = [(Time (Some 86400),
                 [(''sleep_log_entry_id'', Val (JInt 1)), (''start_time'', Time (Some 83400)),
                  (''end_time'', Time (Some 111600)), (''deep_count'', Val (JInt 3)),
                  (''deep_minutes'', Val (JInt 60)),
                  (''deep_30_day_avg_minutes'', Val (JInt 55))]),
                (Time (Some 172800),
                 [(''sleep_log_entry_id'', Val (JInt 2)), (''start_time'', Time (Some 171000)),
                  (''end_time'', Time (Some 196200)), (''deep_count'', Val (JInt 2)),
                  (''deep_minutes'', Val (JInt 45)),
                  (''deep_30_day_avg_minutes'', Val (JInt 50))])]\<rparr>"
  have sums: "mapM summary_only [?s2, ?s1] = Inr (map JObj [?d2, ?d1])"
    by (simp add: summary_only_def)
  have run: "sleep_overviews ?parse [?s2, ?s1] = Inr ?out"
    by code_simp
  have whole: "prep_sleep_data ?parse ?raw [''sleep-2023-01-01.json'']
               = Inr (\<lparr>columns = [''level'', ''seconds''],
        body = [(Time (Some 83400), [(''level'', Val (JStr ''light'')), (''seconds'', Val (JInt 1800))]),
                (Time (Some 85200), [(''level'', Val (JStr ''deep'')), (''seconds'', Val (JInt 3600))]),
                (Time (Some 171000), [(''level'', Val (JStr ''light'')), (''seconds'', Val (JInt 2700))]),
                (Time (Some 173700), [(''level'', Val (JStr ''deep'')), (''seconds'', Val (JInt 2700))])]\<rparr>,
                      ?out,
                      \<lparr>columns = [''sleep_log_entry_id'', ''overall_score''],
        body = [(Time (Some 111600), [(''sleep_log_entry_id'', Val (JInt 1)), (''overall_score'', Val (JInt 85))]),
                (Time (Some 196260), [(''sleep_log_entry_id'', Val (JInt 2)), (''overall_score'', Val (JInt 80))])]\<rparr>)"
    by code_simp
  have loaded: "files_to_json ?raw [''sleep-2023-01-01.json''] = Inr [?s2, ?s1]"
    by code_simp
  from sleep_overview_shape [OF sums run]
  have "mset (body ?out) = image_mset (overview_row ?parse [?d2, ?d1]) (mset [?d2, ?d1])"
    and "index_ascending ?out"
    by blast+
  then have "mset (body ?out) = {#overview_row ?parse [?d2, ?d1] ?d2, overview_row ?parse [?d2, ?d1] ?d1#}"
    and "index_ascending ?out"
    by simp_all
  with run whole loaded show ?thesis
    by blast
qed

section \<open>The order of the index\<close>

lemma getitem_mask_ascending:
  assumes "index_ascending df"
  shows "index_ascending (getitem_mask df m)"
proof -
  have "sorted_wrt P (map fst (filter snd (zip xs m)))" if "sorted_wrt P xs"
    for P :: "row \<Rightarrow> row \<Rightarrow> bool" and xs m
    using that
  proof (induction xs arbitrary: m)
    case Nil
    then show ?case by simp
  next
    case (Cons x xs)
    show ?case
    proof (cases m)
      case Nil
      then show ?thesis by simp
    next
      case (Cons b bs)
      have sub: "set (map fst (filter snd (zip xs bs))) \<subseteq> set xs"
        by (auto dest: set_zip_leftD)
      from Cons.prems have all: "\<forall>y \<in> set xs. P x y" and rest: "sorted_wrt P xs"
        by simp_all
      from sub all have "\<forall>y \<in> set (map fst (filter snd (zip xs bs))). P x y"
        by blast
      with Cons.IH [OF rest, of bs] show ?thesis
        unfolding Cons by (cases b) simp_all
    qed
  qed
  from this [of "\<lambda>a b. label_le (fst a) (fst b)" "body df" m] assms show ?thesis
    by (simp add: index_ascending_def getitem_mask_def sorted_wrt_map)
qed

lemma heart_rate_frame_ascending:
  assumes "heart_rate_frame parse raw file_list = Inr df"
  shows "index_ascending df"
proof -
  from assms obtain df0 where "sort_index df0 = Inr df"
    by (auto simp: heart_rate_frame_def bnd_Inr_iff)
  then show ?thesis by (rule sort_index_Inr)
qed

lemma zoning_ascending:
  assumes "prep_heart_rate_zoning_data parse raw file_list = Inr out"
  shows "index_ascending out"
  using assms unfolding prep_heart_rate_zoning_data_def by (rule files_to_df_Inr)

lemma resting_ascending:
  assumes "prep_heart_rate_resting_data parse raw file_list = Inr out"
  shows "index_ascending out"
proof -
  from assms obtain df where "sort_index df = Inr out"
    by (auto simp: prep_heart_rate_resting_data_def bnd_Inr_iff Let_def)
  then show ?thesis by (rule sort_index_Inr)
qed

lemma sleep_ascending:
  assumes "prep_sleep_data parse raw file_list = Inr (details, overviews, scores)"
  shows "index_ascending details" and "index_ascending overviews" and "index_ascending scores"
proof -
  from assms obtain json_data where d: "sleep_details parse json_data = Inr details"
    and o: "sleep_overviews parse json_data = Inr overviews"
    and s: "sleep_scores parse raw = Inr scores"
    by (auto simp: prep_sleep_data_def bnd_Inr_iff)
  from d obtain df where "sort_index df = Inr details"
    by (auto simp: sleep_details_def bnd_Inr_iff)
  then show "index_ascending details" by (rule sort_index_Inr)
  from o obtain df where "sort_index df = Inr overviews"
    by (auto simp: sleep_overviews_def bnd_Inr_iff)
  then show "index_ascending overviews" by (rule sort_index_Inr)
  from s obtain df where "sort_index df = Inr scores"
    by (auto simp: sleep_scores_def bnd_Inr_iff)
  then show "index_ascending scores" by (rule sort_index_Inr)
qed

lemma drop_zero_rows_ascending:
  assumes "drop_zero_rows parse raw file_list label = Inr out"
  shows "index_ascending out"
proof -
  from assms obtain df m where df: "files_to_df parse raw file_list
            (mapper [(''dateTime'', ''datetime''), (''value'', label)]) True = Inr df"
    and out: "out = getitem_mask df m"
    by (auto simp: drop_zero_rows_def bnd_Inr_iff)
  from files_to_df_Inr [OF df] have "index_ascending df" by blast
  then show ?thesis unfolding out by (rule getitem_mask_ascending)
qed

lemma activity_levels_ascending:
  assumes "prep_activity_level_data parse py_int raw file_lists = Inr out"
  shows "index_ascending out"
proof -
  from assms obtain dfs joined m
    where dfs: "mapM (level_frame parse raw file_lists) levels = Inr dfs"
      and joined: "concat_columns dfs = Inr joined"
      and out: "out = getitem_mask joined m"
    by (auto simp: prep_activity_level_data_def bnd_Inr_iff)
  have each: "wf_frame df \<and> index_ascending df \<and> (\<forall>r \<in> set (body df). is_time (fst r))"
    if "df \<in> set dfs" for df
    using mapM_Inr_preimage [OF dfs] that level_frame_Inr(1,2,3) by blast
  then have wfs: "\<forall>df \<in> set dfs. wf_frame df" by blast
  have "sorted_wrt label_le (combined_index (map (\<lambda>df. map fst (body df)) dfs))"
    by (rule combined_index_ascending) (use each in \<open>auto simp: index_ascending_def\<close>)
  then have "index_ascending joined"
    by (simp add: index_ascending_def concat_columns_Inr(3) [OF joined wfs])
  then show ?thesis unfolding out by (rule getitem_mask_ascending)
qed

lemma mapM_map_fst:
  assumes "mapM f xs = Inr ys" and "\<And>x y. f x = Inr y \<Longrightarrow> fst y = g x"
  shows "map fst ys = map g xs"
  using assms(1)
proof (induction xs arbitrary: ys)
  case Nil
  then show ?case by simp
next
  case (Cons x xs)
  from Cons.prems obtain y ys' where y: "f x = Inr y" and ys': "mapM f xs = Inr ys'"
    and ys: "ys = y # ys'"
    unfolding mapM_Cons_iff by blast
  from Cons.IH [OF ys'] assms(2) [OF y] show ?case by (simp add: ys)
qed

lemma bin_row_label: "bin_row s w df b = Inr r \<Longrightarrow> fst r = Time (Some (b * w))"
  by (auto simp: bin_row_def bnd_Inr_iff)

lemma sorted_bins:
  assumes "0 < (w::int)"
  shows "sorted_wrt label_le (map (\<lambda>b. Time (Some (b * w))) [lo..hi])"
proof -
  have "sorted_wrt (\<lambda>a b. a \<le> b) [lo..hi]"
    by (rule sorted_upto)
  then have "sorted_wrt (\<lambda>a b. label_le (Time (Some (a * w))) (Time (Some (b * w)))) [lo..hi]"
    by (rule sorted_wrt_mono_rel [rotated]) (use assms in \<open>simp add: mult_right_mono\<close>)
  then show ?thesis by (simp add: sorted_wrt_map)
qed

lemma resample_mean_ascending:
  assumes "resample_mean s rule df = Inr out"
  shows "index_ascending out"
proof -
  from assms obtain w where w: "bin_width s rule = Inr w"
    and rest: "(if w \<le> 0 then Inl OutsideModel
            else let bins = List.map_filter (bin_of w) (map fst (body df))
                 in if body df = [] then Inr \<lparr>columns = columns df, body = []\<rparr>
                    else if bins = [] then Inl OutsideModel
                    else bnd (mapM (bin_row s w df) [Min (set bins)..Max (set bins)])
                           (\<lambda>rows. Inr \<lparr>columns = columns df, body = rows\<rparr>)) = Inr out"
    by (auto simp: resample_mean_def bnd_Inr_iff)
  from rest have pos: "0 < w"
    by (auto split: if_splits)
  define bins where "bins = List.map_filter (bin_of w) (map fst (body df))"
  show ?thesis
  proof (cases "body df = []")
    case True
    with rest pos show ?thesis by (auto simp: index_ascending_def)
  next
    case False
    with rest pos obtain rows
      where rows: "mapM (bin_row s w df) [Min (set bins)..Max (set bins)] = Inr rows"
        and out: "out = \<lparr>columns = columns df, body = rows\<rparr>"
      by (auto simp: Let_def bins_def bnd_Inr_iff split: if_splits)
    have "map fst rows = map (\<lambda>b. Time (Some (b * w))) [Min (set bins)..Max (set bins)]"
      using rows by (rule mapM_map_fst) (rule bin_row_label)
    with sorted_bins [OF pos] show ?thesis
      by (simp add: index_ascending_def out)
  qed
qed

lemma heart_rate_written_ascending:
  assumes "Written name df \<in> set (fst (prep_heart_rate_details fmt parse (resample_mean s) raw file_list))"
  shows "index_ascending df"
proof (cases "heart_rate_frame parse raw file_list")
  case (Inl e)
  with assms show ?thesis
    by (auto simp: prep_heart_rate_details_def Let_def split: if_splits)
next
  case (Inr df')
  note main = heart_rate_frame_ascending [OF Inr]
  show ?thesis
  proof (cases "resample_mean s ''H'' df'")
    case Inl
    with assms Inr main show ?thesis
      by (auto simp: prep_heart_rate_details_def Let_def split: if_splits)
  next
    case hourly: (Inr h)
    note hour = resample_mean_ascending [OF hourly]
    show ?thesis
    proof (cases "resample_mean s ''D'' df'")
      case Inl
      with assms Inr hourly main hour show ?thesis
        by (auto simp: prep_heart_rate_details_def Let_def split: if_splits)
    next
      case daily: (Inr d)
      note day = resample_mean_ascending [OF daily]
      from assms Inr hourly daily main hour day show ?thesis
        by (auto simp: prep_heart_rate_details_def Let_def split: if_splits)
    qed
  qed
qed

lemma heart_rate_xr_ascending:
  assumes "prep_heart_rate_details_xr parse raw file_list = Inr out"
  shows "index_ascending out"
proof -
  from assms obtain ds where "sort_index ds = Inr out"
    by (auto simp: prep_heart_rate_details_xr_def bnd_Inr_iff)
  then show ?thesis by (rule sort_index_Inr)
qed

lemma set_if_missing_pull_field:
  assumes "set_if_missing k' v x = Inr y" and "k \<noteq> k'"
  shows "pull_field y k = pull_field x k"
  using assms
  by (auto simp: set_if_missing_def py_contains_def py_setitem_def pull_field_def lookup_json_def
      update_conv' bnd_Inr_iff split: json.splits if_splits)

lemma backfill_item_pull_field:
  assumes "backfill_item x = Inr y" and "k \<noteq> ''activityLevel''" and "k \<noteq> ''heartRateZones''"
  shows "pull_field y k = pull_field x k"
proof -
  from assms(1) obtain z where z: "set_if_missing ''activityLevel'' activity_level x = Inr z"
    and y: "set_if_missing ''heartRateZones'' heart_rate_zones z = Inr y"
    by (auto simp: backfill_item_def bnd_Inr_iff)
  from set_if_missing_pull_field [OF y assms(3)] set_if_missing_pull_field [OF z assms(2)]
  show ?thesis by simp
qed

lemma extract_entry_index:
  assumes "extract_entry [rp] exercise_meta y = Inr e"
    and "\<forall>c \<in> set cols. mapper exercise_columns c \<noteq> ''log_id''"
  shows "map fst (map (exercise_row cols) e) = replicate (length e) (Val (pull_field y ''logId''))"
proof -
  from assms(1) obtain ds
    where e: "e = map (\<lambda>d. (nested_to_record ''.'' d, map (\<lambda>k. (k, pull_field y k)) exercise_meta)) ds"
    by (auto simp: extract_entry_def bnd_Inr_iff)
  have "fst (exercise_row cols (r, map (\<lambda>k. (k, pull_field y k)) exercise_meta))
        = Val (pull_field y ''logId'')" for r
    using assms(2) by (rule exercise_row_index)
  then show ?thesis
    by (simp add: e comp_def map_replicate_const)
qed

lemma exercise_index_blocks:
  assumes "mapM backfill_item js = Inr js'"
    and "mapM (extract_entry [rp] exercise_meta) js' = Inr ess"
    and "\<forall>c \<in> set cols. mapper exercise_columns c \<noteq> ''log_id''"
  shows "length ess = length js
       \<and> map fst (map (exercise_row cols) (concat ess))
         = concat (map (\<lambda>(e, n). replicate n (Val (pull_field e ''logId'')))
                     (zip js (map length ess)))"
  using assms(1,2)
proof (induction js arbitrary: js' ess)
  case Nil
  then show ?case by auto
next
  case (Cons x xs)
  from Cons.prems(1) obtain y ys where y: "backfill_item x = Inr y"
    and ys: "mapM backfill_item xs = Inr ys" and js': "js' = y # ys"
    unfolding mapM_Cons_iff by blast
  from Cons.prems(2) obtain e es where e: "extract_entry [rp] exercise_meta y = Inr e"
    and es: "mapM (extract_entry [rp] exercise_meta) ys = Inr es" and ess: "ess = e # es"
    unfolding js' mapM_Cons_iff by blast
  have "pull_field y ''logId'' = pull_field x ''logId''"
    using y by (rule backfill_item_pull_field) simp_all
  with extract_entry_index [OF e assms(3)]
  have head: "map fst (map (exercise_row cols) e) = replicate (length e) (Val (pull_field x ''logId''))"
    by simp
  from Cons.IH [OF ys es] head show ?case
    by (simp add: ess)
qed

lemma exercise_index_by_log_id:
  assumes loaded: "files_to_json raw file_list = Inr js"
    and run: "prep_exercise_data raw file_list = Inr (t1, t2)"
  shows "\<exists>counts. length counts = length js
           \<and> map fst (body t1)
             = concat (map (\<lambda>(e, n). replicate n (Val (pull_field e ''logId''))) (zip js counts))"
    and "\<exists>counts. length counts = length js
           \<and> map fst (body t2)
             = concat (map (\<lambda>(e, n). replicate n (Val (pull_field e ''logId''))) (zip js counts))"
proof -
  from run loaded obtain json_data where bf: "mapM backfill_item js = Inr json_data"
    and t1: "exercise_table ''activityLevel'' json_data = Inr t1"
    and t2: "exercise_table ''heartRateZones'' json_data = Inr t2"
    by (auto simp: prep_exercise_data_def bnd_Inr_iff backfill_def)
  have "\<exists>counts. length counts = length js
           \<and> map fst (body t)
             = concat (map (\<lambda>(e, n). replicate n (Val (pull_field e ''logId''))) (zip js counts))"
    if t: "exercise_table rp json_data = Inr t" for rp t
  proof -
    from exercise_table_Inr [OF t] obtain ess
      where ess: "mapM (extract_entry [rp] exercise_meta) json_data = Inr ess"
        and cnt: "count_list (map (mapper exercise_columns)
                    (union_keys (map fst (concat ess)) @ exercise_meta)) ''log_id'' = 1"
        and body: "body t = map (exercise_row (union_keys (map fst (concat ess)))) (concat ess)"
      by blast
    from exercise_index_blocks [OF bf ess log_id_not_in_cols [OF cnt]]
    have "length (map length ess) = length js"
      and "map fst (body t)
           = concat (map (\<lambda>(e, n). replicate n (Val (pull_field e ''logId'')))
                       (zip js (map length ess)))"
      by (simp_all add: body)
    then show ?thesis by blast
  qed
  from this [OF t1] this [OF t2]
  show "\<exists>counts. length counts = length js
           \<and> map fst (body t1)
             = concat (map (\<lambda>(e, n). replicate n (Val (pull_field e ''logId''))) (zip js counts))"
    and "\<exists>counts. length counts = length js
           \<and> map fst (body t2)
             = concat (map (\<lambda>(e, n). replicate n (Val (pull_field e ''logId''))) (zip js counts))"
    by blast+
qed

text \<open>
  Claim C1, as amended. For every table of the heart-rate detail (the table of all
  samples, its hourly and daily means, and the data set of the array variant), the zone
  summary, the resting heart rate, the three sleep tables, steps, distance and the
  activity levels, the index of the written table is ascending, a missing time counting
  as the latest, whatever the order of the file list. The exercise tables are not among
  them: their index is one block of rows per entry, in the order of the entries, each
  block repeating the log id of its entry.
\<close>

theorem time_index_ascending:
  "(\<forall>name df. Written name df
                  \<in> set (fst (prep_heart_rate_details fmt parse (resample_mean s) raw file_list))
       \<longrightarrow> index_ascending df)
   \<and> (\<forall>out. prep_heart_rate_details_xr parse raw file_list = Inr out \<longrightarrow> index_ascending out)
   \<and> (\<forall>out. prep_heart_rate_zoning_data parse raw file_list = Inr out \<longrightarrow> index_ascending out)
   \<and> (\<forall>out. prep_heart_rate_resting_data parse raw file_list = Inr out \<longrightarrow> index_ascending out)
   \<and> (\<forall>details overviews scores.
         prep_sleep_data parse raw file_list = Inr (details, overviews, scores)
         \<longrightarrow> index_ascending details \<and> index_ascending overviews \<and> index_ascending scores)
   \<and> (\<forall>out. prep_steps_data parse raw file_list = Inr out \<longrightarrow> index_ascending out)
   \<and> (\<forall>out. prep_distance_data parse raw file_list = Inr out \<longrightarrow> index_ascending out)
   \<and> (\<forall>out. prep_activity_level_data parse py_int raw file_lists = Inr out \<longrightarrow> index_ascending out)
   \<and> (\<forall>js t1 t2. files_to_json raw file_list = Inr js
         \<longrightarrow> prep_exercise_data raw file_list = Inr (t1, t2)
         \<longrightarrow> (\<exists>counts. length counts = length js
                 \<and> map fst (body t1)
                   = concat (map (\<lambda>(e, n). replicate n (Val (pull_field e ''logId'')))
                               (zip js counts)))
           \<and> (\<exists>counts. length counts = length js
                 \<and> map fst (body t2)
                   = concat (map (\<lambda>(e, n). replicate n (Val (pull_field e ''logId'')))
                               (zip js counts))))"
proof (intro conjI allI impI)
  fix name df
  assume "Written name df
            \<in> set (fst (prep_heart_rate_details fmt parse (resample_mean s) raw file_list))"
  then show "index_ascending df" by (rule heart_rate_written_ascending)
next
  fix out assume "prep_heart_rate_details_xr parse raw file_list = Inr out"
  then show "index_ascending out" by (rule heart_rate_xr_ascending)
next
  fix out assume "prep_heart_rate_zoning_data parse raw file_list = Inr out"
  then show "index_ascending out" by (rule zoning_ascending)
next
  fix out assume "prep_heart_rate_resting_data parse raw file_list = Inr out"
  then show "index_ascending out" by (rule resting_ascending)
next
  fix details overviews scores
  assume s: "prep_sleep_data parse raw file_list = Inr (details, overviews, scores)"
  show "index_ascending details" using s by (rule sleep_ascending)
  show "index_ascending overviews" using s by (rule sleep_ascending)
  show "index_ascending scores" using s by (rule sleep_ascending)
next
  fix out assume "prep_steps_data parse raw file_list = Inr out"
  then show "index_ascending out"
    unfolding prep_steps_data_def by (rule drop_zero_rows_ascending)
next
  fix out assume "prep_distance_data parse raw file_list = Inr out"
  then show "index_ascending out"
    unfolding prep_distance_data_def by (rule drop_zero_rows_ascending)
next
  fix out assume "prep_activity_level_data parse py_int raw file_lists = Inr out"
  then show "index_ascending out" by (rule activity_levels_ascending)
next
  fix js t1 t2
  assume l: "files_to_json raw file_list = Inr js"
    and r: "prep_exercise_data raw file_list = Inr (t1, t2)"
  show "\<exists>counts. length counts = length js
           \<and> map fst (body t1)
             = concat (map (\<lambda>(e, n). replicate n (Val (pull_field e ''logId''))) (zip js counts))"
    using l r by (rule exercise_index_by_log_id)
  show "\<exists>counts. length counts = length js
           \<and> map fst (body t2)
             = concat (map (\<lambda>(e, n). replicate n (Val (pull_field e ''logId''))) (zip js counts))"
    using l r by (rule exercise_index_by_log_id)
qed

theorem time_index_ascending_witness:
  "Written ''heart_rate.csv'' \<lparr>columns = [''bpm'', ''confidence''],
             body = [(Time (Some 0), [(''bpm'', Val (JInt 60)), (''confidence'', Val (JInt 2))]),
                     (Time (Some 86400), [(''bpm'', Val (JInt 70)), (''confidence'', Val (JInt 3))])]\<rparr>
     \<in> set (fst (prep_heart_rate_details ''csv'' (table_parser [(''2023-01-01T00:00:00'', 0), (''2023-01-02T00:00:00'', 86400)]) (resample_mean seconds) [(''heart_rate-2023-01-01.json'', File (JsonDoc (JArr [JObj [(''dateTime'', JStr ''2023-01-01T00:00:00''), (''value'', JObj [(''bpm'', JInt 60), (''confidence'', JInt 2)])]]))),
      (''heart_rate-2023-01-02.json'', File (JsonDoc (JArr [JObj [(''dateTime'', JStr ''2023-01-02T00:00:00''), (''value'', JObj [(''bpm'', JInt 70), (''confidence'', JInt 3)])]]))),
      (''time_in_heart_rate_zones-2023-01-01.json'', File (JsonDoc (JArr [JObj [(''dateTime'', JStr ''2023-01-02T00:00:00''), (''value'', JObj [(''valuesInZones'', JObj [(''IN_DEFAULT_ZONE_1'', JInt 10)])])],
          JObj [(''dateTime'', JStr ''2023-01-01T00:00:00''), (''value'', JObj [(''valuesInZones'', JObj [(''IN_DEFAULT_ZONE_1'', JInt 20)])])]]))),
      (''resting_heart_rate-2023-01-01.json'', File (JsonDoc (JArr [JObj [(''dateTime'', JStr ''2023-01-02T00:00:00''), (''value'', JObj [(''date'', JStr ''2023-01-02T00:00:00''), (''value'', JInt 58), (''error'', JInt 6)])],
          JObj [(''dateTime'', JStr ''2023-01-01T00:00:00''), (''value'', JObj [(''date'', JStr ''2023-01-01T00:00:00''), (''value'', JInt 57), (''error'', JInt 6)])]]))),
      (''sleep-2023-01-01.json'', File (JsonDoc (JArr [JObj [(''logId'', JInt 2), (''dateOfSleep'', JStr ''2023-01-02T00:00:00''), (''startTime'', JStr ''2023-01-02T00:00:00''), (''endTime'', JStr ''2023-01-02T00:00:00''), (''type'', JStr ''stages''), (''infoCode'', JInt 0), (''levels'', JObj [(''summary'', JObj [(''deep'', JObj [(''minutes'', JInt 60)])]), (''data'', JArr [JObj [(''dateTime'', JStr ''2023-01-02T00:00:00''), (''level'', JStr ''deep''), (''seconds'', JInt 30)]])])],
          JObj [(''logId'', JInt 1), (''dateOfSleep'', JStr ''2023-01-01T00:00:00''), (''startTime'', JStr ''2023-01-01T00:00:00''), (''endTime'', JStr ''2023-01-01T00:00:00''), (''type'', JStr ''stages''), (''infoCode'', JInt 0), (''levels'', JObj [(''summary'', JObj [(''deep'', JObj [(''minutes'', JInt 60)])]), (''data'', JArr [JObj [(''dateTime'', JStr ''2023-01-01T00:00:00''), (''level'', JStr ''deep''), (''seconds'', JInt 30)]])])]]))),
      (''sleep_score.csv'', File (CsvDoc [''timestamp'', ''overall_score''] [[JStr ''2023-01-02T00:00:00'', JInt 80], [JStr ''2023-01-01T00:00:00'', JInt 75]])),
      (''steps-2023-01-01.json'', File (JsonDoc (JArr [JObj [(''dateTime'', JStr ''2023-01-01T00:00:00''), (''value'', JStr ''12'')]]))),
      (''steps-2023-01-02.json'', File (JsonDoc (JArr [JObj [(''dateTime'', JStr ''2023-01-02T00:00:00''), (''value'', JStr ''7'')]]))),
      (''distance-2023-01-01.json'', File (JsonDoc (JArr [JObj [(''dateTime'', JStr ''2023-01-02T00:00:00''), (''value'', JStr ''900'')],
          JObj [(''dateTime'', JStr ''2023-01-01T00:00:00''), (''value'', JStr ''800'')]]))),
      (''sedentary_minutes-2023-01-01.json'', File (JsonDoc (JArr [JObj [(''dateTime'', JStr ''2023-01-02T00:00:00''), (''value'', JStr ''1000'')],
          JObj [(''dateTime'', JStr ''2023-01-01T00:00:00''), (''value'', JStr ''1100'')]]))),
      (''lightly_active_minutes-2023-01-01.json'', File (JsonDoc (JArr [JObj [(''dateTime'', JStr ''2023-01-02T00:00:00''), (''value'', JStr ''100'')],
          JObj [(''dateTime'', JStr ''2023-01-01T00:00:00''), (''value'', JStr ''90'')]]))),
      (''moderately_active_minutes-2023-01-01.json'', File (JsonDoc (JArr [JObj [(''dateTime'', JStr ''2023-01-02T00:00:00''), (''value'', JStr ''5'')]]))),
      (''very_active_minutes-2023-01-01.json'', File (JsonDoc (JArr [JObj [(''dateTime'', JStr ''2023-01-01T00:00:00''), (''value'', JStr ''3'')]]))),
      (''exercise-0.json'', File (JsonDoc (JArr
          [JObj [(''logId'', JInt 2), (''startTime'', JStr ''01/02/23 10:00:00'')],
           JObj [(''logId'', JInt 1), (''startTime'', JStr ''01/01/23 10:00:00'')]])))]
                   [''heart_rate-2023-01-02.json'', ''heart_rate-2023-01-01.json'']))
   \<and> Written ''heart_rate_daily.csv'' \<lparr>columns = [''bpm'', ''confidence''],
             body = [(Time (Some 0), [(''bpm'', Val (JInt 60)), (''confidence'', Val (JInt 2))]),
                     (Time (Some 86400), [(''bpm'', Val (JInt 70)), (''confidence'', Val (JInt 3))])]\<rparr>
     \<in> set (fst (prep_heart_rate_details ''csv'' (table_parser [(''2023-01-01T00:00:00'', 0), (''2023-01-02T00:00:00'', 86400)]) (resample_mean seconds) [(''heart_rate-2023-01-01.json'', File (JsonDoc (JArr [JObj [(''dateTime'', JStr ''2023-01-01T00:00:00''), (''value'', JObj [(''bpm'', JInt 60), (''confidence'', JInt 2)])]]))),
      (''heart_rate-2023-01-02.json'', File (JsonDoc (JArr [JObj [(''dateTime'', JStr ''2023-01-02T00:00:00''), (''value'', JObj [(''bpm'', JInt 70), (''confidence'', JInt 3)])]]))),
      (''time_in_heart_rate_zones-2023-01-01.json'', File (JsonDoc (JArr [JObj [(''dateTime'', JStr ''2023-01-02T00:00:00''), (''value'', JObj [(''valuesInZones'', JObj [(''IN_DEFAULT_ZONE_1'', JInt 10)])])],
          JObj [(''dateTime'', JStr ''2023-01-01T00:00:00''), (''value'', JObj [(''valuesInZones'', JObj [(''IN_DEFAULT_ZONE_1'', JInt 20)])])]]))),
      (''resting_heart_rate-2023-01-01.json'', File (JsonDoc (JArr [JObj [(''dateTime'', JStr ''2023-01-02T00:00:00''), (''value'', JObj [(''date'', JStr ''2023-01-02T00:00:00''), (''value'', JInt 58), (''error'', JInt 6)])],
          JObj [(''dateTime'', JStr ''2023-01-01T00:00:00''), (''value'', JObj [(''date'', JStr ''2023-01-01T00:00:00''), (''value'', JInt 57), (''error'', JInt 6)])]]))),
      (''sleep-2023-01-01.json'', File (JsonDoc (JArr [JObj [(''logId'', JInt 2), (''dateOfSleep'', JStr ''2023-01-02T00:00:00''), (''startTime'', JStr ''2023-01-02T00:00:00''), (''endTime'', JStr ''2023-01-02T00:00:00''), (''type'', JStr ''stages''), (''infoCode'', JInt 0), (''levels'', JObj [(''summary'', JObj [(''deep'', JObj [(''minutes'', JInt 60)])]), (''data'', JArr [JObj [(''dateTime'', JStr ''2023-01-02T00:00:00''), (''level'', JStr ''deep''), (''seconds'', JInt 30)]])])],
          JObj [(''logId'', JInt 1), (''dateOfSleep'', JStr ''2023-01-01T00:00:00''), (''startTime'', JStr ''2023-01-01T00:00:00''), (''endTime'', JStr ''2023-01-01T00:00:00''), (''type'', JStr ''stages''), (''infoCode'', JInt 0), (''levels'', JObj [(''summary'', JObj [(''deep'', JObj [(''minutes'', JInt 60)])]), (''data'', JArr [JObj [(''dateTime'', JStr ''2023-01-01T00:00:00''), (''level'', JStr ''deep''), (''seconds'', JInt 30)]])])]]))),
      (''sleep_score.csv'', File (CsvDoc [''timestamp'', ''overall_score''] [[JStr ''2023-01-02T00:00:00'', JInt 80], [JStr ''2023-01-01T00:00:00'', JInt 75]])),
      (''steps-2023-01-01.json'', File (JsonDoc (JArr [JObj [(''dateTime'', JStr ''2023-01-01T00:00:00''), (''value'', JStr ''12'')]]))),
      (''steps-2023-01-02.json'', File (JsonDoc (JArr [JObj [(''dateTime'', JStr ''2023-01-02T00:00:00''), (''value'', JStr ''7'')]]))),
      (''distance-2023-01-01.json'', File (JsonDoc (JArr [JObj [(''dateTime'', JStr ''2023-01-02T00:00:00''), (''value'', JStr ''900'')],
          JObj [(''dateTime'', JStr ''2023-01-01T00:00:00''), (''value'', JStr ''800'')]]))),
      (''sedentary_minutes-2023-01-01.json'', File (JsonDoc (JArr [JObj [(''dateTime'', JStr ''2023-01-02T00:00:00''), (''value'', JStr ''1000'')],
          JObj [(''dateTime'', JStr ''2023-01-01T00:00:00''), (''value'', JStr ''1100'')]]))),
      (''lightly_active_minutes-2023-01-01.json'', File (JsonDoc (JArr [JObj [(''dateTime'', JStr ''2023-01-02T00:00:00''), (''value'', JStr ''100'')],
          JObj [(''dateTime'', JStr ''2023-01-01T00:00:00''), (''value'', JStr ''90'')]]))),
      (''moderately_active_minutes-2023-01-01.json'', File (JsonDoc (JArr [JObj [(''dateTime'', JStr ''2023-01-02T00:00:00''), (''value'', JStr ''5'')]]))),
      (''very_active_minutes-2023-01-01.json'', File (JsonDoc (JArr [JObj [(''dateTime'', JStr ''2023-01-01T00:00:00''), (''value'', JStr ''3'')]]))),
      (''exercise-0.json'', File (JsonDoc (JArr
          [JObj [(''logId'', JInt 2), (''startTime'', JStr ''01/02/23 10:00:00'')],
           JObj [(''logId'', JInt 1), (''startTime'', JStr ''01/01/23 10:00:00'')]])))]
                   [''heart_rate-2023-01-02.json'', ''heart_rate-2023-01-01.json'']))
   \<and> index_ascending \<lparr>columns = [''bpm'', ''confidence''],
             body = [(Time (Some 0), [(''bpm'', Val (JInt 60)), (''confidence'', Val (JInt 2))]),
                     (Time (Some 86400), [(''bpm'', Val (JInt 70)), (''confidence'', Val (JInt 3))])]\<rparr>
   \<and> (\<exists>df. Written ''heart_rate_hourly.csv'' df
          \<in> set (fst (prep_heart_rate_details ''csv'' (table_parser [(''2023-01-01T00:00:00'', 0), (''2023-01-02T00:00:00'', 86400)]) (resample_mean seconds) [(''heart_rate-2023-01-01.json'', File (JsonDoc (JArr [JObj [(''dateTime'', JStr ''2023-01-01T00:00:00''), (''value'', JObj [(''bpm'', JInt 60), (''confidence'', JInt 2)])]]))),
      (''heart_rate-2023-01-02.json'', File (JsonDoc (JArr [JObj [(''dateTime'', JStr ''2023-01-02T00:00:00''), (''value'', JObj [(''bpm'', JInt 70), (''confidence'', JInt 3)])]]))),
      (''time_in_heart_rate_zones-2023-01-01.json'', File (JsonDoc (JArr [JObj [(''dateTime'', JStr ''2023-01-02T00:00:00''), (''value'', JObj [(''valuesInZones'', JObj [(''IN_DEFAULT_ZONE_1'', JInt 10)])])],
          JObj [(''dateTime'', JStr ''2023-01-01T00:00:00''), (''value'', JObj [(''valuesInZones'', JObj [(''IN_DEFAULT_ZONE_1'', JInt 20)])])]]))),
      (''resting_heart_rate-2023-01-01.json'', File (JsonDoc (JArr [JObj [(''dateTime'', JStr ''2023-01-02T00:00:00''), (''value'', JObj [(''date'', JStr ''2023-01-02T00:00:00''), (''value'', JInt 58), (''error'', JInt 6)])],
          JObj [(''dateTime'', JStr ''2023-01-01T00:00:00''), (''value'', JObj [(''date'', JStr ''2023-01-01T00:00:00''), (''value'', JInt 57), (''error'', JInt 6)])]]))),
      (''sleep-2023-01-01.json'', File (JsonDoc (JArr [JObj [(''logId'', JInt 2), (''dateOfSleep'', JStr ''2023-01-02T00:00:00''), (''startTime'', JStr ''2023-01-02T00:00:00''), (''endTime'', JStr ''2023-01-02T00:00:00''), (''type'', JStr ''stages''), (''infoCode'', JInt 0), (''levels'', JObj [(''summary'', JObj [(''deep'', JObj [(''minutes'', JInt 60)])]), (''data'', JArr [JObj [(''dateTime'', JStr ''2023-01-02T00:00:00''), (''level'', JStr ''deep''), (''seconds'', JInt 30)]])])],
          JObj [(''logId'', JInt 1), (''dateOfSleep'', JStr ''2023-01-01T00:00:00''), (''startTime'', JStr ''2023-01-01T00:00:00''), (''endTime'', JStr ''2023-01-01T00:00:00''), (''type'', JStr ''stages''), (''infoCode'', JInt 0), (''levels'', JObj [(''summary'', JObj [(''deep'', JObj [(''minutes'', JInt 60)])]), (''data'', JArr [JObj [(''dateTime'', JStr ''2023-01-01T00:00:00''), (''level'', JStr ''deep''), (''seconds'', JInt 30)]])])]]))),
      (''sleep_score.csv'', File (CsvDoc [''timestamp'', ''overall_score''] [[JStr ''2023-01-02T00:00:00'', JInt 80], [JStr ''2023-01-01T00:00:00'', JInt 75]])),
      (''steps-2023-01-01.json'', File (JsonDoc (JArr [JObj [(''dateTime'', JStr ''2023-01-01T00:00:00''), (''value'', JStr ''12'')]]))),
      (''steps-2023-01-02.json'', File (JsonDoc (JArr [JObj [(''dateTime'', JStr ''2023-01-02T00:00:00''), (''value'', JStr ''7'')]]))),
      (''distance-2023-01-01.json'', File (JsonDoc (JArr [JObj [(''dateTime'', JStr ''2023-01-02T00:00:00''), (''value'', JStr ''900'')],
          JObj [(''dateTime'', JStr ''2023-01-01T00:00:00''), (''value'', JStr ''800'')]]))),
      (''sedentary_minutes-2023-01-01.json'', File (JsonDoc (JArr [JObj [(''dateTime'', JStr ''2023-01-02T00:00:00''), (''value'', JStr ''1000'')],
          JObj [(''dateTime'', JStr ''2023-01-01T00:00:00''), (''value'', JStr ''1100'')]]))),
      (''lightly_active_minutes-2023-01-01.json'', File (JsonDoc (JArr [JObj [(''dateTime'', JStr ''2023-01-02T00:00:00''), (''value'', JStr ''100'')],
          JObj [(''dateTime'', JStr ''2023-01-01T00:00:00''), (''value'', JStr ''90'')]]))),
      (''moderately_active_minutes-2023-01-01.json'', File (JsonDoc (JArr [JObj [(''dateTime'', JStr ''2023-01-02T00:00:00''), (''value'', JStr ''5'')]]))),
      (''very_active_minutes-2023-01-01.json'', File (JsonDoc (JArr [JObj [(''dateTime'', JStr ''2023-01-01T00:00:00''), (''value'', JStr ''3'')]]))),
      (''exercise-0.json'', File (JsonDoc (JArr
          [JObj [(''logId'', JInt 2), (''startTime'', JStr ''01/02/23 10:00:00'')],
           JObj [(''logId'', JInt 1), (''startTime'', JStr ''01/01/23 10:00:00'')]])))]
                 [''heart_rate-2023-01-02.json'', ''heart_rate-2023-01-01.json'']))
        \<and> length (body df) = 25 \<and> index_ascending df)
   \<and> prep_heart_rate_details_xr (table_parser [(''2023-01-01T00:00:00'', 0), (''2023-01-02T00:00:00'', 86400)]) [(''heart_rate-2023-01-01.json'', File (JsonDoc (JArr [JObj [(''dateTime'', JStr ''2023-01-01T00:00:00''), (''value'', JObj [(''bpm'', JInt 60), (''confidence'', JInt 2)])]]))),
      (''heart_rate-2023-01-02.json'', File (JsonDoc (JArr [JObj [(''dateTime'', JStr ''2023-01-02T00:00:00''), (''value'', JObj [(''bpm'', JInt 70), (''confidence'', JInt 3)])]]))),
      (''time_in_heart_rate_zones-2023-01-01.json'', File (JsonDoc (JArr [JObj [(''dateTime'', JStr ''2023-01-02T00:00:00''), (''value'', JObj [(''valuesInZones'', JObj [(''IN_DEFAULT_ZONE_1'', JInt 10)])])],
          JObj [(''dateTime'', JStr ''2023-01-01T00:00:00''), (''value'', JObj [(''valuesInZones'', JObj [(''IN_DEFAULT_ZONE_1'', JInt 20)])])]]))),
      (''resting_heart_rate-2023-01-01.json'', File (JsonDoc (JArr [JObj [(''dateTime'', JStr ''2023-01-02T00:00:00''), (''value'', JObj [(''date'', JStr ''2023-01-02T00:00:00''), (''value'', JInt 58), (''error'', JInt 6)])],
          JObj [(''dateTime'', JStr ''2023-01-01T00:00:00''), (''value'', JObj [(''date'', JStr ''2023-01-01T00:00:00''), (''value'', JInt 57), (''error'', JInt 6)])]]))),
      (''sleep-2023-01-01.json'', File (JsonDoc (JArr [JObj [(''logId'', JInt 2), (''dateOfSleep'', JStr ''2023-01-02T00:00:00''), (''startTime'', JStr ''2023-01-02T00:00:00''), (''endTime'', JStr ''2023-01-02T00:00:00''), (''type'', JStr ''stages''), (''infoCode'', JInt 0), (''levels'', JObj [(''summary'', JObj [(''deep'', JObj [(''minutes'', JInt 60)])]), (''data'', JArr [JObj [(''dateTime'', JStr ''2023-01-02T00:00:00''), (''level'', JStr ''deep''), (''seconds'', JInt 30)]])])],
          JObj [(''logId'', JInt 1), (''dateOfSleep'', JStr ''2023-01-01T00:00:00''), (''startTime'', JStr ''2023-01-01T00:00:00''), (''endTime'', JStr ''2023-01-01T00:00:00''), (''type'', JStr ''stages''), (''infoCode'', JInt 0), (''levels'', JObj [(''summary'', JObj [(''deep'', JObj [(''minutes'', JInt 60)])]), (''data'', JArr [JObj [(''dateTime'', JStr ''2023-01-01T00:00:00''), (''level'', JStr ''deep''), (''seconds'', JInt 30)]])])]]))),
      (''sleep_score.csv'', File (CsvDoc [''timestamp'', ''overall_score''] [[JStr ''2023-01-02T00:00:00'', JInt 80], [JStr ''2023-01-01T00:00:00'', JInt 75]])),
      (''steps-2023-01-01.json'', File (JsonDoc (JArr [JObj [(''dateTime'', JStr ''2023-01-01T00:00:00''), (''value'', JStr ''12'')]]))),
      (''steps-2023-01-02.json'', File (JsonDoc (JArr [JObj [(''dateTime'', JStr ''2023-01-02T00:00:00''), (''value'', JStr ''7'')]]))),
      (''distance-2023-01-01.json'', File (JsonDoc (JArr [JObj [(''dateTime'', JStr ''2023-01-02T00:00:00''), (''value'', JStr ''900'')],
          JObj [(''dateTime'', JStr ''2023-01-01T00:00:00''), (''value'', JStr ''800'')]]))),
      (''sedentary_minutes-2023-01-01.json'', File (JsonDoc (JArr [JObj [(''dateTime'', JStr ''2023-01-02T00:00:00''), (''value'', JStr ''1000'')],
          JObj [(''dateTime'', JStr ''2023-01-01T00:00:00''), (''value'', JStr ''1100'')]]))),
      (''lightly_active_minutes-2023-01-01.json'', File (JsonDoc (JArr [JObj [(''dateTime'', JStr ''2023-01-02T00:00:00''), (''value'', JStr ''100'')],
          JObj [(''dateTime'', JStr ''2023-01-01T00:00:00''), (''value'', JStr ''90'')]]))),
      (''moderately_active_minutes-2023-01-01.json'', File (JsonDoc (JArr [JObj [(''dateTime'', JStr ''2023-01-02T00:00:00''), (''value'', JStr ''5'')]]))),
      (''very_active_minutes-2023-01-01.json'', File (JsonDoc (JArr [JObj [(''dateTime'', JStr ''2023-01-01T00:00:00''), (''value'', JStr ''3'')]]))),
      (''exercise-0.json'', File (JsonDoc (JArr
          [JObj [(''logId'', JInt 2), (''startTime'', JStr ''01/02/23 10:00:00'')],
           JObj [(''logId'', JInt 1), (''startTime'', JStr ''01/01/23 10:00:00'')]])))] [''heart_rate-2023-01-02.json'', ''heart_rate-2023-01-01.json''] = Inr \<lparr>columns = [''bpm'', ''confidence''],
             body = [(Time (Some 0), [(''bpm'', Val (JInt 60)), (''confidence'', Val (JInt 2))]),
                     (Time (Some 86400), [(''bpm'', Val (JInt 70)), (''confidence'', Val (JInt 3))])]\<rparr>
   \<and> (\<exists>out. prep_heart_rate_zoning_data (table_parser [(''2023-01-01T00:00:00'', 0), (''2023-01-02T00:00:00'', 86400)]) [(''heart_rate-2023-01-01.json'', File (JsonDoc (JArr [JObj [(''dateTime'', JStr ''2023-01-01T00:00:00''), (''value'', JObj [(''bpm'', JInt 60), (''confidence'', JInt 2)])]]))),
      (''heart_rate-2023-01-02.json'', File (JsonDoc (JArr [JObj [(''dateTime'', JStr ''2023-01-02T00:00:00''), (''value'', JObj [(''bpm'', JInt 70), (''confidence'', JInt 3)])]]))),
      (''time_in_heart_rate_zones-2023-01-01.json'', File (JsonDoc (JArr [JObj [(''dateTime'', JStr ''2023-01-02T00:00:00''), (''value'', JObj [(''valuesInZones'', JObj [(''IN_DEFAULT_ZONE_1'', JInt 10)])])],
          JObj [(''dateTime'', JStr ''2023-01-01T00:00:00''), (''value'', JObj [(''valuesInZones'', JObj [(''IN_DEFAULT_ZONE_1'', JInt 20)])])]]))),
      (''resting_heart_rate-2023-01-01.json'', File (JsonDoc (JArr [JObj [(''dateTime'', JStr ''2023-01-02T00:00:00''), (''value'', JObj [(''date'', JStr ''2023-01-02T00:00:00''), (''value'', JInt 58), (''error'', JInt 6)])],
          JObj [(''dateTime'', JStr ''2023-01-01T00:00:00''), (''value'', JObj [(''date'', JStr ''2023-01-01T00:00:00''), (''value'', JInt 57), (''error'', JInt 6)])]]))),
      (''sleep-2023-01-01.json'', File (JsonDoc (JArr [JObj [(''logId'', JInt 2), (''dateOfSleep'', JStr ''2023-01-02T00:00:00''), (''startTime'', JStr ''2023-01-02T00:00:00''), (''endTime'', JStr ''2023-01-02T00:00:00''), (''type'', JStr ''stages''), (''infoCode'', JInt 0), (''levels'', JObj [(''summary'', JObj [(''deep'', JObj [(''minutes'', JInt 60)])]), (''data'', JArr [JObj [(''dateTime'', JStr ''2023-01-02T00:00:00''), (''level'', JStr ''deep''), (''seconds'', JInt 30)]])])],
          JObj [(''logId'', JInt 1), (''dateOfSleep'', JStr ''2023-01-01T00:00:00''), (''startTime'', JStr ''2023-01-01T00:00:00''), (''endTime'', JStr ''2023-01-01T00:00:00''), (''type'', JStr ''stages''), (''infoCode'', JInt 0), (''levels'', JObj [(''summary'', JObj [(''deep'', JObj [(''minutes'', JInt 60)])]), (''data'', JArr [JObj [(''dateTime'', JStr ''2023-01-01T00:00:00''), (''level'', JStr ''deep''), (''seconds'', JInt 30)]])])]]))),
      (''sleep_score.csv'', File (CsvDoc [''timestamp'', ''overall_score''] [[JStr ''2023-01-02T00:00:00'', JInt 80], [JStr ''2023-01-01T00:00:00'', JInt 75]])),
      (''steps-2023-01-01.json'', File (JsonDoc (JArr [JObj [(''dateTime'', JStr ''2023-01-01T00:00:00''), (''value'', JStr ''12'')]]))),
      (''steps-2023-01-02.json'', File (JsonDoc (JArr [JObj [(''dateTime'', JStr ''2023-01-02T00:00:00''), (''value'', JStr ''7'')]]))),
      (''distance-2023-01-01.json'', File (JsonDoc (JArr [JObj [(''dateTime'', JStr ''2023-01-02T00:00:00''), (''value'', JStr ''900'')],
          JObj [(''dateTime'', JStr ''2023-01-01T00:00:00''), (''value'', JStr ''800'')]]))),
      (''sedentary_minutes-2023-01-01.json'', File (JsonDoc (JArr [JObj [(''dateTime'', JStr ''2023-01-02T00:00:00''), (''value'', JStr ''1000'')],
          JObj [(''dateTime'', JStr ''2023-01-01T00:00:00''), (''value'', JStr ''1100'')]]))),
      (''lightly_active_minutes-2023-01-01.json'', File (JsonDoc (JArr [JObj [(''dateTime'', JStr ''2023-01-02T00:00:00''), (''value'', JStr ''100'')],
          JObj [(''dateTime'', JStr ''2023-01-01T00:00:00''), (''value'', JStr ''90'')]]))),
      (''moderately_active_minutes-2023-01-01.json'', File (JsonDoc (JArr [JObj [(''dateTime'', JStr ''2023-01-02T00:00:00''), (''value'', JStr ''5'')]]))),
      (''very_active_minutes-2023-01-01.json'', File (JsonDoc (JArr [JObj [(''dateTime'', JStr ''2023-01-01T00:00:00''), (''value'', JStr ''3'')]]))),
      (''exercise-0.json'', File (JsonDoc (JArr
          [JObj [(''logId'', JInt 2), (''startTime'', JStr ''01/02/23 10:00:00'')],
           JObj [(''logId'', JInt 1), (''startTime'', JStr ''01/01/23 10:00:00'')]])))] [''time_in_heart_rate_zones-2023-01-01.json''] = Inr out
        \<and> index_ascending out)
   \<and> (\<exists>out. prep_heart_rate_resting_data (table_parser [(''2023-01-01T00:00:00'', 0), (''2023-01-02T00:00:00'', 86400)]) [(''heart_rate-2023-01-01.json'', File (JsonDoc (JArr [JObj [(''dateTime'', JStr ''2023-01-01T00:00:00''), (''value'', JObj [(''bpm'', JInt 60), (''confidence'', JInt 2)])]]))),
      (''heart_rate-2023-01-02.json'', File (JsonDoc (JArr [JObj [(''dateTime'', JStr ''2023-01-02T00:00:00''), (''value'', JObj [(''bpm'', JInt 70), (''confidence'', JInt 3)])]]))),
      (''time_in_heart_rate_zones-2023-01-01.json'', File (JsonDoc (JArr [JObj [(''dateTime'', JStr ''2023-01-02T00:00:00''), (''value'', JObj [(''valuesInZones'', JObj [(''IN_DEFAULT_ZONE_1'', JInt 10)])])],
          JObj [(''dateTime'', JStr ''2023-01-01T00:00:00''), (''value'', JObj [(''valuesInZones'', JObj [(''IN_DEFAULT_ZONE_1'', JInt 20)])])]]))),
      (''resting_heart_rate-2023-01-01.json'', File (JsonDoc (JArr [JObj [(''dateTime'', JStr ''2023-01-02T00:00:00''), (''value'', JObj [(''date'', JStr ''2023-01-02T00:00:00''), (''value'', JInt 58), (''error'', JInt 6)])],
          JObj [(''dateTime'', JStr ''2023-01-01T00:00:00''), (''value'', JObj [(''date'', JStr ''2023-01-01T00:00:00''), (''value'', JInt 57), (''error'', JInt 6)])]]))),
      (''sleep-2023-01-01.json'', File (JsonDoc (JArr [JObj [(''logId'', JInt 2), (''dateOfSleep'', JStr ''2023-01-02T00:00:00''), (''startTime'', JStr ''2023-01-02T00:00:00''), (''endTime'', JStr ''2023-01-02T00:00:00''), (''type'', JStr ''stages''), (''infoCode'', JInt 0), (''levels'', JObj [(''summary'', JObj [(''deep'', JObj [(''minutes'', JInt 60)])]), (''data'', JArr [JObj [(''dateTime'', JStr ''2023-01-02T00:00:00''), (''level'', JStr ''deep''), (''seconds'', JInt 30)]])])],
          JObj [(''logId'', JInt 1), (''dateOfSleep'', JStr ''2023-01-01T00:00:00''), (''startTime'', JStr ''2023-01-01T00:00:00''), (''endTime'', JStr ''2023-01-01T00:00:00''), (''type'', JStr ''stages''), (''infoCode'', JInt 0), (''levels'', JObj [(''summary'', JObj [(''deep'', JObj [(''minutes'', JInt 60)])]), (''data'', JArr [JObj [(''dateTime'', JStr ''2023-01-01T00:00:00''), (''level'', JStr ''deep''), (''seconds'', JInt 30)]])])]]))),
      (''sleep_score.csv'', File (CsvDoc [''timestamp'', ''overall_score''] [[JStr ''2023-01-02T00:00:00'', JInt 80], [JStr ''2023-01-01T00:00:00'', JInt 75]])),
      (''steps-2023-01-01.json'', File (JsonDoc (JArr [JObj [(''dateTime'', JStr ''2023-01-01T00:00:00''), (''value'', JStr ''12'')]]))),
      (''steps-2023-01-02.json'', File (JsonDoc (JArr [JObj [(''dateTime'', JStr ''2023-01-02T00:00:00''), (''value'', JStr ''7'')]]))),
      (''distance-2023-01-01.json'', File (JsonDoc (JArr [JObj [(''dateTime'', JStr ''2023-01-02T00:00:00''), (''value'', JStr ''900'')],
          JObj [(''dateTime'', JStr ''2023-01-01T00:00:00''), (''value'', JStr ''800'')]]))),
      (''sedentary_minutes-2023-01-01.json'', File (JsonDoc (JArr [JObj [(''dateTime'', JStr ''2023-01-02T00:00:00''), (''value'', JStr ''1000'')],
          JObj [(''dateTime'', JStr ''2023-01-01T00:00:00''), (''value'', JStr ''1100'')]]))),
      (''lightly_active_minutes-2023-01-01.json'', File (JsonDoc (JArr [JObj [(''dateTime'', JStr ''2023-01-02T00:00:00''), (''value'', JStr ''100'')],
          JObj [(''dateTime'', JStr ''2023-01-01T00:00:00''), (''value'', JStr ''90'')]]))),
      (''moderately_active_minutes-2023-01-01.json'', File (JsonDoc (JArr [JObj [(''dateTime'', JStr ''2023-01-02T00:00:00''), (''value'', JStr ''5'')]]))),
      (''very_active_minutes-2023-01-01.json'', File (JsonDoc (JArr [JObj [(''dateTime'', JStr ''2023-01-01T00:00:00''), (''value'', JStr ''3'')]]))),
      (''exercise-0.json'', File (JsonDoc (JArr
          [JObj [(''logId'', JInt 2), (''startTime'', JStr ''01/02/23 10:00:00'')],
           JObj [(''logId'', JInt 1), (''startTime'', JStr ''01/01/23 10:00:00'')]])))] [''resting_heart_rate-2023-01-01.json''] = Inr out
        \<and> index_ascending out)
   \<and> (\<exists>details overviews scores.
          prep_sleep_data (table_parser [(''2023-01-01T00:00:00'', 0), (''2023-01-02T00:00:00'', 86400)]) [(''heart_rate-2023-01-01.json'', File (JsonDoc (JArr [JObj [(''dateTime'', JStr ''2023-01-01T00:00:00''), (''value'', JObj [(''bpm'', JInt 60), (''confidence'', JInt 2)])]]))),
      (''heart_rate-2023-01-02.json'', File (JsonDoc (JArr [JObj [(''dateTime'', JStr ''2023-01-02T00:00:00''), (''value'', JObj [(''bpm'', JInt 70), (''confidence'', JInt 3)])]]))),
      (''time_in_heart_rate_zones-2023-01-01.json'', File (JsonDoc (JArr [JObj [(''dateTime'', JStr ''2023-01-02T00:00:00''), (''value'', JObj [(''valuesInZones'', JObj [(''IN_DEFAULT_ZONE_1'', JInt 10)])])],
          JObj [(''dateTime'', JStr ''2023-01-01T00:00:00''), (''value'', JObj [(''valuesInZones'', JObj [(''IN_DEFAULT_ZONE_1'', JInt 20)])])]]))),
      (''resting_heart_rate-2023-01-01.json'', File (JsonDoc (JArr [JObj [(''dateTime'', JStr ''2023-01-02T00:00:00''), (''value'', JObj [(''date'', JStr ''2023-01-02T00:00:00''), (''value'', JInt 58), (''error'', JInt 6)])],
          JObj [(''dateTime'', JStr ''2023-01-01T00:00:00''), (''value'', JObj [(''date'', JStr ''2023-01-01T00:00:00''), (''value'', JInt 57), (''error'', JInt 6)])]]))),
      (''sleep-2023-01-01.json'', File (JsonDoc (JArr [JObj [(''logId'', JInt 2), (''dateOfSleep'', JStr ''2023-01-02T00:00:00''), (''startTime'', JStr ''2023-01-02T00:00:00''), (''endTime'', JStr ''2023-01-02T00:00:00''), (''type'', JStr ''stages''), (''infoCode'', JInt 0), (''levels'', JObj [(''summary'', JObj [(''deep'', JObj [(''minutes'', JInt 60)])]), (''data'', JArr [JObj [(''dateTime'', JStr ''2023-01-02T00:00:00''), (''level'', JStr ''deep''), (''seconds'', JInt 30)]])])],
          JObj [(''logId'', JInt 1), (''dateOfSleep'', JStr ''2023-01-01T00:00:00''), (''startTime'', JStr ''2023-01-01T00:00:00''), (''endTime'', JStr ''2023-01-01T00:00:00''), (''type'', JStr ''stages''), (''infoCode'', JInt 0), (''levels'', JObj [(''summary'', JObj [(''deep'', JObj [(''minutes'', JInt 60)])]), (''data'', JArr [JObj [(''dateTime'', JStr ''2023-01-01T00:00:00''), (''level'', JStr ''deep''), (''seconds'', JInt 30)]])])]]))),
      (''sleep_score.csv'', File (CsvDoc [''timestamp'', ''overall_score''] [[JStr ''2023-01-02T00:00:00'', JInt 80], [JStr ''2023-01-01T00:00:00'', JInt 75]])),
      (''steps-2023-01-01.json'', File (JsonDoc (JArr [JObj [(''dateTime'', JStr ''2023-01-01T00:00:00''), (''value'', JStr ''12'')]]))),
      (''steps-2023-01-02.json'', File (JsonDoc (JArr [JObj [(''dateTime'', JStr ''2023-01-02T00:00:00''), (''value'', JStr ''7'')]]))),
      (''distance-2023-01-01.json'', File (JsonDoc (JArr [JObj [(''dateTime'', JStr ''2023-01-02T00:00:00''), (''value'', JStr ''900'')],
          JObj [(''dateTime'', JStr ''2023-01-01T00:00:00''), (''value'', JStr ''800'')]]))),
      (''sedentary_minutes-2023-01-01.json'', File (JsonDoc (JArr [JObj [(''dateTime'', JStr ''2023-01-02T00:00:00''), (''value'', JStr ''1000'')],
          JObj [(''dateTime'', JStr ''2023-01-01T00:00:00''), (''value'', JStr ''1100'')]]))),
      (''lightly_active_minutes-2023-01-01.json'', File (JsonDoc (JArr [JObj [(''dateTime'', JStr ''2023-01-02T00:00:00''), (''value'', JStr ''100'')],
          JObj [(''dateTime'', JStr ''2023-01-01T00:00:00''), (''value'', JStr ''90'')]]))),
      (''moderately_active_minutes-2023-01-01.json'', File (JsonDoc (JArr [JObj [(''dateTime'', JStr ''2023-01-02T00:00:00''), (''value'', JStr ''5'')]]))),
      (''very_active_minutes-2023-01-01.json'', File (JsonDoc (JArr [JObj [(''dateTime'', JStr ''2023-01-01T00:00:00''), (''value'', JStr ''3'')]]))),
      (''exercise-0.json'', File (JsonDoc (JArr
          [JObj [(''logId'', JInt 2), (''startTime'', JStr ''01/02/23 10:00:00'')],
           JObj [(''logId'', JInt 1), (''startTime'', JStr ''01/01/23 10:00:00'')]])))] [''sleep-2023-01-01.json''] = Inr (details, overviews, scores)
        \<and> index_ascending details \<and> index_ascending overviews \<and> index_ascending scores)
   \<and> (\<exists>out. prep_steps_data (table_parser [(''2023-01-01T00:00:00'', 0), (''2023-01-02T00:00:00'', 86400)]) [(''heart_rate-2023-01-01.json'', File (JsonDoc (JArr [JObj [(''dateTime'', JStr ''2023-01-01T00:00:00''), (''value'', JObj [(''bpm'', JInt 60), (''confidence'', JInt 2)])]]))),
      (''heart_rate-2023-01-02.json'', File (JsonDoc (JArr [JObj [(''dateTime'', JStr ''2023-01-02T00:00:00''), (''value'', JObj [(''bpm'', JInt 70), (''confidence'', JInt 3)])]]))),
      (''time_in_heart_rate_zones-2023-01-01.json'', File (JsonDoc (JArr [JObj [(''dateTime'', JStr ''2023-01-02T00:00:00''), (''value'', JObj [(''valuesInZones'', JObj [(''IN_DEFAULT_ZONE_1'', JInt 10)])])],
          JObj [(''dateTime'', JStr ''2023-01-01T00:00:00''), (''value'', JObj [(''valuesInZones'', JObj [(''IN_DEFAULT_ZONE_1'', JInt 20)])])]]))),
      (''resting_heart_rate-2023-01-01.json'', File (JsonDoc (JArr [JObj [(''dateTime'', JStr ''2023-01-02T00:00:00''), (''value'', JObj [(''date'', JStr ''2023-01-02T00:00:00''), (''value'', JInt 58), (''error'', JInt 6)])],
          JObj [(''dateTime'', JStr ''2023-01-01T00:00:00''), (''value'', JObj [(''date'', JStr ''2023-01-01T00:00:00''), (''value'', JInt 57), (''error'', JInt 6)])]]))),
      (''sleep-2023-01-01.json'', File (JsonDoc (JArr [JObj [(''logId'', JInt 2), (''dateOfSleep'', JStr ''2023-01-02T00:00:00''), (''startTime'', JStr ''2023-01-02T00:00:00''), (''endTime'', JStr ''2023-01-02T00:00:00''), (''type'', JStr ''stages''), (''infoCode'', JInt 0), (''levels'', JObj [(''summary'', JObj [(''deep'', JObj [(''minutes'', JInt 60)])]), (''data'', JArr [JObj [(''dateTime'', JStr ''2023-01-02T00:00:00''), (''level'', JStr ''deep''), (''seconds'', JInt 30)]])])],
          JObj [(''logId'', JInt 1), (''dateOfSleep'', JStr ''2023-01-01T00:00:00''), (''startTime'', JStr ''2023-01-01T00:00:00''), (''endTime'', JStr ''2023-01-01T00:00:00''), (''type'', JStr ''stages''), (''infoCode'', JInt 0), (''levels'', JObj [(''summary'', JObj [(''deep'', JObj [(''minutes'', JInt 60)])]), (''data'', JArr [JObj [(''dateTime'', JStr ''2023-01-01T00:00:00''), (''level'', JStr ''deep''), (''seconds'', JInt 30)]])])]]))),
      (''sleep_score.csv'', File (CsvDoc [''timestamp'', ''overall_score''] [[JStr ''2023-01-02T00:00:00'', JInt 80], [JStr ''2023-01-01T00:00:00'', JInt 75]])),
      (''steps-2023-01-01.json'', File (JsonDoc (JArr [JObj [(''dateTime'', JStr ''2023-01-01T00:00:00''), (''value'', JStr ''12'')]]))),
      (''steps-2023-01-02.json'', File (JsonDoc (JArr [JObj [(''dateTime'', JStr ''2023-01-02T00:00:00''), (''value'', JStr ''7'')]]))),
      (''distance-2023-01-01.json'', File (JsonDoc (JArr [JObj [(''dateTime'', JStr ''2023-01-02T00:00:00''), (''value'', JStr ''900'')],
          JObj [(''dateTime'', JStr ''2023-01-01T00:00:00''), (''value'', JStr ''800'')]]))),
      (''sedentary_minutes-2023-01-01.json'', File (JsonDoc (JArr [JObj [(''dateTime'', JStr ''2023-01-02T00:00:00''), (''value'', JStr ''1000'')],
          JObj [(''dateTime'', JStr ''2023-01-01T00:00:00''), (''value'', JStr ''1100'')]]))),
      (''lightly_active_minutes-2023-01-01.json'', File (JsonDoc (JArr [JObj [(''dateTime'', JStr ''2023-01-02T00:00:00''), (''value'', JStr ''100'')],
          JObj [(''dateTime'', JStr ''2023-01-01T00:00:00''), (''value'', JStr ''90'')]]))),
      (''moderately_active_minutes-2023-01-01.json'', File (JsonDoc (JArr [JObj [(''dateTime'', JStr ''2023-01-02T00:00:00''), (''value'', JStr ''5'')]]))),
      (''very_active_minutes-2023-01-01.json'', File (JsonDoc (JArr [JObj [(''dateTime'', JStr ''2023-01-01T00:00:00''), (''value'', JStr ''3'')]]))),
      (''exercise-0.json'', File (JsonDoc (JArr
          [JObj [(''logId'', JInt 2), (''startTime'', JStr ''01/02/23 10:00:00'')],
           JObj [(''logId'', JInt 1), (''startTime'', JStr ''01/01/23 10:00:00'')]])))] [''steps-2023-01-02.json'', ''steps-2023-01-01.json''] = Inr out
        \<and> index_ascending out)
   \<and> (\<exists>out. prep_distance_data (table_parser [(''2023-01-01T00:00:00'', 0), (''2023-01-02T00:00:00'', 86400)]) [(''heart_rate-2023-01-01.json'', File (JsonDoc (JArr [JObj [(''dateTime'', JStr ''2023-01-01T00:00:00''), (''value'', JObj [(''bpm'', JInt 60), (''confidence'', JInt 2)])]]))),
      (''heart_rate-2023-01-02.json'', File (JsonDoc (JArr [JObj [(''dateTime'', JStr ''2023-01-02T00:00:00''), (''value'', JObj [(''bpm'', JInt 70), (''confidence'', JInt 3)])]]))),
      (''time_in_heart_rate_zones-2023-01-01.json'', File (JsonDoc (JArr [JObj [(''dateTime'', JStr ''2023-01-02T00:00:00''), (''value'', JObj [(''valuesInZones'', JObj [(''IN_DEFAULT_ZONE_1'', JInt 10)])])],
          JObj [(''dateTime'', JStr ''2023-01-01T00:00:00''), (''value'', JObj [(''valuesInZones'', JObj [(''IN_DEFAULT_ZONE_1'', JInt 20)])])]]))),
      (''resting_heart_rate-2023-01-01.json'', File (JsonDoc (JArr [JObj [(''dateTime'', JStr ''2023-01-02T00:00:00''), (''value'', JObj [(''date'', JStr ''2023-01-02T00:00:00''), (''value'', JInt 58), (''error'', JInt 6)])],
          JObj [(''dateTime'', JStr ''2023-01-01T00:00:00''), (''value'', JObj [(''date'', JStr ''2023-01-01T00:00:00''), (''value'', JInt 57), (''error'', JInt 6)])]]))),
      (''sleep-2023-01-01.json'', File (JsonDoc (JArr [JObj [(''logId'', JInt 2), (''dateOfSleep'', JStr ''2023-01-02T00:00:00''), (''startTime'', JStr ''2023-01-02T00:00:00''), (''endTime'', JStr ''2023-01-02T00:00:00''), (''type'', JStr ''stages''), (''infoCode'', JInt 0), (''levels'', JObj [(''summary'', JObj [(''deep'', JObj [(''minutes'', JInt 60)])]), (''data'', JArr [JObj [(''dateTime'', JStr ''2023-01-02T00:00:00''), (''level'', JStr ''deep''), (''seconds'', JInt 30)]])])],
          JObj [(''logId'', JInt 1), (''dateOfSleep'', JStr ''2023-01-01T00:00:00''), (''startTime'', JStr ''2023-01-01T00:00:00''), (''endTime'', JStr ''2023-01-01T00:00:00''), (''type'', JStr ''stages''), (''infoCode'', JInt 0), (''levels'', JObj [(''summary'', JObj [(''deep'', JObj [(''minutes'', JInt 60)])]), (''data'', JArr [JObj [(''dateTime'', JStr ''2023-01-01T00:00:00''), (''level'', JStr ''deep''), (''seconds'', JInt 30)]])])]]))),
      (''sleep_score.csv'', File (CsvDoc [''timestamp'', ''overall_score''] [[JStr ''2023-01-02T00:00:00'', JInt 80], [JStr ''2023-01-01T00:00:00'', JInt 75]])),
      (''steps-2023-01-01.json'', File (JsonDoc (JArr [JObj [(''dateTime'', JStr ''2023-01-01T00:00:00''), (''value'', JStr ''12'')]]))),
      (''steps-2023-01-02.json'', File (JsonDoc (JArr [JObj [(''dateTime'', JStr ''2023-01-02T00:00:00''), (''value'', JStr ''7'')]]))),
      (''distance-2023-01-01.json'', File (JsonDoc (JArr [JObj [(''dateTime'', JStr ''2023-01-02T00:00:00''), (''value'', JStr ''900'')],
          JObj [(''dateTime'', JStr ''2023-01-01T00:00:00''), (''value'', JStr ''800'')]]))),
      (''sedentary_minutes-2023-01-01.json'', File (JsonDoc (JArr [JObj [(''dateTime'', JStr ''2023-01-02T00:00:00''), (''value'', JStr ''1000'')],
          JObj [(''dateTime'', JStr ''2023-01-01T00:00:00''), (''value'', JStr ''1100'')]]))),
      (''lightly_active_minutes-2023-01-01.json'', File (JsonDoc (JArr [JObj [(''dateTime'', JStr ''2023-01-02T00:00:00''), (''value'', JStr ''100'')],
          JObj [(''dateTime'', JStr ''2023-01-01T00:00:00''), (''value'', JStr ''90'')]]))),
      (''moderately_active_minutes-2023-01-01.json'', File (JsonDoc (JArr [JObj [(''dateTime'', JStr ''2023-01-02T00:00:00''), (''value'', JStr ''5'')]]))),
      (''very_active_minutes-2023-01-01.json'', File (JsonDoc (JArr [JObj [(''dateTime'', JStr ''2023-01-01T00:00:00''), (''value'', JStr ''3'')]]))),
      (''exercise-0.json'', File (JsonDoc (JArr
          [JObj [(''logId'', JInt 2), (''startTime'', JStr ''01/02/23 10:00:00'')],
           JObj [(''logId'', JInt 1), (''startTime'', JStr ''01/01/23 10:00:00'')]])))] [''distance-2023-01-01.json''] = Inr out
        \<and> index_ascending out)
   \<and> (\<exists>out. prep_activity_level_data (table_parser [(''2023-01-01T00:00:00'', 0), (''2023-01-02T00:00:00'', 86400)]) decimal [(''heart_rate-2023-01-01.json'', File (JsonDoc (JArr [JObj [(''dateTime'', JStr ''2023-01-01T00:00:00''), (''value'', JObj [(''bpm'', JInt 60), (''confidence'', JInt 2)])]]))),
      (''heart_rate-2023-01-02.json'', File (JsonDoc (JArr [JObj [(''dateTime'', JStr ''2023-01-02T00:00:00''), (''value'', JObj [(''bpm'', JInt 70), (''confidence'', JInt 3)])]]))),
      (''time_in_heart_rate_zones-2023-01-01.json'', File (JsonDoc (JArr [JObj [(''dateTime'', JStr ''2023-01-02T00:00:00''), (''value'', JObj [(''valuesInZones'', JObj [(''IN_DEFAULT_ZONE_1'', JInt 10)])])],
          JObj [(''dateTime'', JStr ''2023-01-01T00:00:00''), (''value'', JObj [(''valuesInZones'', JObj [(''IN_DEFAULT_ZONE_1'', JInt 20)])])]]))),
      (''resting_heart_rate-2023-01-01.json'', File (JsonDoc (JArr [JObj [(''dateTime'', JStr ''2023-01-02T00:00:00''), (''value'', JObj [(''date'', JStr ''2023-01-02T00:00:00''), (''value'', JInt 58), (''error'', JInt 6)])],
          JObj [(''dateTime'', JStr ''2023-01-01T00:00:00''), (''value'', JObj [(''date'', JStr ''2023-01-01T00:00:00''), (''value'', JInt 57), (''error'', JInt 6)])]]))),
      (''sleep-2023-01-01.json'', File (JsonDoc (JArr [JObj [(''logId'', JInt 2), (''dateOfSleep'', JStr ''2023-01-02T00:00:00''), (''startTime'', JStr ''2023-01-02T00:00:00''), (''endTime'', JStr ''2023-01-02T00:00:00''), (''type'', JStr ''stages''), (''infoCode'', JInt 0), (''levels'', JObj [(''summary'', JObj [(''deep'', JObj [(''minutes'', JInt 60)])]), (''data'', JArr [JObj [(''dateTime'', JStr ''2023-01-02T00:00:00''), (''level'', JStr ''deep''), (''seconds'', JInt 30)]])])],
          JObj [(''logId'', JInt 1), (''dateOfSleep'', JStr ''2023-01-01T00:00:00''), (''startTime'', JStr ''2023-01-01T00:00:00''), (''endTime'', JStr ''2023-01-01T00:00:00''), (''type'', JStr ''stages''), (''infoCode'', JInt 0), (''levels'', JObj [(''summary'', JObj [(''deep'', JObj [(''minutes'', JInt 60)])]), (''data'', JArr [JObj [(''dateTime'', JStr ''2023-01-01T00:00:00''), (''level'', JStr ''deep''), (''seconds'', JInt 30)]])])]]))),
      (''sleep_score.csv'', File (CsvDoc [''timestamp'', ''overall_score''] [[JStr ''2023-01-02T00:00:00'', JInt 80], [JStr ''2023-01-01T00:00:00'', JInt 75]])),
      (''steps-2023-01-01.json'', File (JsonDoc (JArr [JObj [(''dateTime'', JStr ''2023-01-01T00:00:00''), (''value'', JStr ''12'')]]))),
      (''steps-2023-01-02.json'', File (JsonDoc (JArr [JObj [(''dateTime'', JStr ''2023-01-02T00:00:00''), (''value'', JStr ''7'')]]))),
      (''distance-2023-01-01.json'', File (JsonDoc (JArr [JObj [(''dateTime'', JStr ''2023-01-02T00:00:00''), (''value'', JStr ''900'')],
          JObj [(''dateTime'', JStr ''2023-01-01T00:00:00''), (''value'', JStr ''800'')]]))),
      (''sedentary_minutes-2023-01-01.json'', File (JsonDoc (JArr [JObj [(''dateTime'', JStr ''2023-01-02T00:00:00''), (''value'', JStr ''1000'')],
          JObj [(''dateTime'', JStr ''2023-01-01T00:00:00''), (''value'', JStr ''1100'')]]))),
      (''lightly_active_minutes-2023-01-01.json'', File (JsonDoc (JArr [JObj [(''dateTime'', JStr ''2023-01-02T00:00:00''), (''value'', JStr ''100'')],
          JObj [(''dateTime'', JStr ''2023-01-01T00:00:00''), (''value'', JStr ''90'')]]))),
      (''moderately_active_minutes-2023-01-01.json'', File (JsonDoc (JArr [JObj [(''dateTime'', JStr ''2023-01-02T00:00:00''), (''value'', JStr ''5'')]]))),
      (''very_active_minutes-2023-01-01.json'', File (JsonDoc (JArr [JObj [(''dateTime'', JStr ''2023-01-01T00:00:00''), (''value'', JStr ''3'')]]))),
      (''exercise-0.json'', File (JsonDoc (JArr
          [JObj [(''logId'', JInt 2), (''startTime'', JStr ''01/02/23 10:00:00'')],
           JObj [(''logId'', JInt 1), (''startTime'', JStr ''01/01/23 10:00:00'')]])))] (\<lambda>level. [level @ ''_minutes-2023-01-01.json'']) = Inr out \<and> index_ascending out)
   \<and> (\<exists>t1 t2 m n. prep_exercise_data [(''heart_rate-2023-01-01.json'', File (JsonDoc (JArr [JObj [(''dateTime'', JStr ''2023-01-01T00:00:00''), (''value'', JObj [(''bpm'', JInt 60), (''confidence'', JInt 2)])]]))),
      (''heart_rate-2023-01-02.json'', File (JsonDoc (JArr [JObj [(''dateTime'', JStr ''2023-01-02T00:00:00''), (''value'', JObj [(''bpm'', JInt 70), (''confidence'', JInt 3)])]]))),
      (''time_in_heart_rate_zones-2023-01-01.json'', File (JsonDoc (JArr [JObj [(''dateTime'', JStr ''2023-01-02T00:00:00''), (''value'', JObj [(''valuesInZones'', JObj [(''IN_DEFAULT_ZONE_1'', JInt 10)])])],
          JObj [(''dateTime'', JStr ''2023-01-01T00:00:00''), (''value'', JObj [(''valuesInZones'', JObj [(''IN_DEFAULT_ZONE_1'', JInt 20)])])]]))),
      (''resting_heart_rate-2023-01-01.json'', File (JsonDoc (JArr [JObj [(''dateTime'', JStr ''2023-01-02T00:00:00''), (''value'', JObj [(''date'', JStr ''2023-01-02T00:00:00''), (''value'', JInt 58), (''error'', JInt 6)])],
          JObj [(''dateTime'', JStr ''2023-01-01T00:00:00''), (''value'', JObj [(''date'', JStr ''2023-01-01T00:00:00''), (''value'', JInt 57), (''error'', JInt 6)])]]))),
      (''sleep-2023-01-01.json'', File (JsonDoc (JArr [JObj [(''logId'', JInt 2), (''dateOfSleep'', JStr ''2023-01-02T00:00:00''), (''startTime'', JStr ''2023-01-02T00:00:00''), (''endTime'', JStr ''2023-01-02T00:00:00''), (''type'', JStr ''stages''), (''infoCode'', JInt 0), (''levels'', JObj [(''summary'', JObj [(''deep'', JObj [(''minutes'', JInt 60)])]), (''data'', JArr [JObj [(''dateTime'', JStr ''2023-01-02T00:00:00''), (''level'', JStr ''deep''), (''seconds'', JInt 30)]])])],
          JObj [(''logId'', JInt 1), (''dateOfSleep'', JStr ''2023-01-01T00:00:00''), (''startTime'', JStr ''2023-01-01T00:00:00''), (''endTime'', JStr ''2023-01-01T00:00:00''), (''type'', JStr ''stages''), (''infoCode'', JInt 0), (''levels'', JObj [(''summary'', JObj [(''deep'', JObj [(''minutes'', JInt 60)])]), (''data'', JArr [JObj [(''dateTime'', JStr ''2023-01-01T00:00:00''), (''level'', JStr ''deep''), (''seconds'', JInt 30)]])])]]))),
      (''sleep_score.csv'', File (CsvDoc [''timestamp'', ''overall_score''] [[JStr ''2023-01-02T00:00:00'', JInt 80], [JStr ''2023-01-01T00:00:00'', JInt 75]])),
      (''steps-2023-01-01.json'', File (JsonDoc (JArr [JObj [(''dateTime'', JStr ''2023-01-01T00:00:00''), (''value'', JStr ''12'')]]))),
      (''steps-2023-01-02.json'', File (JsonDoc (JArr [JObj [(''dateTime'', JStr ''2023-01-02T00:00:00''), (''value'', JStr ''7'')]]))),
      (''distance-2023-01-01.json'', File (JsonDoc (JArr [JObj [(''dateTime'', JStr ''2023-01-02T00:00:00''), (''value'', JStr ''900'')],
          JObj [(''dateTime'', JStr ''2023-01-01T00:00:00''), (''value'', JStr ''800'')]]))),
      (''sedentary_minutes-2023-01-01.json'', File (JsonDoc (JArr [JObj [(''dateTime'', JStr ''2023-01-02T00:00:00''), (''value'', JStr ''1000'')],
          JObj [(''dateTime'', JStr ''2023-01-01T00:00:00''), (''value'', JStr ''1100'')]]))),
      (''lightly_active_minutes-2023-01-01.json'', File (JsonDoc (JArr [JObj [(''dateTime'', JStr ''2023-01-02T00:00:00''), (''value'', JStr ''100'')],
          JObj [(''dateTime'', JStr ''2023-01-01T00:00:00''), (''value'', JStr ''90'')]]))),
      (''moderately_active_minutes-2023-01-01.json'', File (JsonDoc (JArr [JObj [(''dateTime'', JStr ''2023-01-02T00:00:00''), (''value'', JStr ''5'')]]))),
      (''very_active_minutes-2023-01-01.json'', File (JsonDoc (JArr [JObj [(''dateTime'', JStr ''2023-01-01T00:00:00''), (''value'', JStr ''3'')]]))),
      (''exercise-0.json'', File (JsonDoc (JArr
          [JObj [(''logId'', JInt 2), (''startTime'', JStr ''01/02/23 10:00:00'')],
           JObj [(''logId'', JInt 1), (''startTime'', JStr ''01/01/23 10:00:00'')]])))] [''exercise-0.json''] = Inr (t1, t2)
        \<and> map fst (body t2) = replicate m (Val (JInt 2)) @ replicate n (Val (JInt 1)))"
proof -
  let ?parse = "(table_parser [(''2023-01-01T00:00:00'', 0), (''2023-01-02T00:00:00'', 86400)])"
  let ?raw = "[(''heart_rate-2023-01-01.json'', File (JsonDoc (JArr [JObj [(''dateTime'', JStr ''2023-01-01T00:00:00''), (''value'', JObj [(''bpm'', JInt 60), (''confidence'', JInt 2)])]]))),
      (''heart_rate-2023-01-02.json'', File (JsonDoc (JArr [JObj [(''dateTime'', JStr ''2023-01-02T00:00:00''), (''value'', JObj [(''bpm'', JInt 70), (''confidence'', JInt 3)])]]))),
      (''time_in_heart_rate_zones-2023-01-01.json'', File (JsonDoc (JArr [JObj [(''dateTime'', JStr ''2023-01-02T00:00:00''), (''value'', JObj [(''valuesInZones'', JObj [(''IN_DEFAULT_ZONE_1'', JInt 10)])])],
          JObj [(''dateTime'', JStr ''2023-01-01T00:00:00''), (''value'', JObj [(''valuesInZones'', JObj [(''IN_DEFAULT_ZONE_1'', JInt 20)])])]]))),
      (''resting_heart_rate-2023-01-01.json'', File (JsonDoc (JArr [JObj [(''dateTime'', JStr ''2023-01-02T00:00:00''), (''value'', JObj [(''date'', JStr ''2023-01-02T00:00:00''), (''value'', JInt 58), (''error'', JInt 6)])],
          JObj [(''dateTime'', JStr ''2023-01-01T00:00:00''), (''value'', JObj [(''date'', JStr ''2023-01-01T00:00:00''), (''value'', JInt 57), (''error'', JInt 6)])]]))),
      (''sleep-2023-01-01.json'', File (JsonDoc (JArr [JObj [(''logId'', JInt 2), (''dateOfSleep'', JStr ''2023-01-02T00:00:00''), (''startTime'', JStr ''2023-01-02T00:00:00''), (''endTime'', JStr ''2023-01-02T00:00:00''), (''type'', JStr ''stages''), (''infoCode'', JInt 0), (''levels'', JObj [(''summary'', JObj [(''deep'', JObj [(''minutes'', JInt 60)])]), (''data'', JArr [JObj [(''dateTime'', JStr ''2023-01-02T00:00:00''), (''level'', JStr ''deep''), (''seconds'', JInt 30)]])])],
          JObj [(''logId'', JInt 1), (''dateOfSleep'', JStr ''2023-01-01T00:00:00''), (''startTime'', JStr ''2023-01-01T00:00:00''), (''endTime'', JStr ''2023-01-01T00:00:00''), (''type'', JStr ''stages''), (''infoCode'', JInt 0), (''levels'', JObj [(''summary'', JObj [(''deep'', JObj [(''minutes'', JInt 60)])]), (''data'', JArr [JObj [(''dateTime'', JStr ''2023-01-01T00:00:00''), (''level'', JStr ''deep''), (''seconds'', JInt 30)]])])]]))),
      (''sleep_score.csv'', File (CsvDoc [''timestamp'', ''overall_score''] [[JStr ''2023-01-02T00:00:00'', JInt 80], [JStr ''2023-01-01T00:00:00'', JInt 75]])),
      (''steps-2023-01-01.json'', File (JsonDoc (JArr [JObj [(''dateTime'', JStr ''2023-01-01T00:00:00''), (''value'', JStr ''12'')]]))),
      (''steps-2023-01-02.json'', File (JsonDoc (JArr [JObj [(''dateTime'', JStr ''2023-01-02T00:00:00''), (''value'', JStr ''7'')]]))),
      (''distance-2023-01-01.json'', File (JsonDoc (JArr [JObj [(''dateTime'', JStr ''2023-01-02T00:00:00''), (''value'', JStr ''900'')],
          JObj [(''dateTime'', JStr ''2023-01-01T00:00:00''), (''value'', JStr ''800'')]]))),
      (''sedentary_minutes-2023-01-01.json'', File (JsonDoc (JArr [JObj [(''dateTime'', JStr ''2023-01-02T00:00:00''), (''value'', JStr ''1000'')],
          JObj [(''dateTime'', JStr ''2023-01-01T00:00:00''), (''value'', JStr ''1100'')]]))),
      (''lightly_active_minutes-2023-01-01.json'', File (JsonDoc (JArr [JObj [(''dateTime'', JStr ''2023-01-02T00:00:00''), (''value'', JStr ''100'')],
          JObj [(''dateTime'', JStr ''2023-01-01T00:00:00''), (''value'', JStr ''90'')]]))),
      (''moderately_active_minutes-2023-01-01.json'', File (JsonDoc (JArr [JObj [(''dateTime'', JStr ''2023-01-02T00:00:00''), (''value'', JStr ''5'')]]))),
      (''very_active_minutes-2023-01-01.json'', File (JsonDoc (JArr [JObj [(''dateTime'', JStr ''2023-01-01T00:00:00''), (''value'', JStr ''3'')]]))),
      (''exercise-0.json'', File (JsonDoc (JArr
          [JObj [(''logId'', JInt 2), (''startTime'', JStr ''01/02/23 10:00:00'')],
           JObj [(''logId'', JInt 1), (''startTime'', JStr ''01/01/23 10:00:00'')]])))]"
  let ?fls = "(\<lambda>level. [level @ ''_minutes-2023-01-01.json''])"
  let ?hr = "\<lparr>columns = [''bpm'', ''confidence''],
             body = [(Time (Some 0), [(''bpm'', Val (JInt 60)), (''confidence'', Val (JInt 2))]),
                     (Time (Some 86400), [(''bpm'', Val (JInt 70)), (''confidence'', Val (JInt 3))])]\<rparr>"
  let ?hrfl = "[''heart_rate-2023-01-02.json'', ''heart_rate-2023-01-01.json'']"
  have hr: "Written ''heart_rate.csv'' ?hr
          \<in> set (fst (prep_heart_rate_details ''csv'' ?parse (resample_mean seconds) ?raw ?hrfl))"
    by code_simp
  have daily: "Written ''heart_rate_daily.csv'' ?hr
          \<in> set (fst (prep_heart_rate_details ''csv'' ?parse (resample_mean seconds) ?raw ?hrfl))"
    by code_simp
  have hourly: "list_ex (\<lambda>ev. case ev of Written name df \<Rightarrow> name = ''heart_rate_hourly.csv'' \<and> length (body df) = 25 | _ \<Rightarrow> False)
                  (fst (prep_heart_rate_details ''csv'' ?parse (resample_mean seconds) ?raw ?hrfl))"
    by code_simp
  then obtain ev
    where ev: "ev \<in> set (fst (prep_heart_rate_details ''csv'' ?parse (resample_mean seconds) ?raw ?hrfl))"
      and c: "(case ev of Written name df \<Rightarrow> name = ''heart_rate_hourly.csv'' \<and> length (body df) = 25 | _ \<Rightarrow> False)"
    unfolding list_ex_iff by blast
  from c obtain h where "ev = Written ''heart_rate_hourly.csv'' h" and h25: "length (body h) = 25"
    by (cases ev) auto
  with ev have h: "Written ''heart_rate_hourly.csv'' h
          \<in> set (fst (prep_heart_rate_details ''csv'' ?parse (resample_mean seconds) ?raw ?hrfl))"
    by simp
  have xr: "prep_heart_rate_details_xr ?parse ?raw ?hrfl = Inr ?hr"
    by code_simp
  have "\<not> isl (prep_heart_rate_zoning_data ?parse ?raw [''time_in_heart_rate_zones-2023-01-01.json''])"
    by code_simp
  then obtain zones
    where zones: "prep_heart_rate_zoning_data ?parse ?raw [''time_in_heart_rate_zones-2023-01-01.json''] = Inr zones"
    by (cases "prep_heart_rate_zoning_data ?parse ?raw [''time_in_heart_rate_zones-2023-01-01.json'']") auto
  have "\<not> isl (prep_heart_rate_resting_data ?parse ?raw [''resting_heart_rate-2023-01-01.json''])"
    by code_simp
  then obtain resting
    where resting: "prep_heart_rate_resting_data ?parse ?raw [''resting_heart_rate-2023-01-01.json''] = Inr resting"
    by (cases "prep_heart_rate_resting_data ?parse ?raw [''resting_heart_rate-2023-01-01.json'']") auto
  have "\<not> isl (prep_sleep_data ?parse ?raw [''sleep-2023-01-01.json''])"
    by code_simp
  then obtain details overviews scores
    where sleep: "prep_sleep_data ?parse ?raw [''sleep-2023-01-01.json''] = Inr (details, overviews, scores)"
    by (cases "prep_sleep_data ?parse ?raw [''sleep-2023-01-01.json'']") auto
  have "\<not> isl (prep_steps_data ?parse ?raw [''steps-2023-01-02.json'', ''steps-2023-01-01.json''])"
    by code_simp
  then obtain steps
    where steps: "prep_steps_data ?parse ?raw [''steps-2023-01-02.json'', ''steps-2023-01-01.json''] = Inr steps"
    by (cases "prep_steps_data ?parse ?raw [''steps-2023-01-02.json'', ''steps-2023-01-01.json'']") auto
  have "\<not> isl (prep_distance_data ?parse ?raw [''distance-2023-01-01.json''])"
    by code_simp
  then obtain distance
    where distance: "prep_distance_data ?parse ?raw [''distance-2023-01-01.json''] = Inr distance"
    by (cases "prep_distance_data ?parse ?raw [''distance-2023-01-01.json'']") auto
  have "\<not> isl (prep_activity_level_data ?parse decimal ?raw ?fls)"
    by code_simp
  then obtain activity
    where activity: "prep_activity_level_data ?parse decimal ?raw ?fls = Inr activity"
    by (cases "prep_activity_level_data ?parse decimal ?raw ?fls") auto
  have "\<not> isl (prep_exercise_data ?raw [''exercise-0.json''])"
    by code_simp
  then obtain t1 t2
    where exercise: "prep_exercise_data ?raw [''exercise-0.json''] = Inr (t1, t2)"
    by (cases "prep_exercise_data ?raw [''exercise-0.json'']") auto
  have entries: "files_to_json ?raw [''exercise-0.json''] = Inr [JObj [(''logId'', JInt 2), (''startTime'', JStr ''01/02/23 10:00:00'')], JObj [(''logId'', JInt 1), (''startTime'', JStr ''01/01/23 10:00:00'')]]"
    by code_simp
  note t = time_index_ascending [where parse = ?parse and raw = ?raw]
  note heart = t [where fmt = "''csv''" and s = seconds and file_list = ?hrfl,
        THEN conjunct1, rule_format]
  have 1: "index_ascending ?hr"
    using hr by (rule heart)
  have 9: "index_ascending h"
    using h by (rule heart)
  have 2: "index_ascending zones"
    using t [where file_list = "[''time_in_heart_rate_zones-2023-01-01.json'']",
        THEN conjunct2, THEN conjunct2, THEN conjunct1, rule_format, OF zones] .
  have 3: "index_ascending resting"
    using t [where file_list = "[''resting_heart_rate-2023-01-01.json'']",
        THEN conjunct2, THEN conjunct2, THEN conjunct2, THEN conjunct1, rule_format, OF resting] .
  have 4: "index_ascending details \<and> index_ascending overviews \<and> index_ascending scores"
    using t [where file_list = "[''sleep-2023-01-01.json'']",
        THEN conjunct2, THEN conjunct2, THEN conjunct2, THEN conjunct2, THEN conjunct1,
        rule_format, OF sleep] .
  have 5: "index_ascending steps"
    using t [where file_list = "[''steps-2023-01-02.json'', ''steps-2023-01-01.json'']",
        THEN conjunct2, THEN conjunct2, THEN conjunct2, THEN conjunct2, THEN conjunct2,
        THEN conjunct1, rule_format, OF steps] .
  have 6: "index_ascending distance"
    using t [where file_list = "[''distance-2023-01-01.json'']",
        THEN conjunct2, THEN conjunct2, THEN conjunct2, THEN conjunct2, THEN conjunct2,
        THEN conjunct2, THEN conjunct1, rule_format, OF distance] .
  have 7: "index_ascending activity"
    using t [where file_lists = ?fls and py_int = decimal,
        THEN conjunct2, THEN conjunct2, THEN conjunct2, THEN conjunct2, THEN conjunct2,
        THEN conjunct2, THEN conjunct2, THEN conjunct1, rule_format, OF activity] .
  from t [where file_list = "[''exercise-0.json'']",
        THEN conjunct2, THEN conjunct2, THEN conjunct2, THEN conjunct2, THEN conjunct2,
        THEN conjunct2, THEN conjunct2, THEN conjunct2, rule_format, OF entries exercise,
        THEN conjunct2]
  obtain counts where len: "length counts = length [JObj [(''logId'', JInt 2), (''startTime'', JStr ''01/02/23 10:00:00'')], JObj [(''logId'', JInt 1), (''startTime'', JStr ''01/01/23 10:00:00'')]]"
    and idx: "map fst (body t2)
              = concat (map (\<lambda>(e, n). replicate n (Val (pull_field e ''logId'')))
                          (zip [JObj [(''logId'', JInt 2), (''startTime'', JStr ''01/02/23 10:00:00'')], JObj [(''logId'', JInt 1), (''startTime'', JStr ''01/01/23 10:00:00'')]] counts))"
    by blast
  from len obtain m n where "counts = [m, n]"
    by (cases counts; cases "tl counts") auto
  with idx have 8: "map fst (body t2) = replicate m (Val (JInt 2)) @ replicate n (Val (JInt 1))"
    by (simp add: pull_field_def lookup_json_def)
  from hr daily 1 h h25 9 xr zones 2 resting 3 sleep 4 steps 5 distance 6 activity 7 exercise 8
  show ?thesis
    by blast
qed

text \<open>
  The exercise tables are not sorted. Two entries, the later one first: both tables carry
  the log ids in the order of the entries, \<open>2\<close> before \<open>1\<close>.
\<close>

theorem exercise_index_not_ascending:
  "\<not> isl (prep_exercise_data [(''exercise-0.json'', File (JsonDoc (JArr
          [JObj [(''logId'', JInt 2), (''startTime'', JStr ''01/02/23 10:00:00'')],
           JObj [(''logId'', JInt 1), (''startTime'', JStr ''01/01/23 10:00:00'')]])))] [''exercise-0.json''])
   \<and> map fst (body (snd (projr (prep_exercise_data [(''exercise-0.json'', File (JsonDoc (JArr
          [JObj [(''logId'', JInt 2), (''startTime'', JStr ''01/02/23 10:00:00'')],
           JObj [(''logId'', JInt 1), (''startTime'', JStr ''01/01/23 10:00:00'')]])))] [''exercise-0.json'']))))
       = [Val (JInt 2), Val (JInt 2), Val (JInt 2), Val (JInt 2),
          Val (JInt 1), Val (JInt 1), Val (JInt 1), Val (JInt 1)]
   \<and> \<not> index_ascending (fst (projr (prep_exercise_data [(''exercise-0.json'', File (JsonDoc (JArr
          [JObj [(''logId'', JInt 2), (''startTime'', JStr ''01/02/23 10:00:00'')],
           JObj [(''logId'', JInt 1), (''startTime'', JStr ''01/01/23 10:00:00'')]])))] [''exercise-0.json''])))
   \<and> \<not> index_ascending (snd (projr (prep_exercise_data [(''exercise-0.json'', File (JsonDoc (JArr
          [JObj [(''logId'', JInt 2), (''startTime'', JStr ''01/02/23 10:00:00'')],
           JObj [(''logId'', JInt 1), (''startTime'', JStr ''01/01/23 10:00:00'')]])))] [''exercise-0.json''])))"
  by code_simp

end
